theory Spec2Isabelle
  imports Complex_Main "HOL-Library.Word"
begin

section \<open>The SketchUp SDK as the exporter sees it\<close>

text \<open>
  \<^verbatim>\<open>XMLExporter.cpp\<close> reads a SketchUp model through the C API of the SDK and hands
  output records to an XML writer. The SDK is an external collaborator: every entry
  point returns a status code and fills an out-parameter. An SDK object is modelled by
  the table of answers it gives to the queries the exporter makes, one selector per
  entry point: a pair of the returned status and the value written to the
  out-parameter. For the array queries (a count query followed by a fetch into a
  buffer of that capacity) the table holds the two statuses and the list of elements;
  the count reported is the length of the list and the fetch fills at most the
  capacity passed.

  Only \<^verbatim>\<open>SU_ERROR_NONE\<close> is named by the source; every other status code is
  \<open>SU_ERROR n\<close>.
\<close>

datatype SUResult = SU_ERROR_NONE | SU_ERROR nat

text \<open>The status the SDK returns when it is handed an invalid reference.\<close>

definition SU_ERROR_INVALID_INPUT :: SUResult where
  "SU_ERROR_INVALID_INPUT = SU_ERROR 2"

text \<open>
  The C type \<^verbatim>\<open>double\<close> carries coordinates, scales, opacity and percentages. The
  exporter only copies these values and passes literals, it never computes with them.
\<close>

type_synonym double = real

datatype SUPoint3D = SUPoint3D double double double

datatype SUColor = SUColor "8 word" "8 word" "8 word" "8 word"

datatype SUTransformation = SUTransformation "double list"

datatype SUMaterialType =
  SUMaterialType_Colored | SUMaterialType_Textured | SUMaterialType_ColorizedTexture

text \<open>
  Names are returned through the \<^verbatim>\<open>CSUString\<close> wrapper; the table holds the
  \<^verbatim>\<open>std::string\<close> that \<^verbatim>\<open>utf8()\<close> yields for the name the SDK stored.
\<close>

datatype SUTexture = SUTexture
  (SUTextureGetFileName: "SUResult \<times> string")
  (SUTextureGetDimensions: "SUResult \<times> (nat \<times> nat \<times> double \<times> double)")

datatype SUMaterial = SUMaterial
  (SUMaterialGetName: "SUResult \<times> string")
  (SUMaterialGetType: "SUResult \<times> SUMaterialType")
  (SUMaterialGetColor: "SUResult \<times> SUColor")
  (SUMaterialGetUseOpacity: "SUResult \<times> bool")
  (SUMaterialGetOpacity: "SUResult \<times> double")
  (SUMaterialGetTexture: "SUResult \<times> SUTexture")

datatype SULayer = SULayer
  (SULayerGetName: "SUResult \<times> string")
  (SULayerGetMaterial: "SUResult \<times> SUMaterial")
  (SULayerGetVisibility: "SUResult \<times> bool")

text \<open>
  A reference (\<^verbatim>\<open>SULayerRef\<close>, \<^verbatim>\<open>SUMaterialRef\<close>, ...) is an option: \<open>None\<close> is
  \<^verbatim>\<open>SU_INVALID\<close>, and \<^verbatim>\<open>SUIsInvalid(r)\<close> is \<open>r = None\<close>. The layer and the
  material of a drawing element are references, which the exporter tests for validity
  after the query.
\<close>

datatype SUDrawingElement = SUDrawingElement
  (SUDrawingElementGetLayer: "SUResult \<times> SULayer option")
  (SUDrawingElementGetMaterial: "SUResult \<times> SUMaterial option")

datatype SUComponentDefinition = SUComponentDefinition
  (SUComponentDefinitionGetName: "SUResult \<times> string")

datatype SUComponentInstance = SUComponentInstance
  (SUComponentInstanceToDrawingElement: SUDrawingElement)
  (SUComponentInstanceGetDefinition: "SUResult \<times> SUComponentDefinition")
  (SUComponentInstanceGetTransform: "SUResult \<times> SUTransformation")

datatype SUVertex = SUVertex
  (SUVertexGetPosition: "SUResult \<times> SUPoint3D")

datatype SULoop = SULoop
  (SULoopGetNumVertices_status: SUResult)
  (SULoopGetVertices_status: SUResult)
  (loop_vertices: "SUVertex list")

datatype SUFace = SUFace
  (SUFaceToDrawingElement: SUDrawingElement)
  (SUFaceGetOuterLoop: "SUResult \<times> SULoop")
  (SUFaceGetNumInnerLoops_status: SUResult)
  (SUFaceGetInnerLoops_status: SUResult)
  (face_inner_loops: "SULoop list")

datatype SUEdge = SUEdge
  (SUEdgeToDrawingElement: SUDrawingElement)
  (SUEdgeGetStartVertex: "SUResult \<times> SUVertex")
  (SUEdgeGetEndVertex: "SUResult \<times> SUVertex")

text \<open>
  An entities collection holds component instances, groups, faces and edges; a group
  holds a nested entities collection. The list of faces holds references, since
  \<^verbatim>\<open>WriteFace\<close> tests the face it is handed for validity.
\<close>

datatype SUEntities = SUEntities
  (SUEntitiesGetNumInstances_status: SUResult)
  (SUEntitiesGetInstances_status: SUResult)
  (entities_instances: "SUComponentInstance list")
  (SUEntitiesGetNumGroups_status: SUResult)
  (SUEntitiesGetGroups_status: SUResult)
  (entities_groups: "SUGroup list")
  (SUEntitiesGetNumFaces_status: SUResult)
  (SUEntitiesGetFaces_status: SUResult)
  (entities_faces: "SUFace option list")
  (entities_edges: "SUEdge list")
and SUGroup = SUGroup
  (SUGroupToDrawingElement: SUDrawingElement)
  (SUGroupGetEntities: "SUResult \<times> SUEntities")
  (SUGroupGetTransform: "SUResult \<times> SUTransformation")

text \<open>
  Modelled from the spec: the texture helper (\<^verbatim>\<open>xmltexturehelper.h\<close>) is not part of
  the source. It loads the textures of the model into the texture writer through SDK
  calls, which raise on a non-success status like all wrapped calls, and returns the
  number of textures loaded. The table of the model holds its outcome for either
  value of the by-layer flag.
\<close>

datatype SUModel = SUModel
  (SUModelGetVersion: "SUResult \<times> (int \<times> int \<times> int)")
  (SUModelGetNumLayers_status: SUResult)
  (SUModelGetLayers_status: SUResult)
  (model_layers: "SULayer option list")
  (SUModelGetNumMaterials_status: SUResult)
  (SUModelGetMaterials_status: SUResult)
  (model_materials: "SUMaterial option list")
  (SUModelGetEntities: "SUResult \<times> SUEntities")
  (LoadAllTextures: "bool \<Rightarrow> SUResult \<times> nat")

datatype SUTextureWriter = SUTextureWriter
  (SUTextureWriterWriteAllTextures: SUResult)

text \<open>The array queries: the count, and the fetch into a buffer of capacity \<open>len\<close>.\<close>

definition SULoopGetNumVertices :: "SULoop \<Rightarrow> SUResult \<times> nat" where
  "SULoopGetNumVertices loop = (SULoopGetNumVertices_status loop, length (loop_vertices loop))"

definition SULoopGetVertices :: "SULoop \<Rightarrow> nat \<Rightarrow> SUResult \<times> SUVertex list" where
  "SULoopGetVertices loop len = (SULoopGetVertices_status loop, take len (loop_vertices loop))"

definition SUFaceGetNumInnerLoops :: "SUFace \<Rightarrow> SUResult \<times> nat" where
  "SUFaceGetNumInnerLoops face =
     (SUFaceGetNumInnerLoops_status face, length (face_inner_loops face))"

definition SUFaceGetInnerLoops :: "SUFace \<Rightarrow> nat \<Rightarrow> SUResult \<times> SULoop list" where
  "SUFaceGetInnerLoops face len =
     (SUFaceGetInnerLoops_status face, take len (face_inner_loops face))"

definition SUEntitiesGetNumInstances :: "SUEntities \<Rightarrow> SUResult \<times> nat" where
  "SUEntitiesGetNumInstances entities =
     (SUEntitiesGetNumInstances_status entities, length (entities_instances entities))"

definition SUEntitiesGetInstances ::
  "SUEntities \<Rightarrow> nat \<Rightarrow> SUResult \<times> SUComponentInstance list" where
  "SUEntitiesGetInstances entities len =
     (SUEntitiesGetInstances_status entities, take len (entities_instances entities))"

definition SUEntitiesGetNumGroups :: "SUEntities \<Rightarrow> SUResult \<times> nat" where
  "SUEntitiesGetNumGroups entities =
     (SUEntitiesGetNumGroups_status entities, length (entities_groups entities))"

definition SUEntitiesGetGroups :: "SUEntities \<Rightarrow> nat \<Rightarrow> SUResult \<times> SUGroup list" where
  "SUEntitiesGetGroups entities len =
     (SUEntitiesGetGroups_status entities, take len (entities_groups entities))"

definition SUEntitiesGetNumFaces :: "SUEntities \<Rightarrow> SUResult \<times> nat" where
  "SUEntitiesGetNumFaces entities =
     (SUEntitiesGetNumFaces_status entities, length (entities_faces entities))"

definition SUEntitiesGetFaces :: "SUEntities \<Rightarrow> nat \<Rightarrow> SUResult \<times> SUFace option list" where
  "SUEntitiesGetFaces entities len =
     (SUEntitiesGetFaces_status entities, take len (entities_faces entities))"

definition SUModelGetNumLayers :: "SUModel \<Rightarrow> SUResult \<times> nat" where
  "SUModelGetNumLayers model = (SUModelGetNumLayers_status model, length (model_layers model))"

definition SUModelGetLayers :: "SUModel \<Rightarrow> nat \<Rightarrow> SUResult \<times> SULayer option list" where
  "SUModelGetLayers model len = (SUModelGetLayers_status model, take len (model_layers model))"

definition SUModelGetNumMaterials :: "SUModel \<Rightarrow> SUResult \<times> nat" where
  "SUModelGetNumMaterials model =
     (SUModelGetNumMaterials_status model, length (model_materials model))"

definition SUModelGetMaterials :: "SUModel \<Rightarrow> nat \<Rightarrow> SUResult \<times> SUMaterial option list" where
  "SUModelGetMaterials model len =
     (SUModelGetMaterials_status model, take len (model_materials model))"

text \<open>
  An entry point called on a member reference of the exporter (\<^verbatim>\<open>model_\<close>,
  \<^verbatim>\<open>texture_writer_\<close>): on an invalid reference the SDK returns an error status and
  leaves the out-parameter at the value \<open>out\<close> it had.
\<close>

definition sdk_ref :: "'o option \<Rightarrow> ('o \<Rightarrow> SUResult \<times> 'a) \<Rightarrow> 'a \<Rightarrow> SUResult \<times> 'a" where
  "sdk_ref r query out =
     (case r of None \<Rightarrow> (SU_ERROR_INVALID_INPUT, out) | Some obj \<Rightarrow> query obj)"

text \<open>
  An out-parameter after a call whose status the exporter does not check: the value
  written on success, the initial value \<open>init\<close> otherwise.
\<close>

definition out_param :: "'a \<Rightarrow> SUResult \<times> 'a \<Rightarrow> 'a" where
  "out_param init call = (if fst call = SU_ERROR_NONE then snd call else init)"

section \<open>Output records and the XML writer\<close>

text \<open>
  The record structs of \<^verbatim>\<open>xmlfile.h\<close>, with the fields the exporter assigns. Field
  names carry a prefix for their struct, because several structs share a field name
  and Isabelle reserves names ending in an underscore: \<open>mi_name\<close> is
  \<^verbatim>\<open>XmlMaterialInfo::name_\<close>. A field the exporter does not assign keeps the value of
  the \<open>_init\<close> record.
\<close>

datatype CPoint3d = CPoint3d double double double

fun CPoint3d_of :: "SUPoint3D \<Rightarrow> CPoint3d" where
  "CPoint3d_of (SUPoint3D px py pz) = CPoint3d px py pz"

record XmlMaterialInfo =
  mi_name :: string
  mi_has_color :: bool
  mi_color :: SUColor
  mi_has_alpha :: bool
  mi_alpha :: double
  mi_has_texture :: bool
  mi_texture_path :: string
  mi_texture_sscale :: double
  mi_texture_tscale :: double

definition XmlMaterialInfo_init :: XmlMaterialInfo where
  "XmlMaterialInfo_init =
     \<lparr>mi_name = [], mi_has_color = False, mi_color = SUColor 0 0 0 0, mi_has_alpha = False,
      mi_alpha = 0, mi_has_texture = False, mi_texture_path = [], mi_texture_sscale = 0,
      mi_texture_tscale = 0\<rparr>"

record XmlLayerInfo =
  li_name :: string
  li_has_material_info :: bool
  li_material_info :: XmlMaterialInfo
  li_is_visible :: bool

definition XmlLayerInfo_init :: XmlLayerInfo where
  "XmlLayerInfo_init =
     \<lparr>li_name = [], li_has_material_info = False, li_material_info = XmlMaterialInfo_init,
      li_is_visible = False\<rparr>"

record XmlComponentInstanceInfo =
  ci_layer_name :: string
  ci_material_name :: string
  ci_definition_name :: string
  ci_transform :: SUTransformation

definition XmlComponentInstanceInfo_init :: XmlComponentInstanceInfo where
  "XmlComponentInstanceInfo_init =
     \<lparr>ci_layer_name = [], ci_material_name = [], ci_definition_name = [],
      ci_transform = SUTransformation []\<rparr>"

record XmlFaceVertex =
  fv_vertex :: CPoint3d

record XmlFaceInfo =
  fi_has_single_loop :: bool
  fi_vertices :: "XmlFaceVertex list"

definition XmlFaceInfo_init :: XmlFaceInfo where
  "XmlFaceInfo_init = \<lparr>fi_has_single_loop = False, fi_vertices = []\<rparr>"

record XmlEdgeInfo =
  ei_has_layer :: bool
  ei_layer_name :: string
  ei_has_color :: bool
  ei_color :: SUColor
  ei_start :: CPoint3d
  ei_end :: CPoint3d

definition XmlEdgeInfo_init :: XmlEdgeInfo where
  "XmlEdgeInfo_init =
     \<lparr>ei_has_layer = False, ei_layer_name = [], ei_has_color = False,
      ei_color = SUColor 0 0 0 0, ei_start = CPoint3d 0 0 0, ei_end = CPoint3d 0 0 0\<rparr>"

record XmlCurveInfo =
  cu_edges :: "XmlEdgeInfo list"

text \<open>
  The XML writer \<^verbatim>\<open>file_\<close> is the second collaborator. What the exporter does to it
  is the sequence of the calls it makes on it.
\<close>

datatype file_op =
    Open string
  | WriteHeader int int int
  | StartLayers
  | WriteLayerInfo XmlLayerInfo
  | StartMaterials
  | WriteMaterialInfo XmlMaterialInfo
  | StartGeometry
  | StartGroup
  | WriteComponentInstanceInfo XmlComponentInstanceInfo
  | WriteFaceInfo XmlFaceInfo
  | WriteEdgeInfo XmlEdgeInfo
  | WriteCurveInfo XmlCurveInfo
  | WriteTransformation SUTransformation
  | PopParentNode
  | Close bool

section \<open>The exporter and its effects\<close>

record Options =
  export_materials :: bool
  export_faces :: bool
  export_edges :: bool
  export_materials_by_layer :: bool
  export_layers :: bool

record Stats =
  stat_textures :: nat
  stat_layers :: nat
  stat_faces :: nat
  stat_edges :: nat

text \<open>
  Modelled from the spec: the inheritance manager (\<^verbatim>\<open>inheritance_manager_\<close>) is not
  part of the source. The spec describes it as a push and pop of the current layer
  and the current colour, which default the layer and colour of an element that does
  not override them. It is a stack of such contexts: pushing an element puts its own
  layer and colour on top where it has them and the current ones where it has not,
  popping removes the top.
\<close>

record Context =
  ctx_layer :: "SULayer option"
  ctx_edge_color :: SUColor

definition GetCurrentLayer :: "Context list \<Rightarrow> SULayer option" where
  "GetCurrentLayer manager = (case manager of [] \<Rightarrow> None | c # _ \<Rightarrow> ctx_layer c)"

definition GetCurrentEdgeColor :: "Context list \<Rightarrow> SUColor" where
  "GetCurrentEdgeColor manager =
     (case manager of [] \<Rightarrow> SUColor 0 0 0 255 | c # _ \<Rightarrow> ctx_edge_color c)"

definition own_color :: "SUDrawingElement \<Rightarrow> SUColor option" where
  "own_color element =
     (case out_param None (SUDrawingElementGetMaterial element) of
        None \<Rightarrow> None
      | Some material \<Rightarrow>
          (if fst (SUMaterialGetColor material) = SU_ERROR_NONE
           then Some (snd (SUMaterialGetColor material)) else None))"

definition PushElement :: "SUDrawingElement option \<Rightarrow> Context list \<Rightarrow> Context list" where
  "PushElement element manager =
     \<lparr>ctx_layer =
        (case element of None \<Rightarrow> GetCurrentLayer manager
         | Some e \<Rightarrow>
             (case out_param None (SUDrawingElementGetLayer e) of
                None \<Rightarrow> GetCurrentLayer manager | Some layer \<Rightarrow> Some layer)),
      ctx_edge_color =
        (case element of None \<Rightarrow> GetCurrentEdgeColor manager
         | Some e \<Rightarrow>
             (case own_color e of
                None \<Rightarrow> GetCurrentEdgeColor manager | Some color \<Rightarrow> color))\<rparr> # manager"

definition PopElement :: "Context list \<Rightarrow> Context list" where
  "PopElement manager = tl manager"

text \<open>
  Everything the exporter does to its collaborators is recorded, in order, in a trace:
  the SDK queries with their status and with what the exporter does with the status
  (wrapped in \<^verbatim>\<open>SU_CALL\<close>, tested against \<^verbatim>\<open>SU_ERROR_NONE\<close>, or ignored), the
  calls that start and end the SDK session and release its objects, the calls on the
  XML writer, and the calls on the progress callback.
\<close>

datatype sdk_use = Wrapped | Tested | Ignored

datatype lifecycle = SUInitialize | SUTextureWriterRelease | SUModelRelease | SUTerminate

datatype event =
    Sdk string sdk_use SUResult
  | Lifecycle lifecycle
  | File file_op
  | CancelCheck bool
  | Progress double string

text \<open>
  The members of \<^verbatim>\<open>CXmlExporter\<close> (\<^verbatim>\<open>model_\<close>, \<^verbatim>\<open>texture_writer_\<close>,
  \<^verbatim>\<open>options_\<close>, \<^verbatim>\<open>stats_\<close>, \<^verbatim>\<open>inheritance_manager_\<close>) and the trace.
\<close>

record exporter =
  m_model :: "SUModel option"
  m_texture_writer :: "SUTextureWriter option"
  m_options :: Options
  m_stats :: Stats
  m_inheritance_manager :: "Context list"
  trace :: "event list"

text \<open>
  A C++ exception is a value: a member function is a function from the exporter to an
  outcome, \<open>Inl\<close> the exception thrown or \<open>Inr\<close> the value returned, and the
  exporter as the call left it. What was written before a throw stays written.
\<close>

datatype exn = SU_exception | Cancelled_exception

type_synonym 'a effect = "exporter \<Rightarrow> (exn + 'a) \<times> exporter"

definition xreturn :: "'a \<Rightarrow> 'a effect" where
  "xreturn v = (\<lambda>st. (Inr v, st))"

definition xthrow :: "exn \<Rightarrow> 'a effect" where
  "xthrow e = (\<lambda>st. (Inl e, st))"

definition xbind :: "'a effect \<Rightarrow> ('a \<Rightarrow> 'b effect) \<Rightarrow> 'b effect" where
  "xbind m f = (\<lambda>st. case m st of (Inl e, st') \<Rightarrow> (Inl e, st') | (Inr v, st') \<Rightarrow> f v st')"

text \<open>A sequence of statements, and a \<^verbatim>\<open>for\<close> loop over the elements of an array.\<close>

fun xseq :: "unit effect list \<Rightarrow> unit effect" where
  "xseq [] = xreturn ()"
| "xseq (m # ms) = xbind m (\<lambda>_. xseq ms)"

fun for_each :: "'a list \<Rightarrow> ('a \<Rightarrow> unit effect) \<Rightarrow> unit effect" where
  "for_each [] body = xreturn ()"
| "for_each (a # as) body = xbind (body a) (\<lambda>_. for_each as body)"

text \<open>A loop that appends to a local variable: the body returns its new value.\<close>

fun for_each_acc :: "'a list \<Rightarrow> ('a \<Rightarrow> 'b \<Rightarrow> 'b effect) \<Rightarrow> 'b \<Rightarrow> 'b effect" where
  "for_each_acc [] body acc = xreturn acc"
| "for_each_acc (a # as) body acc = xbind (body a acc) (\<lambda>acc'. for_each_acc as body acc')"

definition xtry :: "'a effect \<Rightarrow> (exn \<Rightarrow> 'a effect) \<Rightarrow> 'a effect" where
  "xtry m handler = (\<lambda>st. case m st of (Inl e, st') \<Rightarrow> handler e st' | (Inr v, st') \<Rightarrow> (Inr v, st'))"

definition member :: "(exporter \<Rightarrow> 'a) \<Rightarrow> 'a effect" where
  "member field = (\<lambda>st. (Inr (field st), st))"

definition modify :: "(exporter \<Rightarrow> exporter) \<Rightarrow> unit effect" where
  "modify change = (\<lambda>st. (Inr (), change st))"

definition emit :: "event \<Rightarrow> unit effect" where
  "emit e = modify (\<lambda>st. st\<lparr>trace := trace st @ [e]\<rparr>)"

definition file_call :: "file_op \<Rightarrow> unit effect" where
  "file_call op = emit (File op)"

text \<open>
  Modelled from the spec: the macro \<^verbatim>\<open>SU_CALL\<close> (\<^verbatim>\<open>utils.h\<close>) is not part of the
  source. The spec says it raises on any non-success status code. The call is made,
  and its out-parameter is the value of the macro when it does not raise.
\<close>

definition SU_CALL :: "string \<Rightarrow> SUResult \<times> 'a \<Rightarrow> 'a effect" where
  "SU_CALL name call =
     xbind (emit (Sdk name Wrapped (fst call)))
       (\<lambda>_. if fst call \<noteq> SU_ERROR_NONE then xthrow SU_exception else xreturn (snd call))"

text \<open>An SDK call outside the macro: its status comes back to the caller.\<close>

definition sdk_call :: "string \<Rightarrow> sdk_use \<Rightarrow> SUResult \<times> 'a \<Rightarrow> (SUResult \<times> 'a) effect" where
  "sdk_call name use call = xbind (emit (Sdk name use (fst call))) (\<lambda>_. xreturn call)"

text \<open>The statistics counters \<^verbatim>\<open>stats_\<close>: \<^verbatim>\<open>set_textures\<close>, \<^verbatim>\<open>AddLayer\<close>, \<^verbatim>\<open>AddFace\<close>, \<^verbatim>\<open>AddEdge\<close>.\<close>

definition set_textures :: "nat \<Rightarrow> unit effect" where
  "set_textures n = modify (\<lambda>st. st\<lparr>m_stats := (m_stats st)\<lparr>stat_textures := n\<rparr>\<rparr>)"

definition AddLayer :: "unit effect" where
  "AddLayer = modify (\<lambda>st. st\<lparr>m_stats := (m_stats st)\<lparr>stat_layers := stat_layers (m_stats st) + 1\<rparr>\<rparr>)"

definition AddFace :: "unit effect" where
  "AddFace = modify (\<lambda>st. st\<lparr>m_stats := (m_stats st)\<lparr>stat_faces := stat_faces (m_stats st) + 1\<rparr>\<rparr>)"

definition AddEdge :: "unit effect" where
  "AddEdge = modify (\<lambda>st. st\<lparr>m_stats := (m_stats st)\<lparr>stat_edges := stat_edges (m_stats st) + 1\<rparr>\<rparr>)"

definition inheritance_PushElement :: "SUDrawingElement option \<Rightarrow> unit effect" where
  "inheritance_PushElement element =
     modify (\<lambda>st. st\<lparr>m_inheritance_manager := PushElement element (m_inheritance_manager st)\<rparr>)"

definition inheritance_PopElement :: "unit effect" where
  "inheritance_PopElement =
     modify (\<lambda>st. st\<lparr>m_inheritance_manager := PopElement (m_inheritance_manager st)\<rparr>)"

section \<open>The progress callback\<close>

text \<open>
  Modelled from the spec: \<^verbatim>\<open>HandleProgress\<close> and \<^verbatim>\<open>IsCancelled\<close> are not part of the
  source. The spec says that the callback receives percentages and phase labels, that
  it may signal cancellation, and that its flag is checked between phases. The
  callback may be a null pointer. Its flag is set from outside while the export runs:
  \<open>HasBeenCancelled cb k\<close> is the answer to the query made after \<open>k\<close> earlier ones.
  \<^verbatim>\<open>HandleProgress\<close> checks the flag, abandons the export through the exception
  handler of \<^verbatim>\<open>Convert\<close> when it is set, and delivers the percentage and the label
  otherwise.
\<close>

datatype Callback = Callback (HasBeenCancelled: "nat \<Rightarrow> bool")

fun is_cancel_check :: "event \<Rightarrow> bool" where
  "is_cancel_check (CancelCheck b) = True"
| "is_cancel_check _ = False"

definition cancel_checks :: "event list \<Rightarrow> nat" where
  "cancel_checks tr = length (filter is_cancel_check tr)"

definition query_cancelled :: "Callback \<Rightarrow> bool effect" where
  "query_cancelled cb =
     xbind (member trace) (\<lambda>tr.
       xbind (emit (CancelCheck (HasBeenCancelled cb (cancel_checks tr))))
         (\<lambda>_. xreturn (HasBeenCancelled cb (cancel_checks tr))))"

definition HandleProgress :: "Callback option \<Rightarrow> double \<Rightarrow> string \<Rightarrow> unit effect" where
  "HandleProgress progress_callback percent_done message =
     (case progress_callback of
        None \<Rightarrow> xreturn ()
      | Some cb \<Rightarrow>
          xbind (query_cancelled cb) (\<lambda>cancelled.
            if cancelled then xthrow Cancelled_exception
            else emit (Progress percent_done message)))"

definition IsCancelled :: "Callback option \<Rightarrow> bool effect" where
  "IsCancelled progress_callback =
     (case progress_callback of None \<Rightarrow> xreturn False | Some cb \<Rightarrow> query_cancelled cb)"

section \<open>The methods of the exporter\<close>

text \<open>The utility functions that read a name (lines 68 to 88).\<close>

definition GetMaterialName :: "SUMaterial option \<Rightarrow> string effect" where
  "GetMaterialName material =
     SU_CALL ''SUMaterialGetName'' (sdk_ref material SUMaterialGetName [])"

definition GetLayerName :: "SULayer option \<Rightarrow> string effect" where
  "GetLayerName layer = SU_CALL ''SULayerGetName'' (sdk_ref layer SULayerGetName [])"

definition GetComponentDefinitionName :: "SUComponentDefinition option \<Rightarrow> string effect" where
  "GetComponentDefinitionName comp_def =
     SU_CALL ''SUComponentDefinitionGetName'' (sdk_ref comp_def SUComponentDefinitionGetName [])"

text \<open>\<^verbatim>\<open>ReleaseModelObjects\<close> (lines 98 to 111).\<close>

definition ReleaseModelObjects :: "unit effect" where
  "ReleaseModelObjects =
     xseq [
       xbind (member m_texture_writer) (\<lambda>texture_writer.
         if texture_writer \<noteq> None then
           xseq [emit (Lifecycle SUTextureWriterRelease),
                 modify (\<lambda>st. st\<lparr>m_texture_writer := None\<rparr>)]
         else xreturn ()),
       xbind (member m_model) (\<lambda>model.
         if model \<noteq> None then
           xseq [emit (Lifecycle SUModelRelease),
                 modify (\<lambda>st. st\<lparr>m_model := None\<rparr>)]
         else xreturn ()),
       emit (Lifecycle SUTerminate)]"

text \<open>
  \<^verbatim>\<open>WriteTextureFiles\<close> (lines 173 to 189). The texture helper raises like a wrapped
  SDK call; the texture directory that the XML writer names is passed through to the
  SDK and plays no part.
\<close>

definition CXmlTextureHelper_LoadAllTextures ::
  "SUModel option \<Rightarrow> SUTextureWriter option \<Rightarrow> bool \<Rightarrow> nat effect" where
  "CXmlTextureHelper_LoadAllTextures model texture_writer by_layer =
     SU_CALL ''CXmlTextureHelper::LoadAllTextures''
       (sdk_ref model (\<lambda>m. LoadAllTextures m by_layer) 0)"

definition WriteTextureFiles :: "unit effect" where
  "WriteTextureFiles =
     xbind (member m_options) (\<lambda>options.
       if export_materials options then
         xbind (member m_model) (\<lambda>model.
         xbind (member m_texture_writer) (\<lambda>texture_writer.
         xbind (CXmlTextureHelper_LoadAllTextures model texture_writer
                  (export_materials_by_layer options)) (\<lambda>texture_count.
           xseq [
             set_textures texture_count,
             if texture_count > 0 then
               SU_CALL ''SUTextureWriterWriteAllTextures''
                 (sdk_ref texture_writer (\<lambda>w. (SUTextureWriterWriteAllTextures w, ())) ())
             else xreturn ()])))
       else xreturn ())"

text \<open>
  \<^verbatim>\<open>GetMaterialInfo\<close> (lines 213 to 271). Its argument is a valid material: the
  function asserts it. The colour and the texture are read with the status tested,
  everything else inside \<^verbatim>\<open>SU_CALL\<close>.
\<close>

definition GetMaterialInfo :: "SUMaterial \<Rightarrow> XmlMaterialInfo effect" where
  "GetMaterialInfo material =
     xbind (GetMaterialName (Some material)) (\<lambda>name.
     xbind (SU_CALL ''SUMaterialGetType'' (SUMaterialGetType material)) (\<lambda>type.
     xbind (if type = SUMaterialType_Colored \<or> type = SUMaterialType_ColorizedTexture then
              xbind (sdk_call ''SUMaterialGetColor'' Tested (SUMaterialGetColor material))
                (\<lambda>call. xreturn
                   (if fst call = SU_ERROR_NONE
                    then XmlMaterialInfo_init
                           \<lparr>mi_name := name, mi_has_color := True, mi_color := snd call\<rparr>
                    else XmlMaterialInfo_init\<lparr>mi_name := name\<rparr>))
            else xreturn (XmlMaterialInfo_init\<lparr>mi_name := name\<rparr>)) (\<lambda>info.
     xbind (SU_CALL ''SUMaterialGetUseOpacity'' (SUMaterialGetUseOpacity material)) (\<lambda>has_alpha.
     xbind (if has_alpha then
              xbind (SU_CALL ''SUMaterialGetOpacity'' (SUMaterialGetOpacity material))
                (\<lambda>alpha. xreturn (info\<lparr>mi_has_alpha := True, mi_alpha := alpha\<rparr>))
            else xreturn info) (\<lambda>info.
     if type = SUMaterialType_Textured \<or> type = SUMaterialType_ColorizedTexture then
       xbind (sdk_call ''SUMaterialGetTexture'' Tested (SUMaterialGetTexture material)) (\<lambda>call.
         if fst call = SU_ERROR_NONE then
           xbind (SU_CALL ''SUTextureGetFileName'' (SUTextureGetFileName (snd call)))
             (\<lambda>texture_path.
           xbind (SU_CALL ''SUTextureGetDimensions'' (SUTextureGetDimensions (snd call)))
             (\<lambda>(width, height, s_scale, t_scale).
                xreturn (info\<lparr>mi_has_texture := True, mi_texture_path := texture_path,
                               mi_texture_sscale := s_scale, mi_texture_tscale := t_scale\<rparr>)))
         else xreturn info)
     else xreturn info)))))"

text \<open>\<^verbatim>\<open>WriteLayer\<close> (lines 273 to 297) and \<^verbatim>\<open>WriteLayers\<close> (lines 191 to 211).\<close>

definition WriteLayer :: "SULayer option \<Rightarrow> unit effect" where
  "WriteLayer layer =
     (case layer of
        None \<Rightarrow> xreturn ()
      | Some l \<Rightarrow>
          xbind (GetLayerName layer) (\<lambda>name.
          xbind (sdk_call ''SULayerGetMaterial'' Tested (SULayerGetMaterial l)) (\<lambda>call.
          xbind (if fst call = SU_ERROR_NONE then
                   xbind (GetMaterialInfo (snd call)) (\<lambda>material_info.
                     xreturn (XmlLayerInfo_init
                       \<lparr>li_name := name, li_has_material_info := True,
                        li_material_info := material_info\<rparr>))
                 else xreturn (XmlLayerInfo_init\<lparr>li_name := name\<rparr>)) (\<lambda>info.
          xbind (SU_CALL ''SULayerGetVisibility'' (SULayerGetVisibility l)) (\<lambda>is_visible.
            xseq [AddLayer, file_call (WriteLayerInfo (info\<lparr>li_is_visible := is_visible\<rparr>))])))))"

definition WriteLayers :: "unit effect" where
  "WriteLayers =
     xbind (member m_options) (\<lambda>options.
       if export_layers options then
         xseq [
           file_call StartLayers,
           xbind (member m_model) (\<lambda>model.
           xbind (SU_CALL ''SUModelGetNumLayers'' (sdk_ref model SUModelGetNumLayers 0))
             (\<lambda>num_layers.
               if num_layers > 0 then
                 xbind (SU_CALL ''SUModelGetLayers''
                          (sdk_ref model (\<lambda>m. SUModelGetLayers m num_layers)
                             (replicate num_layers None)))
                   (\<lambda>layers. for_each layers WriteLayer)
               else xreturn ())),
           file_call PopParentNode]
       else xreturn ())"

text \<open>\<^verbatim>\<open>WriteMaterial\<close> (lines 333 to 339) and \<^verbatim>\<open>WriteMaterials\<close> (lines 299 to 331).\<close>

definition WriteMaterial :: "SUMaterial option \<Rightarrow> unit effect" where
  "WriteMaterial material =
     (case material of
        None \<Rightarrow> xreturn ()
      | Some m \<Rightarrow> xbind (GetMaterialInfo m) (\<lambda>info. file_call (WriteMaterialInfo info)))"

definition WriteMaterials :: "unit effect" where
  "WriteMaterials =
     xbind (member m_options) (\<lambda>options.
       if export_materials options then
         xbind (member m_model) (\<lambda>model.
           if export_materials_by_layer options then
             xbind (SU_CALL ''SUModelGetNumLayers'' (sdk_ref model SUModelGetNumLayers 0))
               (\<lambda>num_layers.
                 if num_layers > 0 then
                   xbind (SU_CALL ''SUModelGetLayers''
                            (sdk_ref model (\<lambda>m. SUModelGetLayers m num_layers)
                               (replicate num_layers None)))
                     (\<lambda>layers.
                       xseq [
                         file_call StartMaterials,
                         for_each layers (\<lambda>layer.
                           xbind (sdk_call ''SULayerGetMaterial'' Tested
                                    (sdk_ref layer
                                       (\<lambda>l. (fst (SULayerGetMaterial l),
                                              Some (snd (SULayerGetMaterial l))))
                                       None))
                             (\<lambda>call.
                               if fst call = SU_ERROR_NONE then WriteMaterial (snd call)
                               else xreturn ())),
                         file_call PopParentNode])
                 else xreturn ())
           else
             xbind (SU_CALL ''SUModelGetNumMaterials'' (sdk_ref model SUModelGetNumMaterials 0))
               (\<lambda>count.
                 if count > 0 then
                   xseq [
                     file_call StartMaterials,
                     xbind (SU_CALL ''SUModelGetMaterials''
                              (sdk_ref model (\<lambda>m. SUModelGetMaterials m count)
                                 (replicate count None)))
                       (\<lambda>materials. for_each materials WriteMaterial),
                     file_call PopParentNode]
                 else xreturn ()))
       else xreturn ())"

text \<open>
  \<^verbatim>\<open>WriteFace\<close> (lines 491 to 555). The source assembles the record of a loop twice,
  with the same statements, for the outer loop and for each inner loop:
  \<open>WriteFace_loop\<close> is that block, from the declaration of \<^verbatim>\<open>info\<close> to
  \<^verbatim>\<open>WriteFaceInfo\<close>, without the query for the outer loop that the source makes
  between the declaration and the vertex count, and \<open>WriteFace_vertex\<close> is the body of
  its loop over the vertices.
\<close>

definition WriteFace_vertex :: "SUVertex \<Rightarrow> XmlFaceInfo \<Rightarrow> XmlFaceInfo effect" where
  "WriteFace_vertex vertex_ref info =
     xbind (SU_CALL ''SUVertexGetPosition'' (SUVertexGetPosition vertex_ref)) (\<lambda>su_point.
       xreturn (info\<lparr>fi_vertices :=
                  fi_vertices info @ [\<lparr>fv_vertex = CPoint3d_of su_point\<rparr>]\<rparr>))"

definition WriteFace_loop :: "SULoop \<Rightarrow> unit effect" where
  "WriteFace_loop loop =
     xbind (SU_CALL ''SULoopGetNumVertices'' (SULoopGetNumVertices loop)) (\<lambda>num_vertices.
     xbind (if num_vertices > 0 then
              xbind (SU_CALL ''SULoopGetVertices'' (SULoopGetVertices loop num_vertices))
                (\<lambda>vertices.
                  for_each_acc vertices WriteFace_vertex
                    (XmlFaceInfo_init\<lparr>fi_has_single_loop := True\<rparr>))
            else xreturn (XmlFaceInfo_init\<lparr>fi_has_single_loop := True\<rparr>)) (\<lambda>info.
       xseq [AddFace, file_call (WriteFaceInfo info)]))"

definition WriteFace :: "SUFace option \<Rightarrow> unit effect" where
  "WriteFace face =
     (case face of
        None \<Rightarrow> xreturn ()
      | Some f \<Rightarrow>
          xseq [
            xbind (SU_CALL ''SUFaceGetOuterLoop'' (SUFaceGetOuterLoop f)) WriteFace_loop,
            xbind (SU_CALL ''SUFaceGetNumInnerLoops'' (SUFaceGetNumInnerLoops f)) (\<lambda>num_loops.
              if num_loops > 0 then
                xbind (SU_CALL ''SUFaceGetInnerLoops'' (SUFaceGetInnerLoops f num_loops))
                  (\<lambda>loops. for_each loops WriteFace_loop)
              else xreturn ())])"

text \<open>
  \<^verbatim>\<open>WriteEntities\<close> (lines 381 to 489). \<open>WriteEntities_instance\<close> is the body of the
  loop over the component instances (lines 390 to 413). The layer and the material of
  an instance are read outside \<^verbatim>\<open>SU_CALL\<close>, with the status ignored. The blocks for
  edges and curves (lines 459 to 488) are commented out in the source, so the model
  has no statement for them.
\<close>

definition WriteEntities_instance :: "SUComponentInstance \<Rightarrow> unit effect" where
  "WriteEntities_instance instance =
     xbind (SU_CALL ''SUComponentInstanceGetDefinition''
              (SUComponentInstanceGetDefinition instance)) (\<lambda>definition.
     xbind (sdk_call ''SUDrawingElementGetLayer'' Ignored
              (SUDrawingElementGetLayer (SUComponentInstanceToDrawingElement instance)))
       (\<lambda>layer_call.
     xbind (if out_param None layer_call \<noteq> None then
              xbind (GetLayerName (out_param None layer_call)) (\<lambda>name.
                xreturn (XmlComponentInstanceInfo_init\<lparr>ci_layer_name := name\<rparr>))
            else xreturn XmlComponentInstanceInfo_init) (\<lambda>instance_info.
     xbind (sdk_call ''SUDrawingElementGetMaterial'' Ignored
              (SUDrawingElementGetMaterial (SUComponentInstanceToDrawingElement instance)))
       (\<lambda>material_call.
     xbind (if out_param None material_call \<noteq> None then
              xbind (GetMaterialName (out_param None material_call)) (\<lambda>name.
                xreturn (instance_info\<lparr>ci_material_name := name\<rparr>))
            else xreturn instance_info) (\<lambda>instance_info.
     xbind (GetComponentDefinitionName (Some definition)) (\<lambda>definition_name.
     xbind (SU_CALL ''SUComponentInstanceGetTransform''
              (SUComponentInstanceGetTransform instance)) (\<lambda>transform.
       file_call (WriteComponentInstanceInfo
         (instance_info\<lparr>ci_definition_name := definition_name,
                         ci_transform := transform\<rparr>)))))))))"

text \<open>
  The block for the component instances (lines 382 to 415) and the block for the
  faces (lines 444 to 457) of \<^verbatim>\<open>WriteEntities\<close>.
\<close>

definition WriteEntities_instances :: "SUEntities \<Rightarrow> unit effect" where
  "WriteEntities_instances entities =
     xbind (SU_CALL ''SUEntitiesGetNumInstances'' (SUEntitiesGetNumInstances entities))
       (\<lambda>num_instances.
         if num_instances > 0 then
           xbind (SU_CALL ''SUEntitiesGetInstances''
                    (SUEntitiesGetInstances entities num_instances))
             (\<lambda>instances. for_each instances WriteEntities_instance)
         else xreturn ())"

definition WriteEntities_faces :: "SUEntities \<Rightarrow> unit effect" where
  "WriteEntities_faces entities =
     xbind (member m_options) (\<lambda>options.
       if export_faces options then
         xbind (SU_CALL ''SUEntitiesGetNumFaces'' (SUEntitiesGetNumFaces entities))
           (\<lambda>num_faces.
             if num_faces > 0 then
               xbind (SU_CALL ''SUEntitiesGetFaces'' (SUEntitiesGetFaces entities num_faces))
                 (\<lambda>faces.
                   for_each faces (\<lambda>face.
                     xseq [
                       inheritance_PushElement (map_option SUFaceToDrawingElement face),
                       WriteFace face,
                       inheritance_PopElement]))
             else xreturn ())
       else xreturn ())"

text \<open>
  The function proper: the instances, then the groups (lines 417 to 442), each with
  its nested entities, then the faces. It terminates because the entities of a group
  are a part of the collection that holds the group.
\<close>

lemma SU_CALL_Inr:
  "SU_CALL name call st = (Inr v, st') \<Longrightarrow> v = snd call \<and> fst call = SU_ERROR_NONE"
  by (auto simp: SU_CALL_def xbind_def emit_def modify_def xthrow_def xreturn_def
      split: if_splits)

lemma xbind_cong [fundef_cong]:
  "m = m' \<Longrightarrow> (\<And>v st st'. m' st = (Inr v, st') \<Longrightarrow> f v = f' v) \<Longrightarrow> xbind m f = xbind m' f'"
  by (auto simp: xbind_def fun_eq_iff split: prod.splits sum.splits)

lemma for_each_cong [fundef_cong]:
  "xs = ys \<Longrightarrow> (\<And>a. a \<in> set ys \<Longrightarrow> f a = g a) \<Longrightarrow> for_each xs f = for_each ys g"
proof (induction ys arbitrary: xs)
  case Nil
  then show ?case by simp
next
  case (Cons a ys)
  then have "for_each ys f = for_each ys g" and "f a = g a"
    by auto
  with Cons.prems show ?case by simp
qed

lemma size_group_entities:
  "size (snd (SUGroupGetEntities g)) < size g"
  by (cases g) (auto simp: size_prod_simp)

lemma size_entities_group:
  "g \<in> set (entities_groups entities) \<Longrightarrow> size g < size entities"
  by (cases entities)
     (auto simp: less_Suc_eq_le dest: size_list_estimation'[where f = size, OF _ order_refl])

function (sequential) WriteEntities :: "SUEntities \<Rightarrow> unit effect" where
  "WriteEntities entities =
     xseq [
       WriteEntities_instances entities,
       xbind (SU_CALL ''SUEntitiesGetNumGroups'' (SUEntitiesGetNumGroups entities))
         (\<lambda>num_groups.
           if num_groups > 0 then
             xbind (SU_CALL ''SUEntitiesGetGroups'' (SUEntitiesGetGroups entities num_groups))
               (\<lambda>groups.
                 for_each groups (\<lambda>group.
                   xbind (SU_CALL ''SUGroupGetEntities'' (SUGroupGetEntities group))
                     (\<lambda>group_entities.
                       xseq [
                         inheritance_PushElement (Some (SUGroupToDrawingElement group)),
                         file_call StartGroup,
                         WriteEntities group_entities,
                         xbind (SU_CALL ''SUGroupGetTransform'' (SUGroupGetTransform group))
                           (\<lambda>transform. file_call (WriteTransformation transform)),
                         file_call PopParentNode,
                         inheritance_PopElement])))
           else xreturn ()),
       WriteEntities_faces entities]"
  by pat_completeness auto
termination
proof (relation "measure size")
  show "wf (measure size)" by simp
next
  fix entities :: SUEntities and num_groups groups grp group_entities
    and st1 st1' st2 st2' st3 st3' :: exporter
  assume groups:
    "SU_CALL ''SUEntitiesGetGroups'' (SUEntitiesGetGroups entities num_groups) st2 = (Inr groups, st2')"
    and grp: "grp \<in> set groups"
    and ents: "SU_CALL ''SUGroupGetEntities'' (SUGroupGetEntities grp) st3 = (Inr group_entities, st3')"
  from groups have "groups = take num_groups (entities_groups entities)"
    by (auto dest: SU_CALL_Inr simp: SUEntitiesGetGroups_def)
  with grp have "grp \<in> set (entities_groups entities)"
    by (auto dest: in_set_takeD)
  then have "size grp < size entities"
    by (rule size_entities_group)
  moreover from ents have "group_entities = snd (SUGroupGetEntities grp)"
    by (auto dest: SU_CALL_Inr)
  ultimately show "(group_entities, entities) \<in> measure size"
    using size_group_entities[of grp] by simp
qed

text \<open>\<^verbatim>\<open>WriteGeometry\<close> (lines 341 to 350).\<close>

definition WriteGeometry :: "unit effect" where
  "WriteGeometry =
     xbind (member m_options) (\<lambda>options.
       if export_faces options \<or> export_edges options then
         xbind (member m_model) (\<lambda>model.
           case model of
             None \<Rightarrow> SU_CALL ''SUModelGetEntities'' (SU_ERROR_INVALID_INPUT, ())
           | Some m \<Rightarrow>
               xbind (SU_CALL ''SUModelGetEntities'' (SUModelGetEntities m)) (\<lambda>model_entities.
                 xseq [
                   file_call StartGeometry,
                   WriteEntities model_entities,
                   file_call PopParentNode]))
       else xreturn ())"

text \<open>
  \<^verbatim>\<open>GetEdgeInfo\<close> (lines 557 to 590) and \<^verbatim>\<open>WriteEdge\<close> (lines 592 to 599). No
  statement of the source calls \<^verbatim>\<open>WriteEdge\<close>: the loop over the edges in
  \<^verbatim>\<open>WriteEntities\<close> is commented out.
\<close>

definition GetEdgeInfo :: "SUEdge \<Rightarrow> XmlEdgeInfo effect" where
  "GetEdgeInfo edge =
     xbind (member m_options) (\<lambda>options.
     xbind (member m_inheritance_manager) (\<lambda>manager.
     xbind (if export_layers options then
              (if GetCurrentLayer manager \<noteq> None then
                 xbind (SU_CALL ''SUDrawingElementGetLayer''
                          (SUDrawingElementGetLayer (SUEdgeToDrawingElement edge))) (\<lambda>layer.
                 xbind (GetLayerName layer) (\<lambda>name.
                   xreturn (XmlEdgeInfo_init\<lparr>ei_has_layer := True, ei_layer_name := name\<rparr>)))
               else xreturn (XmlEdgeInfo_init\<lparr>ei_has_layer := True\<rparr>))
            else xreturn (XmlEdgeInfo_init\<lparr>ei_has_layer := False\<rparr>)) (\<lambda>info.
     xbind (xreturn
              (if export_materials options
               then info\<lparr>ei_color := GetCurrentEdgeColor manager, ei_has_color := True\<rparr>
               else info\<lparr>ei_has_color := False\<rparr>)) (\<lambda>info.
     xbind (SU_CALL ''SUEdgeGetStartVertex'' (SUEdgeGetStartVertex edge)) (\<lambda>start_vertex.
     xbind (SU_CALL ''SUVertexGetPosition'' (SUVertexGetPosition start_vertex)) (\<lambda>p.
     xbind (xreturn (info\<lparr>ei_start := CPoint3d_of p\<rparr>)) (\<lambda>info.
     xbind (SU_CALL ''SUEdgeGetEndVertex'' (SUEdgeGetEndVertex edge)) (\<lambda>end_vertex.
     xbind (SU_CALL ''SUVertexGetPosition'' (SUVertexGetPosition end_vertex)) (\<lambda>p.
       xreturn (info\<lparr>ei_end := CPoint3d_of p\<rparr>))))))))))"

definition WriteEdge :: "SUEdge option \<Rightarrow> unit effect" where
  "WriteEdge edge =
     (case edge of
        None \<Rightarrow> xreturn ()
      | Some e \<Rightarrow>
          xbind (GetEdgeInfo e) (\<lambda>info. xseq [file_call (WriteEdgeInfo info), AddEdge]))"

text \<open>
  \<^verbatim>\<open>Convert\<close> (lines 113 to 171). The world outside the exporter answers three
  calls: the creation of the model from the source file, the creation of the texture
  writer, and the opening of the destination file by the XML writer.

  \<open>Convert_phases\<close> is the part of the \<^verbatim>\<open>try\<close> block that follows the opening of
  the file (lines 135 to 162), \<open>Convert_try\<close> the whole block. The block is left in
  one of two ways when nothing is thrown: by the \<^verbatim>\<open>return\<close> in it, or at its end
  with \<^verbatim>\<open>exported\<close> set.
\<close>

record World =
  SUModelCreateFromFile :: "string \<Rightarrow> SUResult \<times> SUModel"
  SUTextureWriterCreate :: "SUResult \<times> SUTextureWriter"
  file_Open :: "string \<Rightarrow> bool"

datatype flow = Returned bool | Completed bool

definition Convert_phases :: "Callback option \<Rightarrow> unit effect" where
  "Convert_phases progress_callback =
     xseq [
       HandleProgress progress_callback 0 ''Writing Texture Files...'',
       WriteTextureFiles,
       xbind (member m_model) (\<lambda>model.
       xbind (SU_CALL ''SUModelGetVersion'' (sdk_ref model SUModelGetVersion (0, 0, 0)))
         (\<lambda>(major_ver, minor_ver, build_no).
            file_call (WriteHeader major_ver minor_ver build_no))),
       HandleProgress progress_callback 10 ''Writing Layers...'',
       WriteLayers,
       HandleProgress progress_callback 20 ''Writing Materials...'',
       WriteMaterials,
       HandleProgress progress_callback 60 ''Writing Geometry...'',
       WriteGeometry,
       xbind (IsCancelled progress_callback) (\<lambda>cancelled. file_call (Close cancelled)),
       HandleProgress progress_callback 100 ''Export Complete'']"

definition Convert_try :: "World \<Rightarrow> string \<Rightarrow> string \<Rightarrow> Callback option \<Rightarrow> flow effect" where
  "Convert_try world src_file dst_file progress_callback =
     xbind (emit (Lifecycle SUInitialize)) (\<lambda>_.
     xbind (modify (\<lambda>st. st\<lparr>m_model := None\<rparr>)) (\<lambda>_.
     xbind (SU_CALL ''SUModelCreateFromFile'' (SUModelCreateFromFile world src_file)) (\<lambda>model.
     xbind (modify (\<lambda>st. st\<lparr>m_model := Some model\<rparr>)) (\<lambda>_.
     xbind (modify (\<lambda>st. st\<lparr>m_texture_writer := None\<rparr>)) (\<lambda>_.
     xbind (SU_CALL ''SUTextureWriterCreate'' (SUTextureWriterCreate world)) (\<lambda>texture_writer.
     xbind (modify (\<lambda>st. st\<lparr>m_texture_writer := Some texture_writer\<rparr>)) (\<lambda>_.
     xbind (file_call (Open dst_file)) (\<lambda>_.
       if \<not> file_Open world dst_file then
         xbind ReleaseModelObjects (\<lambda>_. xreturn (Returned False))
       else
         xbind (Convert_phases progress_callback) (\<lambda>_. xreturn (Completed True))))))))))"

definition Convert :: "World \<Rightarrow> string \<Rightarrow> string \<Rightarrow> Callback option \<Rightarrow> bool effect" where
  "Convert world src_file dst_file progress_callback =
     xbind (xtry (Convert_try world src_file dst_file progress_callback)
              (\<lambda>e. xbind (file_call (Close True)) (\<lambda>_. xreturn (Completed False))))
       (\<lambda>left. case left of
          Returned exported \<Rightarrow> xreturn exported
        | Completed exported \<Rightarrow> xbind ReleaseModelObjects (\<lambda>_. xreturn exported))"

section \<open>Failures and what a call may do\<close>

text \<open>
  The equation of \<open>WriteEntities\<close> is unfolded by hand where it is needed.
\<close>

declare WriteEntities.simps [simp del]

text \<open>
  A failed call is an SDK call wrapped in \<^verbatim>\<open>SU_CALL\<close> that returned a status other
  than \<^verbatim>\<open>SU_ERROR_NONE\<close>. A sequence of events is clean when it holds no failed
  call.
\<close>

fun failed_call :: "event \<Rightarrow> bool" where
  "failed_call (Sdk name Wrapped r) = (r \<noteq> SU_ERROR_NONE)"
| "failed_call _ = False"

definition clean :: "event list \<Rightarrow> bool" where
  "clean es = list_all (\<lambda>e. \<not> failed_call e) es"

text \<open>
  The events a call adds to the trace fit its outcome: a call that returns added no
  failed call; a call that throws the SDK exception added a failed call last and none
  before; a call that throws for a cancellation added the check that found the flag
  set last, and no failed call.
\<close>

fun outcome_ok :: "exn + 'a \<Rightarrow> event list \<Rightarrow> bool" where
  "outcome_ok (Inr v) new = clean new"
| "outcome_ok (Inl SU_exception) new =
     (new \<noteq> [] \<and> failed_call (last new) \<and> clean (butlast new))"
| "outcome_ok (Inl Cancelled_exception) new =
     (new \<noteq> [] \<and> last new = CancelCheck True \<and> clean new)"

text \<open>
  \<open>behaves A m\<close>: whatever its outcome, the call \<open>m\<close> leaves the model, the texture
  writer and the options as they were, and adds to the trace only events that \<open>A\<close>
  admits and that fit its outcome.
\<close>

definition behaves :: "(event \<Rightarrow> bool) \<Rightarrow> 'a effect \<Rightarrow> bool" where
  "behaves A m =
     (\<forall>st r st'. m st = (r, st') \<longrightarrow>
        m_model st' = m_model st \<and> m_texture_writer st' = m_texture_writer st \<and>
        m_options st' = m_options st \<and>
        (\<exists>new. trace st' = trace st @ new \<and> list_all A new \<and> outcome_ok r new))"

text \<open>
  The events of the member functions that write the sections: SDK queries, and calls
  on the XML writer other than opening and closing the file.
\<close>

fun inner_event :: "event \<Rightarrow> bool" where
  "inner_event (Sdk name use r) = True"
| "inner_event (File (Open path)) = False"
| "inner_event (File (Close cancelled)) = False"
| "inner_event (File op) = True"
| "inner_event _ = False"

lemma clean_simps [simp]:
  "clean []" "clean (e # es) = (\<not> failed_call e \<and> clean es)"
  "clean (es @ es') = (clean es \<and> clean es')"
  by (auto simp: clean_def)

lemma behaves_return: "behaves A (xreturn v)"
  by (simp add: behaves_def xreturn_def)

lemma behaves_member: "behaves A (member field)"
  by (simp add: behaves_def member_def)

lemma behaves_emit: "A e \<Longrightarrow> \<not> failed_call e \<Longrightarrow> behaves A (emit e)"
  by (auto simp: behaves_def emit_def modify_def)

lemma behaves_file_call: "A (File op) \<Longrightarrow> behaves A (file_call op)"
  by (simp add: file_call_def behaves_emit)

lemma behaves_SU_CALL: "A (Sdk name Wrapped (fst call)) \<Longrightarrow> behaves A (SU_CALL name call)"
  by (auto simp: behaves_def SU_CALL_def xbind_def emit_def modify_def xthrow_def xreturn_def)

lemma behaves_sdk_call:
  "A (Sdk name use (fst call)) \<Longrightarrow> use \<noteq> Wrapped \<Longrightarrow> behaves A (sdk_call name use call)"
  by (cases use) (auto simp: behaves_def sdk_call_def xbind_def emit_def modify_def xreturn_def)

lemma outcome_ok_append:
  "clean new1 \<Longrightarrow> outcome_ok r new2 \<Longrightarrow> outcome_ok r (new1 @ new2)"
  by (cases "(r, new2)" rule: outcome_ok.cases) (auto simp: butlast_append)

lemma outcome_ok_Inl:
  "outcome_ok (Inl e :: exn + 'a) new \<Longrightarrow> outcome_ok (Inl e :: exn + 'b) new"
  by (cases e) auto

lemma behaves_bind:
  assumes m: "behaves A m"
    and f: "\<And>v st st'. m st = (Inr v, st') \<Longrightarrow> behaves A (f v)"
  shows "behaves A (xbind m f)"
  unfolding behaves_def
proof (intro allI impI)
  fix st r st'
  assume run: "xbind m f st = (r, st')"
  obtain r1 s1 where m1: "m st = (r1, s1)" by (cases "m st")
  from m m1 obtain new1 where
    k1: "m_model s1 = m_model st" "m_texture_writer s1 = m_texture_writer st"
        "m_options s1 = m_options st"
    and t1: "trace s1 = trace st @ new1" "list_all A new1" "outcome_ok r1 new1"
    unfolding behaves_def by blast
  show "m_model st' = m_model st \<and> m_texture_writer st' = m_texture_writer st \<and>
        m_options st' = m_options st \<and>
        (\<exists>new. trace st' = trace st @ new \<and> list_all A new \<and> outcome_ok r new)"
  proof (cases r1)
    case (Inl e)
    with run m1 have "r = Inl e" "st' = s1" by (auto simp: xbind_def)
    with k1 t1 Inl show ?thesis by (auto intro: outcome_ok_Inl)
  next
    case (Inr v)
    with run m1 have run2: "f v s1 = (r, st')" by (auto simp: xbind_def)
    from f[of st v s1] m1 Inr have "behaves A (f v)" by simp
    with run2 obtain new2 where
      k2: "m_model st' = m_model s1" "m_texture_writer st' = m_texture_writer s1"
          "m_options st' = m_options s1"
      and t2: "trace st' = trace s1 @ new2" "list_all A new2" "outcome_ok r new2"
      unfolding behaves_def by blast
    from t1 Inr have "clean new1" by simp
    with t2 have "outcome_ok r (new1 @ new2)" by (simp add: outcome_ok_append)
    with k1 k2 t1 t2 show ?thesis by auto
  qed
qed

lemma behaves_seq_Nil: "behaves A (xseq [])"
  by (simp add: behaves_return)

lemma behaves_seq_Cons: "behaves A m \<Longrightarrow> behaves A (xseq ms) \<Longrightarrow> behaves A (xseq (m # ms))"
  by (simp add: behaves_bind)

lemma behaves_for_each:
  "(\<And>a. a \<in> set xs \<Longrightarrow> behaves A (body a)) \<Longrightarrow> behaves A (for_each xs body)"
  by (induction xs) (auto intro!: behaves_bind behaves_return)

lemma behaves_for_each_acc:
  "(\<And>a acc. a \<in> set xs \<Longrightarrow> behaves A (body a acc)) \<Longrightarrow> behaves A (for_each_acc xs body acc)"
  by (induction xs arbitrary: acc) (auto intro!: behaves_bind behaves_return)

lemma behaves_if:
  "(b \<Longrightarrow> behaves A m1) \<Longrightarrow> (\<not> b \<Longrightarrow> behaves A m2) \<Longrightarrow> behaves A (if b then m1 else m2)"
  by simp

lemma behaves_case_option:
  "(x = None \<Longrightarrow> behaves A m1) \<Longrightarrow> (\<And>y. x = Some y \<Longrightarrow> behaves A (m2 y)) \<Longrightarrow>
   behaves A (case x of None \<Rightarrow> m1 | Some y \<Rightarrow> m2 y)"
  by (cases x) auto

lemma behaves_case_prod:
  "(\<And>a b. p = (a, b) \<Longrightarrow> behaves A (f a b)) \<Longrightarrow> behaves A (case p of (a, b) \<Rightarrow> f a b)"
  by (cases p) auto

lemma behaves_stats:
  "behaves A (set_textures n)" "behaves A AddLayer" "behaves A AddFace" "behaves A AddEdge"
  "behaves A (inheritance_PushElement el)" "behaves A inheritance_PopElement"
  by (auto simp: behaves_def set_textures_def AddLayer_def AddFace_def AddEdge_def
      inheritance_PushElement_def inheritance_PopElement_def modify_def)

lemmas behaves_intros =
  behaves_return behaves_member behaves_file_call behaves_SU_CALL behaves_sdk_call
  behaves_bind behaves_seq_Nil behaves_seq_Cons behaves_for_each behaves_for_each_acc
  behaves_if behaves_case_option behaves_case_prod behaves_stats

lemma behaves_GetLayerName: "behaves inner_event (GetLayerName layer)"
  unfolding GetLayerName_def by (intro behaves_intros) simp

lemma behaves_GetMaterialName: "behaves inner_event (GetMaterialName m)"
  unfolding GetMaterialName_def by (intro behaves_intros) simp

lemma behaves_GetComponentDefinitionName: "behaves inner_event (GetComponentDefinitionName d)"
  unfolding GetComponentDefinitionName_def by (intro behaves_intros) simp

lemma behaves_GetMaterialInfo: "behaves inner_event (GetMaterialInfo m)"
  unfolding GetMaterialInfo_def
  by (intro behaves_intros behaves_GetMaterialName) simp_all

lemma behaves_WriteLayer: "behaves inner_event (WriteLayer layer)"
  unfolding WriteLayer_def
  by (intro behaves_intros behaves_GetLayerName behaves_GetMaterialInfo) simp_all

lemma behaves_WriteLayers: "behaves inner_event WriteLayers"
  unfolding WriteLayers_def
  by (intro behaves_intros behaves_WriteLayer) simp_all

lemma behaves_WriteMaterial: "behaves inner_event (WriteMaterial m)"
  unfolding WriteMaterial_def
  by (intro behaves_intros behaves_GetMaterialInfo) simp_all

lemma behaves_WriteMaterials: "behaves inner_event WriteMaterials"
  unfolding WriteMaterials_def
  by (intro behaves_intros behaves_WriteMaterial) simp_all

lemma behaves_WriteTextureFiles: "behaves inner_event WriteTextureFiles"
  unfolding WriteTextureFiles_def CXmlTextureHelper_LoadAllTextures_def
  by (intro behaves_intros) simp_all

lemma behaves_WriteFace_loop: "behaves inner_event (WriteFace_loop loop)"
  unfolding WriteFace_loop_def WriteFace_vertex_def
  by (intro behaves_intros) simp_all

lemma behaves_WriteFace: "behaves inner_event (WriteFace face)"
  unfolding WriteFace_def
  by (intro behaves_intros behaves_WriteFace_loop) simp_all

lemma behaves_WriteEntities_instance: "behaves inner_event (WriteEntities_instance i)"
  unfolding WriteEntities_instance_def
  by (intro behaves_intros behaves_GetLayerName behaves_GetMaterialName
      behaves_GetComponentDefinitionName) simp_all

lemma behaves_WriteEntities_instances: "behaves inner_event (WriteEntities_instances entities)"
  unfolding WriteEntities_instances_def
  by (intro behaves_intros behaves_WriteEntities_instance) simp_all

lemma behaves_WriteEntities_faces: "behaves inner_event (WriteEntities_faces entities)"
  unfolding WriteEntities_faces_def
  by (intro behaves_intros behaves_WriteFace) simp_all

lemma behaves_WriteEntities: "behaves inner_event (WriteEntities entities)"
proof (induction entities rule: WriteEntities.induct)
  case (1 entities)
  show ?case
    apply (subst WriteEntities.simps)
    apply (intro behaves_intros behaves_WriteEntities_instances behaves_WriteEntities_faces)
    apply simp_all
    apply (rule "1.IH")
    apply assumption+
    done
qed

lemma behaves_WriteGeometry: "behaves inner_event WriteGeometry"
  unfolding WriteGeometry_def
  by (intro behaves_intros behaves_WriteEntities) simp_all

lemma behaves_GetEdgeInfo: "behaves inner_event (GetEdgeInfo e)"
  unfolding GetEdgeInfo_def
  by (intro behaves_intros behaves_GetLayerName) simp_all

section \<open>Runs that return\<close>

lemma xreturn_apply: "xreturn v st = (Inr v, st)" by (simp add: xreturn_def)
lemma xthrow_apply: "xthrow e st = (Inl e, st)" by (simp add: xthrow_def)
lemma member_apply: "member field st = (Inr (field st), st)" by (simp add: member_def)
lemma modify_apply: "modify change st = (Inr (), change st)" by (simp add: modify_def)
lemma emit_apply: "emit e st = (Inr (), st\<lparr>trace := trace st @ [e]\<rparr>)"
  by (simp add: emit_def modify_def)
lemma file_call_apply: "file_call op st = (Inr (), st\<lparr>trace := trace st @ [File op]\<rparr>)"
  by (simp add: file_call_def emit_apply)
lemma SU_CALL_apply:
  "SU_CALL name call st =
     (if fst call \<noteq> SU_ERROR_NONE then Inl SU_exception else Inr (snd call),
      st\<lparr>trace := trace st @ [Sdk name Wrapped (fst call)]\<rparr>)"
  by (simp add: SU_CALL_def xbind_def emit_apply xthrow_apply xreturn_apply)
lemma sdk_call_apply:
  "sdk_call name use call st = (Inr call, st\<lparr>trace := trace st @ [Sdk name use (fst call)]\<rparr>)"
  by (simp add: sdk_call_def xbind_def emit_apply xreturn_apply)
lemma AddFace_apply:
  "AddFace st = (Inr (), st\<lparr>m_stats := (m_stats st)\<lparr>stat_faces := stat_faces (m_stats st) + 1\<rparr>\<rparr>)"
  by (simp add: AddFace_def modify_apply)

lemma AddLayer_apply:
  "AddLayer st = (Inr (), st\<lparr>m_stats := (m_stats st)\<lparr>stat_layers := stat_layers (m_stats st) + 1\<rparr>\<rparr>)"
  by (simp add: AddLayer_def modify_apply)
lemma AddEdge_apply:
  "AddEdge st = (Inr (), st\<lparr>m_stats := (m_stats st)\<lparr>stat_edges := stat_edges (m_stats st) + 1\<rparr>\<rparr>)"
  by (simp add: AddEdge_def modify_apply)
lemma set_textures_apply:
  "set_textures n st = (Inr (), st\<lparr>m_stats := (m_stats st)\<lparr>stat_textures := n\<rparr>\<rparr>)"
  by (simp add: set_textures_def modify_apply)

lemmas run_simps = xreturn_apply xthrow_apply member_apply modify_apply emit_apply
  file_call_apply SU_CALL_apply sdk_call_apply AddFace_apply AddLayer_apply AddEdge_apply
  set_textures_apply

lemma xbind_InrE:
  assumes "xbind m f st = (Inr v, st')"
  obtains u s1 where "m st = (Inr u, s1)" and "f u s1 = (Inr v, st')"
  using assms by (auto simp: xbind_def split: prod.splits sum.splits)

text \<open>
  What a run shows from outside: everything but the SDK queries. The call that writes
  the texture files is shown, since it produces output.
\<close>

lemma xbind_Inr_iff:
  "xbind m f st = (Inr v, st') \<longleftrightarrow> (\<exists>u s1. m st = (Inr u, s1) \<and> f u s1 = (Inr v, st'))"
  by (auto simp: xbind_def split: prod.splits sum.splits)

lemma SU_CALL_Inr_iff:
  "SU_CALL name call st = (Inr v, st') \<longleftrightarrow>
     fst call = SU_ERROR_NONE \<and> v = snd call \<and>
     st' = st\<lparr>trace := trace st @ [Sdk name Wrapped SU_ERROR_NONE]\<rparr>"
  by (auto simp: SU_CALL_apply)

lemma if_apply: "(if b then m1 else m2) st = (if b then m1 st else m2 st)"
  by simp

lemmas inr_simps = xbind_Inr_iff SU_CALL_Inr_iff xreturn_apply xthrow_apply member_apply
  modify_apply emit_apply file_call_apply sdk_call_apply AddFace_apply AddLayer_apply
  AddEdge_apply set_textures_apply

fun observable :: "event \<Rightarrow> bool" where
  "observable (Sdk name use r) = (name = ''SUTextureWriterWriteAllTextures'')"
| "observable _ = True"

definition obs :: "event list \<Rightarrow> event list" where
  "obs tr = filter observable tr"

lemma obs_simps [simp]:
  "obs [] = []" "obs (tr @ tr') = obs tr @ obs tr'"
  "obs (e # tr) = (if observable e then e # obs tr else obs tr)"
  by (simp_all add: obs_def)

text \<open>
  The record of a loop, in the words of the claim about \<^verbatim>\<open>WriteFace\<close>: marked as a
  single loop, with the positions of the vertices of the loop in their order. The
  records of a face: the outer loop first, then each inner loop.
\<close>

definition loop_info :: "SULoop \<Rightarrow> XmlFaceInfo" where
  "loop_info loop =
     \<lparr>fi_has_single_loop = True,
      fi_vertices =
        map (\<lambda>v. \<lparr>fv_vertex = CPoint3d_of (snd (SUVertexGetPosition v))\<rparr>) (loop_vertices loop)\<rparr>"

definition face_records :: "SUFace option \<Rightarrow> file_op list" where
  "face_records face =
     (case face of
        None \<Rightarrow> []
      | Some f \<Rightarrow>
          WriteFaceInfo (loop_info (snd (SUFaceGetOuterLoop f))) #
          map (\<lambda>loop. WriteFaceInfo (loop_info loop)) (face_inner_loops f))"

lemma vertices_loop:
  assumes "for_each_acc vs WriteFace_vertex acc st = (Inr info, st')"
  shows "info = acc\<lparr>fi_vertices := fi_vertices acc @
            map (\<lambda>v. \<lparr>fv_vertex = CPoint3d_of (snd (SUVertexGetPosition v))\<rparr>) vs\<rparr> \<and>
         obs (trace st') = obs (trace st) \<and> m_stats st' = m_stats st \<and>
         m_inheritance_manager st' = m_inheritance_manager st"
  using assms
proof (induction vs arbitrary: acc st)
  case Nil
  then show ?case by (simp add: run_simps)
next
  case (Cons v vs)
  from Cons.prems obtain acc' s1 where
    step: "WriteFace_vertex v acc st = (Inr acc', s1)" and
    rest: "for_each_acc vs WriteFace_vertex acc' s1 = (Inr info, st')"
    by (auto elim!: xbind_InrE)
  from step have "acc' = acc\<lparr>fi_vertices := fi_vertices acc @
      [\<lparr>fv_vertex = CPoint3d_of (snd (SUVertexGetPosition v))\<rparr>]\<rparr>"
    and "obs (trace s1) = obs (trace st)" and "m_stats s1 = m_stats st"
    and "m_inheritance_manager s1 = m_inheritance_manager st"
    by (auto simp: WriteFace_vertex_def run_simps elim!: xbind_InrE split: if_splits)
  with Cons.IH[OF rest] show ?case by simp
qed

lemma WriteFace_loop_Inr:
  assumes "WriteFace_loop loop st = (Inr u, st')"
  shows "obs (trace st') = obs (trace st) @ [File (WriteFaceInfo (loop_info loop))] \<and>
         stat_faces (m_stats st') = stat_faces (m_stats st) + 1 \<and>
         m_inheritance_manager st' = m_inheritance_manager st"
  using assms unfolding WriteFace_loop_def
  by (auto simp: run_simps loop_info_def XmlFaceInfo_init_def SULoopGetNumVertices_def
      SULoopGetVertices_def elim!: xbind_InrE split: if_splits dest!: vertices_loop)

lemma for_each_Inr_obs:
  assumes body: "\<And>a st u st'. a \<in> set xs \<Longrightarrow> body a st = (Inr u, st') \<Longrightarrow>
                   obs (trace st') = obs (trace st) @ g a"
    and run: "for_each xs body st = (Inr u, st')"
  shows "obs (trace st') = obs (trace st) @ concat (map g xs)"
  using assms
proof (induction xs arbitrary: st)
  case Nil
  then show ?case by (simp add: run_simps)
next
  case (Cons a xs)
  from Cons.prems(2) obtain w s1 where
    step: "body a st = (Inr w, s1)" and rest: "for_each xs body s1 = (Inr u, st')"
    by (auto elim!: xbind_InrE)
  have "obs (trace s1) = obs (trace st) @ g a"
    using Cons.prems(1)[OF _ step] by simp
  moreover have "obs (trace st') = obs (trace s1) @ concat (map g xs)"
    by (rule Cons.IH[OF _ rest]) (rule Cons.prems(1), simp_all)
  ultimately show ?case by simp
qed

lemma for_each_Inr_count:
  fixes count :: "exporter \<Rightarrow> nat"
  assumes body: "\<And>a st u st'. a \<in> set xs \<Longrightarrow> body a st = (Inr u, st') \<Longrightarrow>
                   count st' = count st + k a"
    and run: "for_each xs body st = (Inr u, st')"
  shows "count st' = count st + sum_list (map k xs)"
  using assms
proof (induction xs arbitrary: st)
  case Nil
  then show ?case by (simp add: run_simps)
next
  case (Cons a xs)
  from Cons.prems(2) obtain w s1 where
    step: "body a st = (Inr w, s1)" and rest: "for_each xs body s1 = (Inr u, st')"
    by (auto elim!: xbind_InrE)
  have "count s1 = count st + k a"
    using Cons.prems(1)[OF _ step] by simp
  moreover have "count st' = count s1 + sum_list (map k xs)"
    by (rule Cons.IH[OF _ rest]) (rule Cons.prems(1), simp_all)
  ultimately show ?case by simp
qed

lemma for_each_Inr_keeps:
  assumes body: "\<And>a st u st'. a \<in> set xs \<Longrightarrow> body a st = (Inr u, st') \<Longrightarrow> f st' = f st"
    and run: "for_each xs body st = (Inr u, st')"
  shows "f st' = f st"
  using assms
proof (induction xs arbitrary: st)
  case Nil
  then show ?case by (simp add: run_simps)
next
  case (Cons a xs)
  from Cons.prems(2) obtain w s1 where
    step: "body a st = (Inr w, s1)" and rest: "for_each xs body s1 = (Inr u, st')"
    by (auto elim!: xbind_InrE)
  have "f s1 = f st"
    using Cons.prems(1)[OF _ step] by simp
  moreover have "f st' = f s1"
    by (rule Cons.IH[OF _ rest]) (rule Cons.prems(1), simp_all)
  ultimately show ?case by simp
qed

lemma inner_loops_Inr:
  assumes "for_each loops WriteFace_loop st = (Inr u, st')"
  shows "obs (trace st') =
           obs (trace st) @ map (\<lambda>loop. File (WriteFaceInfo (loop_info loop))) loops \<and>
         stat_faces (m_stats st') = stat_faces (m_stats st) + length loops \<and>
         m_inheritance_manager st' = m_inheritance_manager st"
proof -
  have "obs (trace st') =
          obs (trace st) @ concat (map (\<lambda>loop. [File (WriteFaceInfo (loop_info loop))]) loops)"
    by (rule for_each_Inr_obs[OF _ assms]) (simp add: WriteFace_loop_Inr)
  moreover have "stat_faces (m_stats st') =
      stat_faces (m_stats st) + sum_list (map (\<lambda>loop. 1) loops)"
    by (rule for_each_Inr_count[where count = "\<lambda>st. stat_faces (m_stats st)", OF _ assms])
       (simp add: WriteFace_loop_Inr)
  moreover have "m_inheritance_manager st' = m_inheritance_manager st"
    by (rule for_each_Inr_keeps[OF _ assms]) (simp add: WriteFace_loop_Inr)
  ultimately show ?thesis
    by (simp add: sum_list_triv concat_map_singleton)
qed

lemma WriteFace_inner_Inr:
  assumes "xbind (SU_CALL ''SUFaceGetNumInnerLoops'' (SUFaceGetNumInnerLoops f)) (\<lambda>num_loops.
              if num_loops > 0 then
                xbind (SU_CALL ''SUFaceGetInnerLoops'' (SUFaceGetInnerLoops f num_loops))
                  (\<lambda>loops. for_each loops WriteFace_loop)
              else xreturn ()) st = (Inr u, st')"
  shows "obs (trace st') =
           obs (trace st) @ map (\<lambda>loop. File (WriteFaceInfo (loop_info loop))) (face_inner_loops f) \<and>
         stat_faces (m_stats st') = stat_faces (m_stats st) + length (face_inner_loops f) \<and>
         m_inheritance_manager st' = m_inheritance_manager st"
  using assms
  by (auto simp: run_simps SUFaceGetNumInnerLoops_def SUFaceGetInnerLoops_def
      elim!: xbind_InrE split: if_splits dest!: inner_loops_Inr)

lemma WriteFace_Inr:
  assumes "WriteFace face st = (Inr u, st')"
  shows "obs (trace st') = obs (trace st) @ map File (face_records face) \<and>
         stat_faces (m_stats st') = stat_faces (m_stats st) + length (face_records face) \<and>
         m_inheritance_manager st' = m_inheritance_manager st"
proof (cases face)
  case None
  with assms show ?thesis by (simp add: WriteFace_def face_records_def run_simps)
next
  case (Some f)
  define outer_part where
    "outer_part = xbind (SU_CALL ''SUFaceGetOuterLoop'' (SUFaceGetOuterLoop f)) WriteFace_loop"
  define inner_part where
    "inner_part = xbind (SU_CALL ''SUFaceGetNumInnerLoops'' (SUFaceGetNumInnerLoops f))
       (\<lambda>num_loops.
              if num_loops > 0 then
                xbind (SU_CALL ''SUFaceGetInnerLoops'' (SUFaceGetInnerLoops f num_loops))
                  (\<lambda>loops. for_each loops WriteFace_loop)
              else xreturn ())"
  have "WriteFace (Some f) = xseq [outer_part, inner_part]"
    by (simp add: WriteFace_def outer_part_def inner_part_def)
  with assms Some obtain w s1 where
    "outer_part st = (Inr w, s1)" and "inner_part s1 = (Inr (), st')"
    by (auto elim!: xbind_InrE simp: xreturn_apply)
  then have outer: "xbind (SU_CALL ''SUFaceGetOuterLoop'' (SUFaceGetOuterLoop f)) WriteFace_loop st =
              (Inr w, s1)"
    and inner: "xbind (SU_CALL ''SUFaceGetNumInnerLoops'' (SUFaceGetNumInnerLoops f)) (\<lambda>num_loops.
              if num_loops > 0 then
                xbind (SU_CALL ''SUFaceGetInnerLoops'' (SUFaceGetInnerLoops f num_loops))
                  (\<lambda>loops. for_each loops WriteFace_loop)
              else xreturn ()) s1 = (Inr (), st')"
    by (simp_all add: outer_part_def inner_part_def)
  from outer have
    "obs (trace s1) = obs (trace st) @ [File (WriteFaceInfo (loop_info (snd (SUFaceGetOuterLoop f))))]"
    "stat_faces (m_stats s1) = stat_faces (m_stats st) + 1"
    "m_inheritance_manager s1 = m_inheritance_manager st"
    by (auto simp: run_simps elim!: xbind_InrE split: if_splits dest!: WriteFace_loop_Inr)
  with WriteFace_inner_Inr[OF inner] Some show ?thesis
    by (simp add: face_records_def)
qed

section \<open>The records of a face\<close>

text \<open>The calls made on the XML writer, in order.\<close>

fun written :: "event list \<Rightarrow> file_op list" where
  "written [] = []"
| "written (File op # tr) = op # written tr"
| "written (e # tr) = written tr"

lemma written_append [simp]: "written (tr @ tr') = written tr @ written tr'"
  by (induction tr rule: written.induct) auto

lemma written_obs [simp]: "written (obs tr) = written tr"
  by (induction tr rule: written.induct) auto

lemma written_map_File [simp]: "written (map File ops) = ops"
  by (induction ops) auto

text \<open>
  Claim C10. For every valid face, \<^verbatim>\<open>WriteFace\<close> emits exactly one face record per
  loop, one for the outer loop first and then one for each inner loop, each record
  marked as a single loop and holding the positions of the vertices of that loop in
  order, and the face counter of the statistics is incremented once per record, that
  is by one plus the number of inner loops. This holds of every call that returns,
  which is every call in which no wrapped SDK query fails.
\<close>

theorem WriteFace_record_per_loop:
  assumes "WriteFace (Some face) st = (Inr u, st')"
  shows "written (trace st') =
           written (trace st) @
           map (\<lambda>loop. WriteFaceInfo
                  \<lparr>fi_has_single_loop = True,
                   fi_vertices = map (\<lambda>v. \<lparr>fv_vertex = CPoint3d_of (snd (SUVertexGetPosition v))\<rparr>)
                                   (loop_vertices loop)\<rparr>)
             (snd (SUFaceGetOuterLoop face) # face_inner_loops face) \<and>
         stat_faces (m_stats st') = stat_faces (m_stats st) + (1 + length (face_inner_loops face))"
proof -
  note r = WriteFace_Inr[OF assms]
  from r have "written (obs (trace st')) = written (obs (trace st) @ map File (face_records (Some face)))"
    by simp
  then have "written (trace st') = written (trace st) @ face_records (Some face)"
    by simp
  with r show ?thesis
    by (simp add: face_records_def loop_info_def)
qed

text \<open>
  A face with a triangle as its outer loop and a triangular hole, in an exporter that
  has written nothing yet. \<open>ok v\<close> is the answer of a query that succeeds with \<open>v\<close>.
\<close>

definition ok :: "'a \<Rightarrow> SUResult \<times> 'a" where "ok v = (SU_ERROR_NONE, v)"

definition example_plain :: SUDrawingElement where
  "example_plain = SUDrawingElement (ok None) (ok None)"

definition example_triangle :: SULoop where
  "example_triangle =
     SULoop SU_ERROR_NONE SU_ERROR_NONE
       [SUVertex (ok (SUPoint3D 0 0 0)), SUVertex (ok (SUPoint3D 4 0 0)),
        SUVertex (ok (SUPoint3D 0 4 0))]"

definition example_hole :: SULoop where
  "example_hole =
     SULoop SU_ERROR_NONE SU_ERROR_NONE
       [SUVertex (ok (SUPoint3D 1 1 0)), SUVertex (ok (SUPoint3D 2 1 0)),
        SUVertex (ok (SUPoint3D 1 2 0))]"

definition example_face :: SUFace where
  "example_face = SUFace example_plain (ok example_triangle) SU_ERROR_NONE SU_ERROR_NONE [example_hole]"

definition example_options :: Options where
  "example_options =
     \<lparr>export_materials = True, export_faces = True, export_edges = True,
      export_materials_by_layer = False, export_layers = True\<rparr>"

definition example_exporter :: exporter where
  "example_exporter =
     \<lparr>m_model = None, m_texture_writer = None, m_options = example_options,
      m_stats = \<lparr>stat_textures = 0, stat_layers = 0, stat_faces = 0, stat_edges = 0\<rparr>,
      m_inheritance_manager = [], trace = []\<rparr>"

lemmas eval_simps = run_simps xbind_def ok_def

lemma example_face_run:
  "fst (WriteFace (Some example_face) example_exporter) = Inr ()"
  by (simp add: WriteFace_def WriteFace_loop_def WriteFace_vertex_def example_face_def example_triangle_def
      example_hole_def eval_simps SUFaceGetNumInnerLoops_def SUFaceGetInnerLoops_def
      SULoopGetNumVertices_def SULoopGetVertices_def)

theorem WriteFace_record_per_loop_witness:
  "fst (WriteFace (Some example_face) example_exporter) = Inr () \<and>
   written (trace (snd (WriteFace (Some example_face) example_exporter))) =
     [WriteFaceInfo \<lparr>fi_has_single_loop = True,
        fi_vertices = [\<lparr>fv_vertex = CPoint3d 0 0 0\<rparr>, \<lparr>fv_vertex = CPoint3d 4 0 0\<rparr>,
                       \<lparr>fv_vertex = CPoint3d 0 4 0\<rparr>]\<rparr>,
      WriteFaceInfo \<lparr>fi_has_single_loop = True,
        fi_vertices = [\<lparr>fv_vertex = CPoint3d 1 1 0\<rparr>, \<lparr>fv_vertex = CPoint3d 2 1 0\<rparr>,
                       \<lparr>fv_vertex = CPoint3d 1 2 0\<rparr>]\<rparr>] \<and>
   stat_faces (m_stats (snd (WriteFace (Some example_face) example_exporter))) = 2"
proof -
  have run: "WriteFace (Some example_face) example_exporter =
      (Inr (), snd (WriteFace (Some example_face) example_exporter))"
    using example_face_run by (metis prod.collapse)
  from WriteFace_record_per_loop[OF run] example_face_run show ?thesis
    by (simp add: example_face_def example_triangle_def example_hole_def example_exporter_def ok_def)
qed

section \<open>The layer and the colour of an edge\<close>


text \<open>
  An edge on the layer ``Walls'' with a red material of its own, and an exporter with
  every option set whose inheritance manager holds no context: no group has been
  entered, so there is no current layer and the current colour is the default.
\<close>

definition example_red :: SUMaterial where
  "example_red =
     SUMaterial (ok ''Red'') (ok SUMaterialType_Colored) (ok (SUColor 255 0 0 255))
       (ok False) (ok 1) (SU_ERROR 9, SUTexture (ok []) (ok (0, 0, 0, 0)))"

definition example_walls :: SULayer where
  "example_walls = SULayer (ok ''Walls'') (SU_ERROR 9, example_red) (ok True)"

definition example_edge :: SUEdge where
  "example_edge =
     SUEdge (SUDrawingElement (ok (Some example_walls)) (ok (Some example_red)))
       (ok (SUVertex (ok (SUPoint3D 0 0 0)))) (ok (SUVertex (ok (SUPoint3D 4 0 0))))"



text \<open>
  The same edge inside a group on the layer ``Layer0'' with black as its colour: the
  name recorded is ``Walls'', the colour recorded is black.
\<close>

definition example_layer0 :: SULayer where
  "example_layer0 = SULayer (ok ''Layer0'') (SU_ERROR 9, example_red) (ok True)"

definition example_in_group :: exporter where
  "example_in_group =
     example_exporter
       \<lparr>m_inheritance_manager :=
          [\<lparr>ctx_layer = Some example_layer0, ctx_edge_color = SUColor 0 0 0 255\<rparr>]\<rparr>"



section \<open>What a call leaves as it was\<close>

text \<open>
  \<open>preserves f m\<close>: whatever its outcome, the call \<open>m\<close> leaves the reading \<open>f\<close> of the
  exporter as it was.
\<close>

definition preserves :: "(exporter \<Rightarrow> 'b) \<Rightarrow> 'a effect \<Rightarrow> bool" where
  "preserves f m = (\<forall>st r st'. m st = (r, st') \<longrightarrow> f st' = f st)"

lemma preservesD: "preserves f m \<Longrightarrow> m st = (r, st') \<Longrightarrow> f st' = f st"
  by (auto simp: preserves_def)

lemma preserves_return: "preserves f (xreturn v)"
  by (simp add: preserves_def xreturn_def)

lemma preserves_member: "preserves f (member field)"
  by (simp add: preserves_def member_def)

lemma preserves_emit:
  "(\<And>st. f (st\<lparr>trace := trace st @ [e]\<rparr>) = f st) \<Longrightarrow> preserves f (emit e)"
  by (auto simp: preserves_def emit_apply)

lemma preserves_file_call:
  "(\<And>st. f (st\<lparr>trace := trace st @ [File op]\<rparr>) = f st) \<Longrightarrow> preserves f (file_call op)"
  by (auto simp: preserves_def file_call_apply)

lemma preserves_SU_CALL:
  "(\<And>st. f (st\<lparr>trace := trace st @ [Sdk name Wrapped (fst call)]\<rparr>) = f st) \<Longrightarrow>
   preserves f (SU_CALL name call)"
  by (auto simp: preserves_def SU_CALL_apply)

lemma preserves_sdk_call:
  "(\<And>st. f (st\<lparr>trace := trace st @ [Sdk name use (fst call)]\<rparr>) = f st) \<Longrightarrow>
   preserves f (sdk_call name use call)"
  by (auto simp: preserves_def sdk_call_apply)

lemma preserves_modify: "(\<And>st. f (change st) = f st) \<Longrightarrow> preserves f (modify change)"
  by (auto simp: preserves_def modify_apply)

lemma preserves_bind:
  assumes "preserves f m" and "\<And>v. preserves f (g v)"
  shows "preserves f (xbind m g)"
  using assms
  by (auto simp: preserves_def xbind_def split: prod.splits sum.splits)

lemma preserves_seq_Nil: "preserves f (xseq [])"
  by (simp add: preserves_return)

lemma preserves_seq_Cons:
  "preserves f m \<Longrightarrow> preserves f (xseq ms) \<Longrightarrow> preserves f (xseq (m # ms))"
  by (simp add: preserves_bind)

lemma preserves_for_each:
  "(\<And>a. preserves f (body a)) \<Longrightarrow> preserves f (for_each xs body)"
  by (induction xs) (auto intro!: preserves_bind preserves_return)

lemma preserves_for_each_acc:
  "(\<And>a acc. preserves f (body a acc)) \<Longrightarrow> preserves f (for_each_acc xs body acc)"
  by (induction xs arbitrary: acc) (auto intro!: preserves_bind preserves_return)

lemma preserves_if:
  "(b \<Longrightarrow> preserves f m1) \<Longrightarrow> (\<not> b \<Longrightarrow> preserves f m2) \<Longrightarrow>
   preserves f (if b then m1 else m2)"
  by simp

lemma preserves_case_option:
  "preserves f m1 \<Longrightarrow> (\<And>y. preserves f (m2 y)) \<Longrightarrow>
   preserves f (case x of None \<Rightarrow> m1 | Some y \<Rightarrow> m2 y)"
  by (cases x) auto

lemma preserves_case_prod:
  "(\<And>a b. preserves f (g a b)) \<Longrightarrow> preserves f (case p of (a, b) \<Rightarrow> g a b)"
  by (cases p) auto

lemmas preserves_intros =
  preserves_return preserves_member preserves_file_call preserves_SU_CALL
  preserves_sdk_call preserves_bind preserves_seq_Nil preserves_seq_Cons
  preserves_for_each preserves_for_each_acc preserves_if preserves_case_option
  preserves_case_prod

lemmas getter_defs = GetLayerName_def GetMaterialName_def GetComponentDefinitionName_def
  GetMaterialInfo_def

text \<open>The functions that only query the SDK leave everything but the trace, and add nothing that shows.\<close>

lemma GetMaterialInfo_shows_nothing:
  "preserves (\<lambda>st. obs (trace st)) (GetMaterialInfo material)"
  unfolding getter_defs by (intro preserves_intros) simp_all

lemma GetMaterialInfo_keeps_stats: "preserves m_stats (GetMaterialInfo material)"
  unfolding getter_defs by (intro preserves_intros) simp_all

text \<open>Only the pushes and pops of \<^verbatim>\<open>WriteEntities\<close> change the inheritance manager.\<close>

lemma WriteEntities_instance_keeps_manager:
  "preserves m_inheritance_manager (WriteEntities_instance instance)"
  unfolding WriteEntities_instance_def getter_defs by (intro preserves_intros) simp_all

lemma WriteFace_keeps_manager: "preserves m_inheritance_manager (WriteFace face)"
  unfolding WriteFace_def WriteFace_loop_def WriteFace_vertex_def AddFace_def
  by (intro preserves_intros preserves_modify) simp_all

section \<open>The records of an entities collection\<close>

text \<open>
  The record of a component instance when no query fails: the name of its layer and
  of its material where it has them, the name of its definition, its transformation.
\<close>

definition instance_info :: "SUComponentInstance \<Rightarrow> XmlComponentInstanceInfo" where
  "instance_info instance =
     \<lparr>ci_layer_name =
        (case out_param None
                (SUDrawingElementGetLayer (SUComponentInstanceToDrawingElement instance)) of
           None \<Rightarrow> [] | Some layer \<Rightarrow> snd (SULayerGetName layer)),
      ci_material_name =
        (case out_param None
                (SUDrawingElementGetMaterial (SUComponentInstanceToDrawingElement instance)) of
           None \<Rightarrow> [] | Some material \<Rightarrow> snd (SUMaterialGetName material)),
      ci_definition_name =
        snd (SUComponentDefinitionGetName (snd (SUComponentInstanceGetDefinition instance))),
      ci_transform = snd (SUComponentInstanceGetTransform instance)\<rparr>"

text \<open>
  The order of the records of an entities collection, in the words of claim C8: the
  records of the component instances first, then each group, opened, with the records
  of its nested entities and then its transformation, and closed, then the records of
  the faces.
\<close>

function entities_records :: "Options \<Rightarrow> SUEntities \<Rightarrow> file_op list" where
  "entities_records options entities =
     map (\<lambda>instance. WriteComponentInstanceInfo (instance_info instance))
       (entities_instances entities) @
     concat (map (\<lambda>g. [StartGroup] @
                        entities_records options (snd (SUGroupGetEntities g)) @
                        [WriteTransformation (snd (SUGroupGetTransform g)), PopParentNode])
               (entities_groups entities)) @
     (if export_faces options then concat (map face_records (entities_faces entities)) else [])"
  by pat_completeness auto
termination
proof (relation "measure (\<lambda>(options, entities). size entities)")
  show "wf (measure (\<lambda>(options, entities). size entities))" by simp
next
  fix options :: Options and entities :: SUEntities and g :: SUGroup
  assume "g \<in> set (entities_groups entities)"
  then have "size g < size entities"
    by (rule size_entities_group)
  then show "((options, snd (SUGroupGetEntities g)), (options, entities))
               \<in> measure (\<lambda>(options, entities). size entities)"
    using size_group_entities[of g] by simp
qed

declare entities_records.simps [simp del]

lemma WriteEntities_instance_Inr:
  assumes "WriteEntities_instance instance st = (Inr u, st')"
  shows "obs (trace st') =
           obs (trace st) @ [File (WriteComponentInstanceInfo (instance_info instance))]"
  using assms unfolding WriteEntities_instance_def getter_defs
  apply (simp add: inr_simps)
  apply (elim exE conjE)
  apply (simp add: inr_simps if_apply XmlComponentInstanceInfo_init_def sdk_ref_def
      SU_ERROR_INVALID_INPUT_def split: if_split_asm option.split_asm)
  apply (auto simp: instance_info_def)
  done

lemma WriteEntities_instances_Inr:
  assumes "WriteEntities_instances entities st = (Inr u, st')"
  shows "obs (trace st') =
           obs (trace st) @
           map (\<lambda>instance. File (WriteComponentInstanceInfo (instance_info instance)))
             (entities_instances entities)"
proof (cases "entities_instances entities = []")
  case True
  with assms show ?thesis
    by (auto simp: WriteEntities_instances_def inr_simps SUEntitiesGetNumInstances_def)
next
  case False
  with assms obtain s1 where
    loop: "for_each (entities_instances entities) WriteEntities_instance s1 = (Inr u, st')"
    and s1: "obs (trace s1) = obs (trace st)"
    by (auto simp: WriteEntities_instances_def inr_simps SUEntitiesGetNumInstances_def
        SUEntitiesGetInstances_def)
  have "obs (trace st') =
          obs (trace s1) @
          concat (map (\<lambda>instance. [File (WriteComponentInstanceInfo (instance_info instance))])
                    (entities_instances entities))"
    by (rule for_each_Inr_obs[OF _ loop]) (rule WriteEntities_instance_Inr)
  with s1 show ?thesis by (simp add: concat_map_singleton)
qed

lemma WriteEntities_instances_keeps_manager:
  "preserves m_inheritance_manager (WriteEntities_instances entities)"
  unfolding WriteEntities_instances_def
  by (intro preserves_intros WriteEntities_instance_keeps_manager) simp_all

text \<open>The inheritance manager is a stack: a pop undoes the push before it.\<close>

lemma PopElement_PushElement: "PopElement (PushElement element manager) = manager"
  by (simp add: PopElement_def PushElement_def)

lemma WriteEntities_face_Inr:
  assumes "xseq [inheritance_PushElement element, WriteFace face, inheritance_PopElement] st =
             (Inr u, st')"
  shows "obs (trace st') = obs (trace st) @ map File (face_records face) \<and>
         m_inheritance_manager st' = m_inheritance_manager st"
  using assms
  by (auto simp: inr_simps inheritance_PushElement_def inheritance_PopElement_def
      PopElement_PushElement dest!: WriteFace_Inr)

lemma for_each_Inr_inv:
  assumes body: "\<And>a st u st'. a \<in> set xs \<Longrightarrow> I st \<Longrightarrow> body a st = (Inr u, st') \<Longrightarrow>
                   I st' \<and> obs (trace st') = obs (trace st) @ g a"
    and inv: "I st"
    and run: "for_each xs body st = (Inr u, st')"
  shows "I st' \<and> obs (trace st') = obs (trace st) @ concat (map g xs)"
  using assms
proof (induction xs arbitrary: st)
  case Nil
  then show ?case by (simp add: run_simps)
next
  case (Cons a xs)
  from Cons.prems(3) obtain w s1 where
    step: "body a st = (Inr w, s1)" and rest: "for_each xs body s1 = (Inr u, st')"
    by (auto elim!: xbind_InrE)
  have s1: "I s1 \<and> obs (trace s1) = obs (trace st) @ g a"
    using Cons.prems(1)[OF _ Cons.prems(2) step] by simp
  have "I st' \<and> obs (trace st') = obs (trace s1) @ concat (map g xs)"
  proof (rule Cons.IH[OF _ _ rest])
    show "I s1" using s1 by simp
  next
    fix b s v s'
    assume "b \<in> set xs" "I s" "body b s = (Inr v, s')"
    then show "I s' \<and> obs (trace s') = obs (trace s) @ g b"
      using Cons.prems(1)[of b s v s'] by simp
  qed
  with s1 show ?case by simp
qed

lemma behaves_options: "behaves A m \<Longrightarrow> m st = (r, st') \<Longrightarrow> m_options st' = m_options st"
  by (auto simp: behaves_def)

lemma WriteEntities_faces_Inr:
  assumes "WriteEntities_faces entities st = (Inr u, st')"
  shows "obs (trace st') =
           obs (trace st) @
           (if export_faces (m_options st)
            then concat (map (\<lambda>face. map File (face_records face)) (entities_faces entities))
            else []) \<and>
         m_inheritance_manager st' = m_inheritance_manager st"
proof (cases "export_faces (m_options st) \<and> entities_faces entities \<noteq> []")
  case False
  with assms show ?thesis
    by (auto simp: WriteEntities_faces_def inr_simps SUEntitiesGetNumFaces_def
        split: if_split_asm)
next
  case True
  with assms obtain s1 where
    loop: "for_each (entities_faces entities) (\<lambda>face.
             xseq [inheritance_PushElement (map_option SUFaceToDrawingElement face),
                   WriteFace face, inheritance_PopElement]) s1 = (Inr u, st')"
    and s1: "obs (trace s1) = obs (trace st)"
      "m_inheritance_manager s1 = m_inheritance_manager st"
    by (auto simp: WriteEntities_faces_def inr_simps SUEntitiesGetNumFaces_def
        SUEntitiesGetFaces_def)
  have "m_inheritance_manager st' = m_inheritance_manager st \<and>
        obs (trace st') =
          obs (trace s1) @
          concat (map (\<lambda>face. map File (face_records face)) (entities_faces entities))"
  proof (rule for_each_Inr_inv[OF _ _ loop,
        where I = "\<lambda>s. m_inheritance_manager s = m_inheritance_manager st"])
    show "m_inheritance_manager s1 = m_inheritance_manager st" by (rule s1)
  next
    fix face s v s'
    assume "m_inheritance_manager s = m_inheritance_manager st"
      and "xseq [inheritance_PushElement (map_option SUFaceToDrawingElement face),
                 WriteFace face, inheritance_PopElement] s = (Inr v, s')"
    then show "m_inheritance_manager s' = m_inheritance_manager st \<and>
               obs (trace s') = obs (trace s) @ map File (face_records face)"
      using WriteEntities_face_Inr by metis
  qed
  with s1 True show ?thesis by simp
qed

lemma WriteEntities_group_Inr:
  assumes run: "xbind (SU_CALL ''SUGroupGetEntities'' (SUGroupGetEntities g))
                  (\<lambda>group_entities.
                     xseq [
                       inheritance_PushElement (Some (SUGroupToDrawingElement g)),
                       file_call StartGroup,
                       WriteEntities group_entities,
                       xbind (SU_CALL ''SUGroupGetTransform'' (SUGroupGetTransform g))
                         (\<lambda>transform. file_call (WriteTransformation transform)),
                       file_call PopParentNode,
                       inheritance_PopElement]) st = (Inr u, st')"
    and nested: "\<And>s w s'. WriteEntities (snd (SUGroupGetEntities g)) s = (Inr w, s') \<Longrightarrow>
         obs (trace s') =
           obs (trace s) @ map File (entities_records (m_options s) (snd (SUGroupGetEntities g))) \<and>
         m_inheritance_manager s' = m_inheritance_manager s"
  shows "obs (trace st') =
           obs (trace st) @
           map File ([StartGroup] @
                     entities_records (m_options st) (snd (SUGroupGetEntities g)) @
                     [WriteTransformation (snd (SUGroupGetTransform g)), PopParentNode]) \<and>
         m_inheritance_manager st' = m_inheritance_manager st \<and>
         m_options st' = m_options st"
  using run
  apply (simp add: inr_simps inheritance_PushElement_def inheritance_PopElement_def)
  apply (elim exE conjE)
  apply (frule nested)
  apply (frule behaves_options[OF behaves_WriteEntities])
  apply (auto simp: PopElement_PushElement)
  done

lemma WriteEntities_Inr:
  "WriteEntities entities st = (Inr u, st') \<Longrightarrow>
   obs (trace st') = obs (trace st) @ map File (entities_records (m_options st) entities) \<and>
   m_inheritance_manager st' = m_inheritance_manager st"
proof (induction "size entities" arbitrary: entities st st' u rule: less_induct)
  case less
  define body where
    "body = (\<lambda>g. xbind (SU_CALL ''SUGroupGetEntities'' (SUGroupGetEntities g))
                  (\<lambda>group_entities.
                     xseq [
                       inheritance_PushElement (Some (SUGroupToDrawingElement g)),
                       file_call StartGroup,
                       WriteEntities group_entities,
                       xbind (SU_CALL ''SUGroupGetTransform'' (SUGroupGetTransform g))
                         (\<lambda>transform. file_call (WriteTransformation transform)),
                       file_call PopParentNode,
                       inheritance_PopElement]))"
  define groups_part where
    "groups_part =
       xbind (SU_CALL ''SUEntitiesGetNumGroups'' (SUEntitiesGetNumGroups entities))
         (\<lambda>num_groups.
           if num_groups > 0 then
             xbind (SU_CALL ''SUEntitiesGetGroups'' (SUEntitiesGetGroups entities num_groups))
               (\<lambda>groups. for_each groups body)
           else xreturn ())"
  define group_records where
    "group_records = (\<lambda>g. map File ([StartGroup] @
                        entities_records (m_options st) (snd (SUGroupGetEntities g)) @
                        [WriteTransformation (snd (SUGroupGetTransform g)), PopParentNode]))"
  have "WriteEntities entities =
          xseq [WriteEntities_instances entities, groups_part, WriteEntities_faces entities]"
    unfolding groups_part_def body_def by (rule WriteEntities.simps)
  with less.prems obtain w1 s1 w2 s2 where
    instances: "WriteEntities_instances entities st = (Inr w1, s1)"
    and groups: "groups_part s1 = (Inr w2, s2)"
    and faces: "WriteEntities_faces entities s2 = (Inr (), st')"
    by (auto elim!: xbind_InrE simp: xreturn_apply)
  have s1: "obs (trace s1) =
              obs (trace st) @
              map (\<lambda>instance. File (WriteComponentInstanceInfo (instance_info instance)))
                (entities_instances entities)"
    "m_inheritance_manager s1 = m_inheritance_manager st" "m_options s1 = m_options st"
    using WriteEntities_instances_Inr[OF instances]
      preservesD[OF WriteEntities_instances_keeps_manager instances]
      behaves_options[OF behaves_WriteEntities_instances instances]
    by simp_all
  have s2: "(m_options s2 = m_options st \<and> m_inheritance_manager s2 = m_inheritance_manager st) \<and>
            obs (trace s2) = obs (trace s1) @ concat (map group_records (entities_groups entities))"
  proof (cases "entities_groups entities = []")
    case True
    with groups s1 show ?thesis
      by (auto simp: groups_part_def inr_simps SUEntitiesGetNumGroups_def)
  next
    case False
    with groups obtain s1' where
      loop: "for_each (entities_groups entities) body s1' = (Inr w2, s2)"
      and s1': "obs (trace s1') = obs (trace s1)"
        "m_inheritance_manager s1' = m_inheritance_manager s1" "m_options s1' = m_options s1"
      by (auto simp: groups_part_def inr_simps SUEntitiesGetNumGroups_def
          SUEntitiesGetGroups_def)
    have "(m_options s2 = m_options st \<and> m_inheritance_manager s2 = m_inheritance_manager st) \<and>
          obs (trace s2) = obs (trace s1') @ concat (map group_records (entities_groups entities))"
    proof (rule for_each_Inr_inv[OF _ _ loop,
          where I = "\<lambda>s. m_options s = m_options st \<and>
                         m_inheritance_manager s = m_inheritance_manager st"])
      show "m_options s1' = m_options st \<and> m_inheritance_manager s1' = m_inheritance_manager st"
        using s1 s1' by simp
    next
      fix g s v s'
      assume g: "g \<in> set (entities_groups entities)"
        and inv: "m_options s = m_options st \<and> m_inheritance_manager s = m_inheritance_manager st"
        and run: "body g s = (Inr v, s')"
      have smaller: "size (snd (SUGroupGetEntities g)) < size entities"
        using size_entities_group[OF g] size_group_entities[of g] by simp
      have "obs (trace s') =
              obs (trace s) @
              map File ([StartGroup] @
                        entities_records (m_options s) (snd (SUGroupGetEntities g)) @
                        [WriteTransformation (snd (SUGroupGetTransform g)), PopParentNode]) \<and>
            m_inheritance_manager s' = m_inheritance_manager s \<and>
            m_options s' = m_options s"
        by (rule WriteEntities_group_Inr[OF run[unfolded body_def]])
           (rule less.hyps[OF smaller])
      with inv show "(m_options s' = m_options st \<and>
                      m_inheritance_manager s' = m_inheritance_manager st) \<and>
                     obs (trace s') = obs (trace s) @ group_records g"
        by (simp add: group_records_def)
    qed
    with s1' show ?thesis by simp
  qed
  note f = WriteEntities_faces_Inr[OF faces]
  have "entities_records (m_options st) entities =
          map (\<lambda>instance. WriteComponentInstanceInfo (instance_info instance))
            (entities_instances entities) @
          concat (map (\<lambda>g. [StartGroup] @
                        entities_records (m_options st) (snd (SUGroupGetEntities g)) @
                        [WriteTransformation (snd (SUGroupGetTransform g)), PopParentNode])
               (entities_groups entities)) @
          (if export_faces (m_options st)
           then concat (map face_records (entities_faces entities)) else [])"
    by (rule entities_records.simps)
  with s1 s2 f show ?case
    by (simp add: group_records_def map_concat comp_def)
qed

section \<open>The sections of the document\<close>

text \<open>
  The records of a material and of a layer when no wrapped query fails. The colour and
  the texture of a material are recorded when the material is of a type that has them
  and the query for them succeeds.
\<close>

definition material_info :: "SUMaterial \<Rightarrow> XmlMaterialInfo" where
  "material_info material =
     (let type = snd (SUMaterialGetType material);
          colored = ((type = SUMaterialType_Colored \<or> type = SUMaterialType_ColorizedTexture) \<and>
                     fst (SUMaterialGetColor material) = SU_ERROR_NONE);
          textured = ((type = SUMaterialType_Textured \<or> type = SUMaterialType_ColorizedTexture) \<and>
                      fst (SUMaterialGetTexture material) = SU_ERROR_NONE);
          texture = snd (SUMaterialGetTexture material)
      in \<lparr>mi_name = snd (SUMaterialGetName material),
          mi_has_color = colored,
          mi_color = (if colored then snd (SUMaterialGetColor material) else SUColor 0 0 0 0),
          mi_has_alpha = snd (SUMaterialGetUseOpacity material),
          mi_alpha = (if snd (SUMaterialGetUseOpacity material)
                      then snd (SUMaterialGetOpacity material) else 0),
          mi_has_texture = textured,
          mi_texture_path = (if textured then snd (SUTextureGetFileName texture) else []),
          mi_texture_sscale =
            (if textured then fst (snd (snd (snd (SUTextureGetDimensions texture)))) else 0),
          mi_texture_tscale =
            (if textured then snd (snd (snd (snd (SUTextureGetDimensions texture)))) else 0)\<rparr>)"

definition layer_info :: "SULayer \<Rightarrow> XmlLayerInfo" where
  "layer_info layer =
     \<lparr>li_name = snd (SULayerGetName layer),
      li_has_material_info = (fst (SULayerGetMaterial layer) = SU_ERROR_NONE),
      li_material_info =
        (if fst (SULayerGetMaterial layer) = SU_ERROR_NONE
         then material_info (snd (SULayerGetMaterial layer)) else XmlMaterialInfo_init),
      li_is_visible = snd (SULayerGetVisibility layer)\<rparr>"

lemma GetMaterialInfo_value:
  assumes "GetMaterialInfo material st = (Inr info, st')"
  shows "info = material_info material"
  using assms unfolding GetMaterialInfo_def getter_defs
  apply (simp add: inr_simps sdk_ref_def)
  apply (elim exE conjE)
  apply (simp add: inr_simps if_apply XmlMaterialInfo_init_def split: if_split_asm prod.split_asm)
  apply (auto simp: material_info_def Let_def)
  done

lemma GetMaterialInfo_Inr:
  assumes "GetMaterialInfo material st = (Inr info, st')"
  shows "info = material_info material \<and> obs (trace st') = obs (trace st)"
  using GetMaterialInfo_value[OF assms] preservesD[OF GetMaterialInfo_shows_nothing assms]
  by simp

text \<open>
  The sections, in the words of the claims about the toggles: the layers section when
  layers are exported; the materials section when materials are exported and there is
  something to list, the materials of the layers when they go by layer and the
  materials of the model otherwise; the geometry section when faces or edges are
  exported. The texture files are written when materials are exported and a texture
  was loaded.
\<close>

definition layer_record :: "SULayer option \<Rightarrow> file_op list" where
  "layer_record layer =
     (case layer of None \<Rightarrow> [] | Some l \<Rightarrow> [WriteLayerInfo (layer_info l)])"

definition layers_section :: "Options \<Rightarrow> SUModel \<Rightarrow> file_op list" where
  "layers_section options model =
     (if export_layers options
      then [StartLayers] @ concat (map layer_record (model_layers model)) @ [PopParentNode]
      else [])"

definition material_record :: "SUMaterial option \<Rightarrow> file_op list" where
  "material_record material =
     (case material of None \<Rightarrow> [] | Some m \<Rightarrow> [WriteMaterialInfo (material_info m)])"

definition layer_material_record :: "SULayer option \<Rightarrow> file_op list" where
  "layer_material_record layer =
     (case layer of
        None \<Rightarrow> []
      | Some l \<Rightarrow>
          (if fst (SULayerGetMaterial l) = SU_ERROR_NONE
           then [WriteMaterialInfo (material_info (snd (SULayerGetMaterial l)))] else []))"

definition materials_section :: "Options \<Rightarrow> SUModel \<Rightarrow> file_op list" where
  "materials_section options model =
     (if export_materials options then
        (if export_materials_by_layer options then
           (if model_layers model \<noteq> [] then
              [StartMaterials] @ concat (map layer_material_record (model_layers model)) @
              [PopParentNode]
            else [])
         else
           (if model_materials model \<noteq> [] then
              [StartMaterials] @ concat (map material_record (model_materials model)) @
              [PopParentNode]
            else []))
      else [])"

definition geometry_section :: "Options \<Rightarrow> SUModel \<Rightarrow> file_op list" where
  "geometry_section options model =
     (if export_faces options \<or> export_edges options
      then [StartGeometry] @ entities_records options (snd (SUModelGetEntities model)) @
           [PopParentNode]
      else [])"

definition texture_files :: "Options \<Rightarrow> SUModel \<Rightarrow> event list" where
  "texture_files options model =
     (if export_materials options \<and>
         snd (LoadAllTextures model (export_materials_by_layer options)) > 0
      then [Sdk ''SUTextureWriterWriteAllTextures'' Wrapped SU_ERROR_NONE] else [])"

lemma WriteLayer_Inr:
  assumes "WriteLayer layer st = (Inr u, st')"
  shows "obs (trace st') = obs (trace st) @ map File (layer_record layer)"
proof (cases layer)
  case None
  with assms show ?thesis by (auto simp: WriteLayer_def layer_record_def inr_simps)
next
  case (Some l)
  from assms Some show ?thesis
    unfolding WriteLayer_def getter_defs(1)
    apply (simp add: inr_simps sdk_ref_def)
    apply (elim exE conjE)
    apply (simp add: inr_simps if_apply XmlLayerInfo_init_def split: if_split_asm)
     apply (auto simp: layer_record_def layer_info_def dest!: GetMaterialInfo_Inr)[1]
    apply (auto simp: layer_record_def layer_info_def)
    done
qed

lemma WriteLayers_Inr:
  assumes "WriteLayers st = (Inr u, st')" and "m_model st = Some model"
  shows "obs (trace st') = obs (trace st) @ map File (layers_section (m_options st) model)"
proof (cases "export_layers (m_options st) \<and> model_layers model \<noteq> []")
  case False
  with assms show ?thesis
    by (auto simp: WriteLayers_def inr_simps sdk_ref_def SUModelGetNumLayers_def
        layers_section_def split: if_split_asm)
next
  case True
  with assms obtain s1 s2 where
    loop: "for_each (model_layers model) WriteLayer s1 = (Inr (), s2)"
    and s1: "obs (trace s1) = obs (trace st) @ [File StartLayers]"
    and s2: "obs (trace st') = obs (trace s2) @ [File PopParentNode]"
    by (auto simp: WriteLayers_def inr_simps sdk_ref_def SUModelGetNumLayers_def
        SUModelGetLayers_def)
  have "obs (trace s2) =
          obs (trace s1) @ concat (map (\<lambda>layer. map File (layer_record layer)) (model_layers model))"
    by (rule for_each_Inr_obs[OF _ loop]) (rule WriteLayer_Inr)
  with s1 s2 True show ?thesis
    by (simp add: layers_section_def map_concat comp_def)
qed

lemma WriteMaterial_Inr:
  assumes "WriteMaterial material st = (Inr u, st')"
  shows "obs (trace st') = obs (trace st) @ map File (material_record material)"
  using assms
  by (cases material)
     (auto simp: WriteMaterial_def material_record_def inr_simps dest!: GetMaterialInfo_Inr)

lemma WriteMaterials_layer_Inr:
  assumes "xbind (sdk_call ''SULayerGetMaterial'' Tested
                    (sdk_ref layer
                       (\<lambda>l. (fst (SULayerGetMaterial l), Some (snd (SULayerGetMaterial l))))
                       None))
             (\<lambda>call. if fst call = SU_ERROR_NONE then WriteMaterial (snd call)
                      else xreturn ()) st = (Inr u, st')"
  shows "obs (trace st') = obs (trace st) @ map File (layer_material_record layer)"
  using assms
  by (cases layer)
     (auto simp: inr_simps sdk_ref_def SU_ERROR_INVALID_INPUT_def layer_material_record_def
        material_record_def split: if_split_asm dest!: WriteMaterial_Inr)

lemma WriteMaterials_Inr:
  assumes "WriteMaterials st = (Inr u, st')" and "m_model st = Some model"
  shows "obs (trace st') = obs (trace st) @ map File (materials_section (m_options st) model)"
proof -
  consider (off) "\<not> export_materials (m_options st)"
    | (by_layer) "export_materials (m_options st)" "export_materials_by_layer (m_options st)"
    | (all) "export_materials (m_options st)" "\<not> export_materials_by_layer (m_options st)"
    by blast
  then show ?thesis
  proof cases
    case off
    with assms show ?thesis
      by (auto simp: WriteMaterials_def inr_simps materials_section_def)
  next
    case by_layer
    show ?thesis
    proof (cases "model_layers model = []")
      case True
      with assms by_layer show ?thesis
        by (auto simp: WriteMaterials_def inr_simps sdk_ref_def SUModelGetNumLayers_def
            materials_section_def)
    next
      case False
      with assms by_layer obtain s1 s2 where
        loop: "for_each (model_layers model) (\<lambda>layer.
                 xbind (sdk_call ''SULayerGetMaterial'' Tested
                          (sdk_ref layer
                             (\<lambda>l. (fst (SULayerGetMaterial l),
                                    Some (snd (SULayerGetMaterial l))))
                             None))
                   (\<lambda>call. if fst call = SU_ERROR_NONE then WriteMaterial (snd call)
                            else xreturn ())) s1 = (Inr (), s2)"
        and s1: "obs (trace s1) = obs (trace st) @ [File StartMaterials]"
        and s2: "obs (trace st') = obs (trace s2) @ [File PopParentNode]"
        by (auto simp: WriteMaterials_def inr_simps sdk_ref_def SUModelGetNumLayers_def
            SUModelGetLayers_def)
      have "obs (trace s2) =
              obs (trace s1) @
              concat (map (\<lambda>layer. map File (layer_material_record layer)) (model_layers model))"
        by (rule for_each_Inr_obs[OF _ loop]) (rule WriteMaterials_layer_Inr)
      with s1 s2 by_layer False show ?thesis
        by (simp add: materials_section_def map_concat comp_def)
    qed
  next
    case all
    show ?thesis
    proof (cases "model_materials model = []")
      case True
      with assms all show ?thesis
        by (auto simp: WriteMaterials_def inr_simps sdk_ref_def SUModelGetNumMaterials_def
            materials_section_def)
    next
      case False
      with assms all obtain s1 s2 where
        loop: "for_each (model_materials model) WriteMaterial s1 = (Inr (), s2)"
        and s1: "obs (trace s1) = obs (trace st) @ [File StartMaterials]"
        and s2: "obs (trace st') = obs (trace s2) @ [File PopParentNode]"
        by (auto simp: WriteMaterials_def inr_simps sdk_ref_def SUModelGetNumMaterials_def
            SUModelGetMaterials_def)
      have "obs (trace s2) =
              obs (trace s1) @
              concat (map (\<lambda>material. map File (material_record material)) (model_materials model))"
        by (rule for_each_Inr_obs[OF _ loop]) (rule WriteMaterial_Inr)
      with s1 s2 all False show ?thesis
        by (simp add: materials_section_def map_concat comp_def)
    qed
  qed
qed

lemma WriteTextureFiles_Inr:
  assumes "WriteTextureFiles st = (Inr u, st')" and "m_model st = Some model"
  shows "obs (trace st') = obs (trace st) @ texture_files (m_options st) model"
  using assms
  by (auto simp: WriteTextureFiles_def CXmlTextureHelper_LoadAllTextures_def inr_simps
      sdk_ref_def texture_files_def split: if_split_asm option.split_asm)

lemma WriteGeometry_Inr:
  assumes "WriteGeometry st = (Inr u, st')" and "m_model st = Some model"
  shows "obs (trace st') = obs (trace st) @ map File (geometry_section (m_options st) model)"
  using assms
  by (auto simp: WriteGeometry_def inr_simps geometry_section_def split: if_split_asm
      dest!: WriteEntities_Inr)

section \<open>A conversion that succeeds\<close>

text \<open>
  What the callback sees of a call of \<^verbatim>\<open>HandleProgress\<close> that returns, and the flag
  that \<^verbatim>\<open>IsCancelled\<close> reads after \<open>k\<close> earlier checks.
\<close>

definition progress_events :: "Callback option \<Rightarrow> double \<Rightarrow> string \<Rightarrow> event list" where
  "progress_events progress_callback percent_done message =
     (case progress_callback of
        None \<Rightarrow> [] | Some cb \<Rightarrow> [CancelCheck False, Progress percent_done message])"

definition flag_at :: "Callback option \<Rightarrow> nat \<Rightarrow> bool" where
  "flag_at progress_callback k =
     (case progress_callback of None \<Rightarrow> False | Some cb \<Rightarrow> HasBeenCancelled cb k)"

definition close_events :: "Callback option \<Rightarrow> bool \<Rightarrow> event list" where
  "close_events progress_callback cancelled =
     (case progress_callback of None \<Rightarrow> [] | Some cb \<Rightarrow> [CancelCheck cancelled]) @
     [File (Close cancelled)]"

text \<open>
  What shows of the phases of a conversion that succeeds, in the order of claim C8:
  the texture files, the file header, the layers, the materials, the geometry, each
  phase announced to the callback, and then the closing of the file with the flag
  read after the writing.
\<close>

definition phases_output :: "Callback option \<Rightarrow> Options \<Rightarrow> SUModel \<Rightarrow> bool \<Rightarrow> event list" where
  "phases_output progress_callback options model cancelled =
     progress_events progress_callback 0 ''Writing Texture Files...'' @
     texture_files options model @
     [File (case snd (SUModelGetVersion model) of
              (major_ver, minor_ver, build_no) \<Rightarrow> WriteHeader major_ver minor_ver build_no)] @
     progress_events progress_callback 10 ''Writing Layers...'' @
     map File (layers_section options model) @
     progress_events progress_callback 20 ''Writing Materials...'' @
     map File (materials_section options model) @
     progress_events progress_callback 60 ''Writing Geometry...'' @
     map File (geometry_section options model) @
     close_events progress_callback cancelled @
     progress_events progress_callback 100 ''Export Complete''"

lemma cancel_checks_simps [simp]:
  "cancel_checks [] = 0"
  "cancel_checks (tr @ tr') = cancel_checks tr + cancel_checks tr'"
  "cancel_checks (CancelCheck b # tr) = Suc (cancel_checks tr)"
  "cancel_checks (File op # tr) = cancel_checks tr"
  "cancel_checks (Sdk name use r # tr) = cancel_checks tr"
  "cancel_checks (Lifecycle l # tr) = cancel_checks tr"
  "cancel_checks (Progress p msg # tr) = cancel_checks tr"
  by (simp_all add: cancel_checks_def)

lemma cancel_check_observable: "is_cancel_check e \<Longrightarrow> observable e"
  by (cases e) auto

lemma cancel_checks_obs [simp]: "cancel_checks (obs tr) = cancel_checks tr"
  by (induction tr) (auto simp: cancel_checks_def dest: cancel_check_observable)

lemma cancel_checks_map_File [simp]: "cancel_checks (map File ops) = 0"
  by (induction ops) auto

lemma cancel_checks_texture_files [simp]: "cancel_checks (texture_files options model) = 0"
  by (simp add: texture_files_def)

lemma cancel_checks_progress_events:
  "cancel_checks (progress_events progress_callback p msg) =
     (case progress_callback of None \<Rightarrow> 0 | Some cb \<Rightarrow> 1)"
  by (simp add: progress_events_def split: option.splits)

text \<open>
  \<open>advances st st' out\<close>: a step took the exporter from \<open>st\<close> to \<open>st'\<close>, left the model
  and the options alone, and showed \<open>out\<close>.
\<close>

definition advances :: "exporter \<Rightarrow> exporter \<Rightarrow> event list \<Rightarrow> bool" where
  "advances st st' out =
     (m_model st' = m_model st \<and> m_options st' = m_options st \<and>
      obs (trace st') = obs (trace st) @ out)"

lemma advances_trans:
  "advances st s1 out1 \<Longrightarrow> advances s1 st' out2 \<Longrightarrow> advances st st' (out1 @ out2)"
  by (simp add: advances_def)

lemma advances_checks:
  "advances st st' out \<Longrightarrow> cancel_checks (trace st') = cancel_checks (trace st) + cancel_checks out"
  by (metis advances_def cancel_checks_obs cancel_checks_simps(2))

lemma behaves_model: "behaves A m \<Longrightarrow> m st = (r, st') \<Longrightarrow> m_model st' = m_model st"
  by (auto simp: behaves_def)

lemma HandleProgress_Inr:
  assumes "HandleProgress progress_callback p msg st = (Inr u, st')"
  shows "advances st st' (progress_events progress_callback p msg) \<and>
         \<not> flag_at progress_callback (cancel_checks (trace st))"
  using assms
  by (cases progress_callback)
     (auto simp: HandleProgress_def query_cancelled_def inr_simps advances_def
        progress_events_def flag_at_def split: if_split_asm)

lemma IsCancelled_close_Inr:
  assumes "xbind (IsCancelled progress_callback) (\<lambda>cancelled. file_call (Close cancelled)) st =
             (Inr u, st')"
  shows "advances st st'
           (close_events progress_callback (flag_at progress_callback (cancel_checks (trace st))))"
  using assms
  by (cases progress_callback)
     (auto simp: IsCancelled_def query_cancelled_def inr_simps advances_def close_events_def
        flag_at_def)

lemma header_Inr:
  assumes "xbind (member m_model) (\<lambda>model.
             xbind (SU_CALL ''SUModelGetVersion'' (sdk_ref model SUModelGetVersion (0, 0, 0)))
               (\<lambda>(major_ver, minor_ver, build_no).
                  file_call (WriteHeader major_ver minor_ver build_no))) st = (Inr u, st')"
    and "m_model st = Some model"
  shows "advances st st'
           [File (case snd (SUModelGetVersion model) of
                    (major_ver, minor_ver, build_no) \<Rightarrow> WriteHeader major_ver minor_ver build_no)]"
  using assms
  by (auto simp: inr_simps sdk_ref_def advances_def split: prod.splits)

lemma WriteTextureFiles_advances:
  assumes "WriteTextureFiles st = (Inr u, st')" and "m_model st = Some model"
  shows "advances st st' (texture_files (m_options st) model)"
  using WriteTextureFiles_Inr[OF assms] behaves_model[OF behaves_WriteTextureFiles assms(1)]
    behaves_options[OF behaves_WriteTextureFiles assms(1)]
  by (simp add: advances_def)

lemma WriteLayers_advances:
  assumes "WriteLayers st = (Inr u, st')" and "m_model st = Some model"
  shows "advances st st' (map File (layers_section (m_options st) model))"
  using WriteLayers_Inr[OF assms] behaves_model[OF behaves_WriteLayers assms(1)]
    behaves_options[OF behaves_WriteLayers assms(1)]
  by (simp add: advances_def)

lemma WriteMaterials_advances:
  assumes "WriteMaterials st = (Inr u, st')" and "m_model st = Some model"
  shows "advances st st' (map File (materials_section (m_options st) model))"
  using WriteMaterials_Inr[OF assms] behaves_model[OF behaves_WriteMaterials assms(1)]
    behaves_options[OF behaves_WriteMaterials assms(1)]
  by (simp add: advances_def)

lemma WriteGeometry_advances:
  assumes "WriteGeometry st = (Inr u, st')" and "m_model st = Some model"
  shows "advances st st' (map File (geometry_section (m_options st) model))"
  using WriteGeometry_Inr[OF assms] behaves_model[OF behaves_WriteGeometry assms(1)]
    behaves_options[OF behaves_WriteGeometry assms(1)]
  by (simp add: advances_def)

lemma xseq_Cons_InrE:
  assumes "xseq (m # ms) st = (Inr u, st')"
  obtains w s1 where "m st = (Inr w, s1)" and "xseq ms s1 = (Inr u, st')"
  using assms by (auto elim!: xbind_InrE)

lemma Convert_phases_Inr:
  assumes run: "Convert_phases progress_callback st = (Inr u, st')"
    and model: "m_model st = Some model"
  shows "advances st st'
           (phases_output progress_callback (m_options st) model
              (flag_at progress_callback
                 (cancel_checks (trace st) +
                  (case progress_callback of None \<Rightarrow> 0 | Some cb \<Rightarrow> 4))))"
proof -
  from run obtain s1 s2 s3 s4 s5 s6 s7 s8 s9 s10 where
    r1: "HandleProgress progress_callback 0 ''Writing Texture Files...'' st = (Inr (), s1)"
    and r2: "WriteTextureFiles s1 = (Inr (), s2)"
    and r3: "xbind (member m_model) (\<lambda>model.
             xbind (SU_CALL ''SUModelGetVersion'' (sdk_ref model SUModelGetVersion (0, 0, 0)))
               (\<lambda>(major_ver, minor_ver, build_no).
                  file_call (WriteHeader major_ver minor_ver build_no))) s2 = (Inr (), s3)"
    and r4: "HandleProgress progress_callback 10 ''Writing Layers...'' s3 = (Inr (), s4)"
    and r5: "WriteLayers s4 = (Inr (), s5)"
    and r6: "HandleProgress progress_callback 20 ''Writing Materials...'' s5 = (Inr (), s6)"
    and r7: "WriteMaterials s6 = (Inr (), s7)"
    and r8: "HandleProgress progress_callback 60 ''Writing Geometry...'' s7 = (Inr (), s8)"
    and r9: "WriteGeometry s8 = (Inr (), s9)"
    and r10: "xbind (IsCancelled progress_callback) (\<lambda>cancelled. file_call (Close cancelled)) s9 =
                (Inr (), s10)"
    and r11: "HandleProgress progress_callback 100 ''Export Complete'' s10 = (Inr (), st')"
    unfolding Convert_phases_def
    by (elim xseq_Cons_InrE) (simp add: xreturn_apply)
  note a1 = HandleProgress_Inr[OF r1, THEN conjunct1]
  from a1 model have m1: "m_model s1 = Some model" and o1: "m_options s1 = m_options st"
    by (simp_all add: advances_def)
  note a2 = WriteTextureFiles_advances[OF r2 m1, unfolded o1]
  note a12 = advances_trans[OF a1 a2]
  from a12 model have m2: "m_model s2 = Some model" by (simp add: advances_def)
  note a3 = header_Inr[OF r3 m2]
  note a13 = advances_trans[OF a12 a3]
  note a4 = HandleProgress_Inr[OF r4, THEN conjunct1]
  note a14 = advances_trans[OF a13 a4]
  from a14 model have m4: "m_model s4 = Some model" and o4: "m_options s4 = m_options st"
    by (simp_all add: advances_def)
  note a5 = WriteLayers_advances[OF r5 m4, unfolded o4]
  note a15 = advances_trans[OF a14 a5]
  note a6 = HandleProgress_Inr[OF r6, THEN conjunct1]
  note a16 = advances_trans[OF a15 a6]
  from a16 model have m6: "m_model s6 = Some model" and o6: "m_options s6 = m_options st"
    by (simp_all add: advances_def)
  note a7 = WriteMaterials_advances[OF r7 m6, unfolded o6]
  note a17 = advances_trans[OF a16 a7]
  note a8 = HandleProgress_Inr[OF r8, THEN conjunct1]
  note a18 = advances_trans[OF a17 a8]
  from a18 model have m8: "m_model s8 = Some model" and o8: "m_options s8 = m_options st"
    by (simp_all add: advances_def)
  note a9 = WriteGeometry_advances[OF r9 m8, unfolded o8]
  note a19 = advances_trans[OF a18 a9]
  have checks: "cancel_checks (trace s9) =
      cancel_checks (trace st) + (case progress_callback of None \<Rightarrow> 0 | Some cb \<Rightarrow> 4)"
    using advances_checks[OF a19]
    by (simp add: cancel_checks_progress_events split: option.splits)
  note a10 = IsCancelled_close_Inr[OF r10, unfolded checks]
  note a110 = advances_trans[OF a19 a10]
  note a11 = HandleProgress_Inr[OF r11, THEN conjunct1]
  from advances_trans[OF a110 a11] show ?thesis
    by (simp add: phases_output_def)
qed

text \<open>
  The events of the phases of \<^verbatim>\<open>Convert\<close>: everything but the opening of the file
  and the calls that start and end the SDK session and release its objects.
\<close>

fun phase_event :: "event \<Rightarrow> bool" where
  "phase_event (Lifecycle l) = False"
| "phase_event (File (Open path)) = False"
| "phase_event _ = True"

lemma inner_event_phase_event: "inner_event e \<Longrightarrow> phase_event e"
  by (cases e rule: inner_event.cases) auto

lemma behaves_mono:
  assumes "behaves A m" and "\<And>e. A e \<Longrightarrow> B e"
  shows "behaves B m"
  using assms unfolding behaves_def
  by (meson list.pred_mono_strong)

lemma behaves_phase: "behaves inner_event m \<Longrightarrow> behaves phase_event m"
  by (erule behaves_mono) (rule inner_event_phase_event)

lemma behaves_query_cancelled: "behaves phase_event (query_cancelled cb)"
  by (auto simp: behaves_def query_cancelled_def xbind_def run_simps)

lemma behaves_HandleProgress: "behaves phase_event (HandleProgress progress_callback p msg)"
  by (cases progress_callback)
     (auto simp: behaves_def HandleProgress_def query_cancelled_def xbind_def run_simps
        split: if_split_asm)

lemma behaves_IsCancelled: "behaves phase_event (IsCancelled progress_callback)"
  by (cases progress_callback)
     (auto simp: behaves_def IsCancelled_def query_cancelled_def xbind_def run_simps)

lemma behaves_Convert_phases: "behaves phase_event (Convert_phases progress_callback)"
  unfolding Convert_phases_def
  by (intro behaves_intros behaves_HandleProgress behaves_IsCancelled
      behaves_phase[OF behaves_WriteTextureFiles] behaves_phase[OF behaves_WriteLayers]
      behaves_phase[OF behaves_WriteMaterials] behaves_phase[OF behaves_WriteGeometry])
     simp_all

lemma ReleaseModelObjects_apply:
  "ReleaseModelObjects st =
     (Inr (),
      st\<lparr>m_texture_writer := None, m_model := None,
         trace := trace st @
           (if m_texture_writer st \<noteq> None then [Lifecycle SUTextureWriterRelease] else []) @
           (if m_model st \<noteq> None then [Lifecycle SUModelRelease] else []) @
           [Lifecycle SUTerminate]\<rparr>)"
  by (simp add: ReleaseModelObjects_def xbind_def run_simps)

lemma xtry_apply:
  "xtry m handler st =
     (case m st of (Inl e, st') \<Rightarrow> handler e st' | (Inr v, st') \<Rightarrow> (Inr v, st'))"
  by (simp add: xtry_def)

lemma Convert_try_Returned:
  assumes "Convert_try world src_file dst_file progress_callback st = (Inr (Returned b), st')"
  shows "\<not> b"
  using assms unfolding Convert_try_def
  by (auto simp: inr_simps ReleaseModelObjects_apply split: if_split_asm)

lemma Convert_True:
  assumes "Convert world src_file dst_file progress_callback st = (Inr True, st')"
  shows "fst (SUModelCreateFromFile world src_file) = SU_ERROR_NONE \<and>
         fst (SUTextureWriterCreate world) = SU_ERROR_NONE \<and>
         file_Open world dst_file \<and>
         obs (trace st') =
           obs (trace st) @ [Lifecycle SUInitialize, File (Open dst_file)] @
           phases_output progress_callback (m_options st)
             (snd (SUModelCreateFromFile world src_file))
             (flag_at progress_callback
                (cancel_checks (trace st) +
                 (case progress_callback of None \<Rightarrow> 0 | Some cb \<Rightarrow> 4))) @
           [Lifecycle SUTextureWriterRelease, Lifecycle SUModelRelease, Lifecycle SUTerminate] \<and>
         m_model st' = None \<and> m_texture_writer st' = None \<and> m_options st' = m_options st"
proof -
  from assms obtain s1 where
    body: "Convert_try world src_file dst_file progress_callback st = (Inr (Completed True), s1)"
    and rel: "ReleaseModelObjects s1 = (Inr (), st')"
    by (auto simp: Convert_def xbind_def xtry_apply run_simps
        split: prod.splits sum.splits flow.splits dest: Convert_try_Returned)
  define s0 where
    "s0 = st\<lparr>m_model := Some (snd (SUModelCreateFromFile world src_file)),
             m_texture_writer := Some (snd (SUTextureWriterCreate world)),
             trace := trace st @
               [Lifecycle SUInitialize, Sdk ''SUModelCreateFromFile'' Wrapped SU_ERROR_NONE,
                Sdk ''SUTextureWriterCreate'' Wrapped SU_ERROR_NONE, File (Open dst_file)]\<rparr>"
  from body have ok: "fst (SUModelCreateFromFile world src_file) = SU_ERROR_NONE"
      "fst (SUTextureWriterCreate world) = SU_ERROR_NONE" "file_Open world dst_file"
    and phases: "Convert_phases progress_callback s0 = (Inr (), s1)"
    unfolding Convert_try_def s0_def
    by (auto simp: inr_simps ReleaseModelObjects_apply split: if_split_asm)
  have "advances s0 s1
          (phases_output progress_callback (m_options s0) (snd (SUModelCreateFromFile world src_file))
             (flag_at progress_callback
                (cancel_checks (trace s0) +
                 (case progress_callback of None \<Rightarrow> 0 | Some cb \<Rightarrow> 4))))"
    by (rule Convert_phases_Inr[OF phases]) (simp add: s0_def)
  moreover have "m_texture_writer s1 = m_texture_writer s0"
    using behaves_Convert_phases phases by (auto simp: behaves_def)
  ultimately show ?thesis
    using rel ok by (auto simp: advances_def s0_def ReleaseModelObjects_apply)
qed

section \<open>A model to run the exporter on\<close>

text \<open>
  A model with one layer, whose query for a material finds none, one material, and at
  the top level a component instance, a group that holds a face, the face with a hole,
  and an edge. Every wrapped query succeeds.
\<close>

definition example_definition :: SUComponentDefinition where
  "example_definition = SUComponentDefinition (ok ''Chair'')"

definition example_instance :: SUComponentInstance where
  "example_instance =
     SUComponentInstance (SUDrawingElement (ok (Some example_walls)) (SU_ERROR 9, None))
       (ok example_definition) (ok (SUTransformation [1, 0, 0, 0]))"

definition example_square :: SUFace where
  "example_square =
     SUFace example_plain
       (ok (SULoop SU_ERROR_NONE SU_ERROR_NONE
              [SUVertex (ok (SUPoint3D 0 0 1)), SUVertex (ok (SUPoint3D 1 0 1)),
               SUVertex (ok (SUPoint3D 1 1 1)), SUVertex (ok (SUPoint3D 0 1 1))]))
       SU_ERROR_NONE SU_ERROR_NONE []"

definition example_nested :: SUEntities where
  "example_nested =
     SUEntities SU_ERROR_NONE SU_ERROR_NONE [] SU_ERROR_NONE SU_ERROR_NONE []
       SU_ERROR_NONE SU_ERROR_NONE [Some example_square] []"

definition example_group :: SUGroup where
  "example_group = SUGroup example_plain (ok example_nested) (ok (SUTransformation [2, 0, 0, 0]))"

definition example_entities :: SUEntities where
  "example_entities =
     SUEntities SU_ERROR_NONE SU_ERROR_NONE [example_instance]
       SU_ERROR_NONE SU_ERROR_NONE [example_group]
       SU_ERROR_NONE SU_ERROR_NONE [Some example_face] [example_edge]"

definition example_model :: SUModel where
  "example_model =
     SUModel (ok (8, 0, 4811)) SU_ERROR_NONE SU_ERROR_NONE [Some example_walls]
       SU_ERROR_NONE SU_ERROR_NONE [Some example_red] (ok example_entities) (\<lambda>by_layer. ok 2)"

definition example_world :: World where
  "example_world =
     \<lparr>SUModelCreateFromFile = (\<lambda>path. ok example_model),
      SUTextureWriterCreate = ok (SUTextureWriter SU_ERROR_NONE),
      file_Open = (\<lambda>path. True)\<rparr>"

definition example_callback :: Callback where
  "example_callback = Callback (\<lambda>k. False)"

lemmas WriteEntities_eval =
  WriteEntities.simps[of "SUEntities a b c d e f g h i j"] for a b c d e f g h i j

lemmas example_defs = example_world_def example_model_def example_entities_def
  example_group_def example_nested_def example_square_def example_instance_def
  example_definition_def example_edge_def example_walls_def example_red_def
  example_face_def example_triangle_def example_hole_def example_plain_def
  example_exporter_def example_options_def example_callback_def ok_def

lemmas exporter_defs = Convert_def Convert_try_def Convert_phases_def ReleaseModelObjects_def
  WriteTextureFiles_def CXmlTextureHelper_LoadAllTextures_def WriteLayers_def WriteLayer_def
  WriteMaterials_def WriteMaterial_def GetMaterialInfo_def getter_defs WriteGeometry_def
  WriteEntities_instances_def WriteEntities_instance_def WriteEntities_faces_def
  WriteFace_def WriteFace_loop_def WriteFace_vertex_def HandleProgress_def IsCancelled_def
  query_cancelled_def inheritance_PushElement_def inheritance_PopElement_def

lemmas sdk_defs = sdk_ref_def out_param_def SULoopGetNumVertices_def SULoopGetVertices_def
  SUFaceGetNumInnerLoops_def SUFaceGetInnerLoops_def SUEntitiesGetNumInstances_def
  SUEntitiesGetInstances_def SUEntitiesGetNumGroups_def SUEntitiesGetGroups_def
  SUEntitiesGetNumFaces_def SUEntitiesGetFaces_def SUModelGetNumLayers_def
  SUModelGetLayers_def SUModelGetNumMaterials_def SUModelGetMaterials_def

lemma example_Convert_run:
  "fst (Convert example_world ''model.skp'' ''model.xml'' (Some example_callback)
          example_exporter) = Inr True"
  by (simp add: exporter_defs sdk_defs example_defs WriteEntities_eval xtry_def eval_simps
      cancel_checks_def PushElement_def PopElement_def GetCurrentLayer_def
      GetCurrentEdgeColor_def own_color_def XmlMaterialInfo_init_def XmlLayerInfo_init_def
      XmlComponentInstanceInfo_init_def XmlFaceInfo_init_def)

section \<open>The inheritance manager is balanced\<close>

text \<open>
  Claim C9. The traversal balances the context stack of the inheritance manager:
  every element pushed when descending into a group or visiting a face is popped when
  the traversal returns from it, so for every entities collection the state of the
  inheritance manager after \<^verbatim>\<open>WriteEntities\<close> completes equals its state before the
  call.
\<close>

theorem WriteEntities_balances_inheritance_manager:
  assumes "WriteEntities entities st = (Inr u, st')"
  shows "m_inheritance_manager st' = m_inheritance_manager st"
  using WriteEntities_Inr[OF assms] by simp

lemma example_WriteEntities_run:
  "fst (WriteEntities example_entities example_in_group) = Inr ()"
  by (simp add: exporter_defs sdk_defs example_defs example_in_group_def example_layer0_def
      WriteEntities_eval eval_simps PushElement_def PopElement_def GetCurrentLayer_def
      GetCurrentEdgeColor_def own_color_def XmlComponentInstanceInfo_init_def
      XmlFaceInfo_init_def)

theorem WriteEntities_balances_inheritance_manager_witness:
  "fst (WriteEntities example_entities example_in_group) = Inr () \<and>
   m_inheritance_manager (snd (WriteEntities example_entities example_in_group)) =
     [\<lparr>ctx_layer = Some example_layer0, ctx_edge_color = SUColor 0 0 0 255\<rparr>]"
proof -
  have run: "WriteEntities example_entities example_in_group =
      (Inr (), snd (WriteEntities example_entities example_in_group))"
    using example_WriteEntities_run by (metis prod.collapse)
  from WriteEntities_balances_inheritance_manager[OF run] example_WriteEntities_run
  show ?thesis
    by (simp add: example_in_group_def)
qed

section \<open>The order of the output\<close>

text \<open>
  The output of a run: the calls on the XML writer and the writing of the texture
  files.
\<close>

fun is_output :: "event \<Rightarrow> bool" where
  "is_output (File op) = True"
| "is_output (Sdk name use r) = (name = ''SUTextureWriterWriteAllTextures'')"
| "is_output _ = False"

definition outputs :: "event list \<Rightarrow> event list" where
  "outputs tr = filter is_output tr"

lemma outputs_simps [simp]:
  "outputs [] = []" "outputs (tr @ tr') = outputs tr @ outputs tr'"
  "outputs (e # tr) = (if is_output e then e # outputs tr else outputs tr)"
  by (simp_all add: outputs_def)

lemma output_observable: "is_output e \<Longrightarrow> observable e"
  by (cases e) auto

lemma outputs_obs [simp]: "outputs (obs tr) = outputs tr"
  by (induction tr) (auto dest: output_observable)

lemma outputs_map_File [simp]: "outputs (map File ops) = map File ops"
  by (induction ops) auto

lemma outputs_progress_events [simp]: "outputs (progress_events progress_callback p msg) = []"
  by (simp add: progress_events_def split: option.splits)

lemma outputs_close_events [simp]:
  "outputs (close_events progress_callback cancelled) = [File (Close cancelled)]"
  by (simp add: close_events_def split: option.splits)

lemma outputs_texture_files [simp]:
  "outputs (texture_files options model) = texture_files options model"
  by (simp add: texture_files_def)

lemma outputs_phases_output:
  "outputs (phases_output progress_callback options model cancelled) =
     texture_files options model @
     [File (case snd (SUModelGetVersion model) of
              (major_ver, minor_ver, build_no) \<Rightarrow> WriteHeader major_ver minor_ver build_no)] @
     map File (layers_section options model) @
     map File (materials_section options model) @
     map File (geometry_section options model) @
     [File (Close cancelled)]"
  by (simp add: phases_output_def)

lemma Convert_True_outputs:
  assumes "Convert world src_file dst_file progress_callback st = (Inr True, st')"
  shows "outputs (trace st') =
           outputs (trace st) @ [File (Open dst_file)] @
           outputs (phases_output progress_callback (m_options st)
             (snd (SUModelCreateFromFile world src_file))
             (flag_at progress_callback
                (cancel_checks (trace st) +
                 (case progress_callback of None \<Rightarrow> 0 | Some cb \<Rightarrow> 4))))"
proof -
  from Convert_True[OF assms] have
    "outputs (obs (trace st')) =
       outputs (obs (trace st) @ [Lifecycle SUInitialize, File (Open dst_file)] @
           phases_output progress_callback (m_options st)
             (snd (SUModelCreateFromFile world src_file))
             (flag_at progress_callback
                (cancel_checks (trace st) +
                 (case progress_callback of None \<Rightarrow> 0 | Some cb \<Rightarrow> 4))) @
           [Lifecycle SUTextureWriterRelease, Lifecycle SUModelRelease, Lifecycle SUTerminate])"
    by simp
  then show ?thesis by simp
qed

lemma written_WriteEntities:
  assumes "WriteEntities entities st = (Inr u, st')"
  shows "written (trace st') = written (trace st) @ entities_records (m_options st) entities"
proof -
  from WriteEntities_Inr[OF assms] have
    "written (obs (trace st')) =
       written (obs (trace st) @ map File (entities_records (m_options st) entities))"
    by simp
  then show ?thesis by simp
qed

text \<open>
  Claim C8. For every model the output records are emitted in a fixed order: texture
  files, then the file header, then layers, then materials, then geometry; and within
  every entities collection the records of the component instances are emitted
  first, then each group, with its nested entities recursively and then its
  transformation, then the face records. The first part is about a conversion that
  succeeds, the second about every call of \<^verbatim>\<open>WriteEntities\<close> that returns.
\<close>

theorem output_in_fixed_order:
  "(Convert world src_file dst_file progress_callback st = (Inr True, st') \<longrightarrow>
      outputs (trace st') =
        outputs (trace st) @ [File (Open dst_file)] @
        texture_files (m_options st) (snd (SUModelCreateFromFile world src_file)) @
        [File (case snd (SUModelGetVersion (snd (SUModelCreateFromFile world src_file))) of
                 (major_ver, minor_ver, build_no) \<Rightarrow> WriteHeader major_ver minor_ver build_no)] @
        map File (layers_section (m_options st) (snd (SUModelCreateFromFile world src_file))) @
        map File (materials_section (m_options st) (snd (SUModelCreateFromFile world src_file))) @
        map File (geometry_section (m_options st) (snd (SUModelCreateFromFile world src_file))) @
        [File (Close (flag_at progress_callback
                        (cancel_checks (trace st) +
                         (case progress_callback of None \<Rightarrow> 0 | Some cb \<Rightarrow> 4))))]) \<and>
   (WriteEntities entities s = (Inr u, s') \<longrightarrow>
      written (trace s') =
        written (trace s) @
        map (\<lambda>instance. WriteComponentInstanceInfo (instance_info instance))
          (entities_instances entities) @
        concat (map (\<lambda>g. [StartGroup] @
                           entities_records (m_options s) (snd (SUGroupGetEntities g)) @
                           [WriteTransformation (snd (SUGroupGetTransform g)), PopParentNode])
                  (entities_groups entities)) @
        (if export_faces (m_options s)
         then concat (map face_records (entities_faces entities)) else []))"
proof (intro conjI impI)
  assume "Convert world src_file dst_file progress_callback st = (Inr True, st')"
  from Convert_True_outputs[OF this] show
    "outputs (trace st') =
        outputs (trace st) @ [File (Open dst_file)] @
        texture_files (m_options st) (snd (SUModelCreateFromFile world src_file)) @
        [File (case snd (SUModelGetVersion (snd (SUModelCreateFromFile world src_file))) of
                 (major_ver, minor_ver, build_no) \<Rightarrow> WriteHeader major_ver minor_ver build_no)] @
        map File (layers_section (m_options st) (snd (SUModelCreateFromFile world src_file))) @
        map File (materials_section (m_options st) (snd (SUModelCreateFromFile world src_file))) @
        map File (geometry_section (m_options st) (snd (SUModelCreateFromFile world src_file))) @
        [File (Close (flag_at progress_callback
                        (cancel_checks (trace st) +
                         (case progress_callback of None \<Rightarrow> 0 | Some cb \<Rightarrow> 4))))]"
    by (simp only: outputs_phases_output)
next
  assume "WriteEntities entities s = (Inr u, s')"
  from written_WriteEntities[OF this] show
    "written (trace s') =
        written (trace s) @
        map (\<lambda>instance. WriteComponentInstanceInfo (instance_info instance))
          (entities_instances entities) @
        concat (map (\<lambda>g. [StartGroup] @
                           entities_records (m_options s) (snd (SUGroupGetEntities g)) @
                           [WriteTransformation (snd (SUGroupGetTransform g)), PopParentNode])
                  (entities_groups entities)) @
        (if export_faces (m_options s)
         then concat (map face_records (entities_faces entities)) else [])"
    by (subst (asm) entities_records.simps)
qed

lemmas entities_records_eval =
  entities_records.simps[of options "SUEntities a b c d e f g h i j"]
  for options a b c d e f g h i j

lemmas record_defs = phases_output_def texture_files_def layers_section_def layer_record_def
  layer_info_def materials_section_def material_record_def layer_material_record_def
  material_info_def geometry_section_def entities_records_eval instance_info_def
  face_records_def loop_info_def progress_events_def close_events_def flag_at_def
  XmlMaterialInfo_init_def out_param_def

theorem output_in_fixed_order_witness:
  "fst (Convert example_world ''model.skp'' ''model.xml'' (Some example_callback)
          example_exporter) = Inr True \<and>
   outputs (trace (snd (Convert example_world ''model.skp'' ''model.xml''
                          (Some example_callback) example_exporter))) =
     [File (Open ''model.xml''),
       Sdk ''SUTextureWriterWriteAllTextures'' Wrapped SU_ERROR_NONE,
       File (WriteHeader 8 0 4811), File StartLayers,
       File
        (WriteLayerInfo
          \<lparr>li_name = ''Walls'', li_has_material_info = False,
             li_material_info =
               \<lparr>mi_name = [], mi_has_color = False, mi_color = SUColor 0 0 0 0,
                  mi_has_alpha = False, mi_alpha = 0, mi_has_texture = False,
                  mi_texture_path = [], mi_texture_sscale = 0,
                  mi_texture_tscale = 0\<rparr>,
             li_is_visible = True\<rparr>),
       File PopParentNode, File StartMaterials,
       File
        (WriteMaterialInfo
          \<lparr>mi_name = ''Red'', mi_has_color = True,
             mi_color = SUColor 255 0 0 255, mi_has_alpha = False, mi_alpha = 0,
             mi_has_texture = False, mi_texture_path = [], mi_texture_sscale = 0,
             mi_texture_tscale = 0\<rparr>),
       File PopParentNode, File StartGeometry,
       File
        (WriteComponentInstanceInfo
          \<lparr>ci_layer_name = ''Walls'', ci_material_name = [],
             ci_definition_name = ''Chair'',
             ci_transform = SUTransformation [1, 0, 0, 0]\<rparr>),
       File StartGroup,
       File
        (WriteFaceInfo
          \<lparr>fi_has_single_loop = True,
             fi_vertices =
               [\<lparr>fv_vertex = CPoint3d 0 0 1\<rparr>, \<lparr>fv_vertex = CPoint3d 1 0 1\<rparr>,
                \<lparr>fv_vertex = CPoint3d 1 1 1\<rparr>, \<lparr>fv_vertex = CPoint3d 0 1 1\<rparr>]\<rparr>),
       File (WriteTransformation (SUTransformation [2, 0, 0, 0])),
       File PopParentNode,
       File
        (WriteFaceInfo
          \<lparr>fi_has_single_loop = True,
             fi_vertices =
               [\<lparr>fv_vertex = CPoint3d 0 0 0\<rparr>, \<lparr>fv_vertex = CPoint3d 4 0 0\<rparr>,
                \<lparr>fv_vertex = CPoint3d 0 4 0\<rparr>]\<rparr>),
       File
        (WriteFaceInfo
          \<lparr>fi_has_single_loop = True,
             fi_vertices =
               [\<lparr>fv_vertex = CPoint3d 1 1 0\<rparr>, \<lparr>fv_vertex = CPoint3d 2 1 0\<rparr>,
                \<lparr>fv_vertex = CPoint3d 1 2 0\<rparr>]\<rparr>),
       File PopParentNode, File (Close False)] \<and>
   fst (WriteEntities example_entities example_in_group) = Inr () \<and>
   written (trace (snd (WriteEntities example_entities example_in_group))) =
     [WriteComponentInstanceInfo
        \<lparr>ci_layer_name = ''Walls'', ci_material_name = [],
           ci_definition_name = ''Chair'',
           ci_transform = SUTransformation [1, 0, 0, 0]\<rparr>,
       StartGroup,
       WriteFaceInfo
        \<lparr>fi_has_single_loop = True,
           fi_vertices =
             [\<lparr>fv_vertex = CPoint3d 0 0 1\<rparr>, \<lparr>fv_vertex = CPoint3d 1 0 1\<rparr>,
              \<lparr>fv_vertex = CPoint3d 1 1 1\<rparr>, \<lparr>fv_vertex = CPoint3d 0 1 1\<rparr>]\<rparr>,
       WriteTransformation (SUTransformation [2, 0, 0, 0]), PopParentNode,
       WriteFaceInfo
        \<lparr>fi_has_single_loop = True,
           fi_vertices =
             [\<lparr>fv_vertex = CPoint3d 0 0 0\<rparr>, \<lparr>fv_vertex = CPoint3d 4 0 0\<rparr>,
              \<lparr>fv_vertex = CPoint3d 0 4 0\<rparr>]\<rparr>,
       WriteFaceInfo
        \<lparr>fi_has_single_loop = True,
           fi_vertices =
             [\<lparr>fv_vertex = CPoint3d 1 1 0\<rparr>, \<lparr>fv_vertex = CPoint3d 2 1 0\<rparr>,
              \<lparr>fv_vertex = CPoint3d 1 2 0\<rparr>]\<rparr>]"
proof -
  have run: "Convert example_world ''model.skp'' ''model.xml'' (Some example_callback)
               example_exporter =
             (Inr True, snd (Convert example_world ''model.skp'' ''model.xml''
                               (Some example_callback) example_exporter))"
    using example_Convert_run by (metis prod.collapse)
  have run': "WriteEntities example_entities example_in_group =
      (Inr (), snd (WriteEntities example_entities example_in_group))"
    using example_WriteEntities_run by (metis prod.collapse)
  note order = output_in_fixed_order[of example_world "''model.skp''" "''model.xml''"
      "Some example_callback" example_exporter
      "snd (Convert example_world ''model.skp'' ''model.xml'' (Some example_callback)
              example_exporter)"
      example_entities example_in_group "()"
      "snd (WriteEntities example_entities example_in_group)"]
  from order[THEN conjunct1, rule_format, OF run] order[THEN conjunct2, rule_format, OF run']
    example_Convert_run example_WriteEntities_run
  show ?thesis
    by (simp add: example_defs example_in_group_def example_layer0_def record_defs)
qed

section \<open>The toggles\<close>

fun is_material_record :: "file_op \<Rightarrow> bool" where
  "is_material_record (WriteMaterialInfo info) = True"
| "is_material_record _ = False"

fun is_face_record :: "file_op \<Rightarrow> bool" where
  "is_face_record (WriteFaceInfo info) = True"
| "is_face_record _ = False"

fun is_edge_record :: "file_op \<Rightarrow> bool" where
  "is_edge_record (WriteEdgeInfo info) = True"
| "is_edge_record (WriteCurveInfo info) = True"
| "is_edge_record _ = False"

text \<open>The records that \<^verbatim>\<open>WriteEntities\<close> writes are of five kinds.\<close>

fun is_entity_record :: "file_op \<Rightarrow> bool" where
  "is_entity_record (WriteComponentInstanceInfo info) = True"
| "is_entity_record StartGroup = True"
| "is_entity_record (WriteTransformation t) = True"
| "is_entity_record PopParentNode = True"
| "is_entity_record (WriteFaceInfo info) = True"
| "is_entity_record _ = False"

text \<open>
  All the faces of an entities collection, those of its groups first, in the order in
  which the traversal meets them.
\<close>

function all_faces :: "SUEntities \<Rightarrow> SUFace option list" where
  "all_faces entities =
     concat (map (\<lambda>g. all_faces (snd (SUGroupGetEntities g))) (entities_groups entities)) @
     entities_faces entities"
  by pat_completeness auto
termination
proof (relation "measure size")
  show "wf (measure size)" by simp
next
  fix entities :: SUEntities and g :: SUGroup
  assume "g \<in> set (entities_groups entities)"
  then have "size g < size entities"
    by (rule size_entities_group)
  then show "(snd (SUGroupGetEntities g), entities) \<in> measure size"
    using size_group_entities[of g] by simp
qed

declare all_faces.simps [simp del]

lemma face_records_are_face_records: "list_all is_face_record (face_records face)"
  by (cases face) (auto simp: face_records_def list_all_iff)

lemma filter_face_records [simp]: "filter is_face_record (face_records face) = face_records face"
  using face_records_are_face_records[of face] by (simp add: list_all_iff filter_id_conv)

lemma filter_concat_map:
  "filter P (concat (map f xs)) = concat (map (\<lambda>x. filter P (f x)) xs)"
  by (induction xs) auto

lemma entities_records_kinds: "list_all is_entity_record (entities_records options entities)"
proof (induction options entities rule: entities_records.induct)
  case (1 options entities)
  have "list_all is_entity_record (face_records face)" for face
    by (cases face) (auto simp: face_records_def list_all_iff)
  then show ?case
    using "1.IH"
    by (subst entities_records.simps) (auto simp: list_all_iff)
qed

lemma concat_map_concat:
  "concat (map f (concat xss)) = concat (map (\<lambda>xs. concat (map f xs)) xss)"
  by (induction xss) auto

lemma entities_records_faces:
  "filter is_face_record (entities_records options entities) =
     (if export_faces options then concat (map face_records (all_faces entities)) else [])"
proof (induction options entities rule: entities_records.induct)
  case (1 options entities)
  let ?sub = "\<lambda>g. snd (SUGroupGetEntities g)"
  have instances:
    "filter is_face_record
       (map (\<lambda>instance. WriteComponentInstanceInfo (instance_info instance))
          (entities_instances entities)) = []"
    by (simp add: filter_empty_conv)
  have groups:
    "filter is_face_record
       (concat (map (\<lambda>g. [StartGroup] @ entities_records options (?sub g) @
                          [WriteTransformation (snd (SUGroupGetTransform g)), PopParentNode])
                  (entities_groups entities))) =
     concat (map (\<lambda>g. filter is_face_record (entities_records options (?sub g)))
               (entities_groups entities))"
    by (simp add: filter_concat_map)
  have nested:
    "map (\<lambda>g. filter is_face_record (entities_records options (?sub g)))
       (entities_groups entities) =
     map (\<lambda>g. if export_faces options then concat (map face_records (all_faces (?sub g)))
               else [])
       (entities_groups entities)"
    using "1.IH" by (intro map_cong) auto
  have faces:
    "filter is_face_record
       (if export_faces options
        then concat (map face_records (entities_faces entities)) else []) =
     (if export_faces options
      then concat (map face_records (entities_faces entities)) else [])"
    by (simp add: filter_concat_map)
  have "filter is_face_record (entities_records options entities) =
          filter is_face_record
            (map (\<lambda>instance. WriteComponentInstanceInfo (instance_info instance))
               (entities_instances entities)) @
          filter is_face_record
            (concat (map (\<lambda>g. [StartGroup] @ entities_records options (?sub g) @
                          [WriteTransformation (snd (SUGroupGetTransform g)), PopParentNode])
                  (entities_groups entities))) @
          filter is_face_record
            (if export_faces options
             then concat (map face_records (entities_faces entities)) else [])"
    by (subst entities_records.simps) (simp only: filter_append)
  also have "\<dots> =
       concat (map (\<lambda>g. filter is_face_record (entities_records options (?sub g)))
               (entities_groups entities)) @
       (if export_faces options
        then concat (map face_records (entities_faces entities)) else [])"
    by (simp only: instances groups faces append_Nil)
  finally have split:
    "filter is_face_record (entities_records options entities) =
       concat (map (\<lambda>g. if export_faces options
                         then concat (map face_records (all_faces (?sub g))) else [])
                 (entities_groups entities)) @
       (if export_faces options
        then concat (map face_records (entities_faces entities)) else [])"
    by (simp only: nested)
  show ?case
  proof (cases "export_faces options")
    case True
    with split show ?thesis
      by (subst all_faces.simps) (simp add: concat_map_concat comp_def)
  next
    case False
    with split show ?thesis by simp
  qed
qed

lemma layers_section_ops:
  "op \<in> set (layers_section options model) \<Longrightarrow>
   op = StartLayers \<or> op = PopParentNode \<or> (\<exists>info. op = WriteLayerInfo info)"
  by (auto simp: layers_section_def layer_record_def split: if_split_asm option.split_asm)

lemma materials_section_ops:
  "op \<in> set (materials_section options model) \<Longrightarrow>
   op = StartMaterials \<or> op = PopParentNode \<or> (\<exists>info. op = WriteMaterialInfo info)"
  by (auto simp: materials_section_def material_record_def layer_material_record_def
      split: if_split_asm option.split_asm)

lemma geometry_section_ops:
  "op \<in> set (geometry_section options model) \<Longrightarrow> op = StartGeometry \<or> is_entity_record op"
  using entities_records_kinds[of options "snd (SUModelGetEntities model)"]
  by (auto simp: geometry_section_def list_all_iff split: if_split_asm)

lemma StartLayers_layers_section:
  "StartLayers \<in> set (layers_section options model) \<longleftrightarrow> export_layers options"
  by (simp add: layers_section_def)

lemma StartMaterials_materials_section:
  "StartMaterials \<in> set (materials_section options model) \<longleftrightarrow>
     export_materials options \<and>
     (if export_materials_by_layer options then model_layers model \<noteq> []
      else model_materials model \<noteq> [])"
  by (simp add: materials_section_def)

lemma StartGeometry_geometry_section:
  "StartGeometry \<in> set (geometry_section options model) \<longleftrightarrow>
     export_faces options \<or> export_edges options"
  by (simp add: geometry_section_def)

lemma filter_material_records:
  "filter is_material_record (concat (map material_record materials)) =
     concat (map material_record materials)"
  "filter is_material_record (concat (map layer_material_record layers)) =
     concat (map layer_material_record layers)"
  by (auto simp: filter_id_conv material_record_def layer_material_record_def
      split: option.split_asm if_split_asm)

lemma materials_section_materials:
  "filter is_material_record (materials_section options model) =
     (if export_materials options then
        (if export_materials_by_layer options
         then concat (map layer_material_record (model_layers model))
         else concat (map material_record (model_materials model)))
      else [])"
  by (simp add: materials_section_def filter_material_records)

lemma geometry_section_faces:
  "filter is_face_record (geometry_section options model) =
     (if export_faces options
      then concat (map face_records (all_faces (snd (SUModelGetEntities model)))) else [])"
  by (simp add: geometry_section_def entities_records_faces)

lemma entity_record_kinds:
  "is_entity_record op \<Longrightarrow> \<not> is_material_record op \<and> \<not> is_edge_record op \<and>
     op \<noteq> StartLayers \<and> op \<noteq> StartMaterials \<and> op \<noteq> StartGeometry"
  by (cases op) auto

lemma filter_none: "(\<And>x. x \<in> set xs \<Longrightarrow> \<not> P x) \<Longrightarrow> filter P xs = []"
  by (simp add: filter_empty_conv)

text \<open>The calls on the XML writer of a conversion that succeeds.\<close>

definition document :: "string \<Rightarrow> Options \<Rightarrow> SUModel \<Rightarrow> bool \<Rightarrow> file_op list" where
  "document dst_file options model cancelled =
     [Open dst_file] @
     [case snd (SUModelGetVersion model) of
        (major_ver, minor_ver, build_no) \<Rightarrow> WriteHeader major_ver minor_ver build_no] @
     layers_section options model @ materials_section options model @
     geometry_section options model @ [Close cancelled]"

lemma written_texture_files [simp]: "written (texture_files options model) = []"
  by (simp add: texture_files_def)

lemma written_outputs [simp]: "written (outputs tr) = written tr"
  by (induction tr rule: written.induct) auto

lemma Convert_True_written:
  assumes "Convert world src_file dst_file progress_callback st = (Inr True, st')"
  shows "written (trace st') =
           written (trace st) @
           document dst_file (m_options st) (snd (SUModelCreateFromFile world src_file))
             (flag_at progress_callback
                (cancel_checks (trace st) +
                 (case progress_callback of None \<Rightarrow> 0 | Some cb \<Rightarrow> 4)))"
proof -
  have "written (outputs (trace st')) =
          written (outputs (trace st) @ [File (Open dst_file)] @
           outputs (phases_output progress_callback (m_options st)
             (snd (SUModelCreateFromFile world src_file))
             (flag_at progress_callback
                (cancel_checks (trace st) +
                 (case progress_callback of None \<Rightarrow> 0 | Some cb \<Rightarrow> 4)))))"
    using Convert_True_outputs[OF assms] by simp
  then show ?thesis
    by (simp add: outputs_phases_output document_def split: prod.splits)
qed

lemma document_header:
  "(case v of (major_ver, minor_ver, build_no) \<Rightarrow> WriteHeader major_ver minor_ver build_no) =
     WriteHeader (fst v) (fst (snd v)) (snd (snd v))"
  by (cases v) auto

lemma document_toggles:
  fixes options model dst_file cancelled
  defines "records \<equiv> document dst_file options model cancelled"
  shows "(StartLayers \<in> set records \<longleftrightarrow> export_layers options) \<and>
     (StartMaterials \<in> set records \<longleftrightarrow>
        export_materials options \<and>
        (if export_materials_by_layer options then model_layers model \<noteq> []
         else model_materials model \<noteq> [])) \<and>
     filter is_material_record records =
       (if export_materials options then
          (if export_materials_by_layer options
           then concat (map layer_material_record (model_layers model))
           else concat (map material_record (model_materials model)))
        else []) \<and>
     (StartGeometry \<in> set records \<longleftrightarrow> export_faces options \<or> export_edges options) \<and>
     filter is_face_record records =
       (if export_faces options
        then concat (map face_records (all_faces (snd (SUModelGetEntities model)))) else []) \<and>
     \<not> list_ex is_edge_record records"
proof -
  have l1: "StartMaterials \<notin> set (layers_section options model)"
    "StartGeometry \<notin> set (layers_section options model)"
    "filter is_material_record (layers_section options model) = []"
    "filter is_face_record (layers_section options model) = []"
    "\<not> list_ex is_edge_record (layers_section options model)"
    by (auto simp: list_ex_iff intro!: filter_none dest!: layers_section_ops)
  have m1: "StartLayers \<notin> set (materials_section options model)"
    "StartGeometry \<notin> set (materials_section options model)"
    "filter is_face_record (materials_section options model) = []"
    "\<not> list_ex is_edge_record (materials_section options model)"
    by (auto simp: list_ex_iff intro!: filter_none dest!: materials_section_ops)
  have g1: "StartLayers \<notin> set (geometry_section options model)"
    "StartMaterials \<notin> set (geometry_section options model)"
    "filter is_material_record (geometry_section options model) = []"
    "\<not> list_ex is_edge_record (geometry_section options model)"
    by (auto simp: list_ex_iff intro!: filter_none dest!: geometry_section_ops
        dest: entity_record_kinds)
  show ?thesis
    unfolding records_def document_def document_header
    by (simp add: l1 m1 g1 StartLayers_layers_section StartMaterials_materials_section
        StartGeometry_geometry_section materials_section_materials geometry_section_faces
        del: all_faces.simps)
qed

text \<open>
  A model with a layer, no material, and one edge as its only entity, converted with
  every toggle set.
\<close>

definition example_edges_only :: SUEntities where
  "example_edges_only =
     SUEntities SU_ERROR_NONE SU_ERROR_NONE [] SU_ERROR_NONE SU_ERROR_NONE []
       SU_ERROR_NONE SU_ERROR_NONE [] [example_edge]"

definition example_bare_model :: SUModel where
  "example_bare_model =
     SUModel (ok (8, 0, 4811)) SU_ERROR_NONE SU_ERROR_NONE [Some example_walls]
       SU_ERROR_NONE SU_ERROR_NONE [] (ok example_edges_only) (\<lambda>by_layer. ok 0)"

definition example_bare_world :: World where
  "example_bare_world =
     \<lparr>SUModelCreateFromFile = (\<lambda>path. ok example_bare_model),
      SUTextureWriterCreate = ok (SUTextureWriter SU_ERROR_NONE),
      file_Open = (\<lambda>path. True)\<rparr>"

lemmas example_bare_defs = example_bare_world_def example_bare_model_def
  example_edges_only_def

lemma example_bare_run:
  "fst (Convert example_bare_world ''model.skp'' ''model.xml'' None example_exporter) =
     Inr True"
  by (simp add: exporter_defs sdk_defs example_defs example_bare_defs WriteEntities_eval
      xtry_def eval_simps cancel_checks_def XmlLayerInfo_init_def)

text \<open>
  Claim C4 says that each toggle gates its output: the materials section is written
  if and only if the toggle for materials is set, and edge records if and only if the
  toggle for edges is set. In the conversion above both toggles are set, the model
  has an edge, and the document has neither a materials section nor an edge record:
  a model without materials gets no materials section, and no statement writes edges.
\<close>

theorem toggles_counterexample:
  "fst (Convert example_bare_world ''model.skp'' ''model.xml'' None example_exporter) =
     Inr True \<and>
   export_materials (m_options example_exporter) \<and>
   StartMaterials \<notin> set (written (trace (snd (Convert example_bare_world ''model.skp''
                                               ''model.xml'' None example_exporter)))) \<and>
   export_edges (m_options example_exporter) \<and>
   entities_edges (snd (SUModelGetEntities example_bare_model)) = [example_edge] \<and>
   \<not> list_ex is_edge_record
        (written (trace (snd (Convert example_bare_world ''model.skp'' ''model.xml'' None
                                example_exporter))))"
proof -
  have run: "Convert example_bare_world ''model.skp'' ''model.xml'' None example_exporter =
      (Inr True,
       snd (Convert example_bare_world ''model.skp'' ''model.xml'' None example_exporter))"
    using example_bare_run by (metis prod.collapse)
  from Convert_True_written[OF run] example_bare_run show ?thesis
    by (simp add: example_defs example_bare_defs document_def record_defs)
qed

text \<open>
  Claim C4, amended. In a conversion that succeeds: the layers section is written if
  and only if the toggle for layers is set; the materials section if and only if the
  toggle for materials is set and the list it is written from is not empty, which is
  the list of the layers when materials go by layer and the list of the materials of
  the model otherwise, and the material records are those of that list; the geometry
  section if and only if the toggle for faces or the toggle for edges is set; the
  records of all the faces of the model if the toggle for faces is set and no face
  record otherwise; and no edge record, whatever the toggle for edges.
\<close>

theorem toggles_gate_sections:
  assumes "Convert world src_file dst_file progress_callback st = (Inr True, st')"
  shows "\<exists>records.
     written (trace st') = written (trace st) @ records \<and>
     (StartLayers \<in> set records \<longleftrightarrow> export_layers (m_options st)) \<and>
     (StartMaterials \<in> set records \<longleftrightarrow>
        export_materials (m_options st) \<and>
        (if export_materials_by_layer (m_options st)
         then model_layers (snd (SUModelCreateFromFile world src_file)) \<noteq> []
         else model_materials (snd (SUModelCreateFromFile world src_file)) \<noteq> [])) \<and>
     filter is_material_record records =
       (if export_materials (m_options st) then
          (if export_materials_by_layer (m_options st)
           then concat (map layer_material_record
                          (model_layers (snd (SUModelCreateFromFile world src_file))))
           else concat (map material_record
                          (model_materials (snd (SUModelCreateFromFile world src_file)))))
        else []) \<and>
     (StartGeometry \<in> set records \<longleftrightarrow>
        export_faces (m_options st) \<or> export_edges (m_options st)) \<and>
     filter is_face_record records =
       (if export_faces (m_options st)
        then concat (map face_records
                       (all_faces (snd (SUModelGetEntities
                                          (snd (SUModelCreateFromFile world src_file))))))
        else []) \<and>
     \<not> list_ex is_edge_record records"
  using Convert_True_written[OF assms] document_toggles
  by blast

lemmas all_faces_eval = all_faces.simps[of "SUEntities a b c d e f g h i j"]
  for a b c d e f g h i j

theorem toggles_gate_sections_witness:
  "fst (Convert example_world ''model.skp'' ''model.xml'' (Some example_callback)
          example_exporter) = Inr True \<and>
   (\<exists>records.
      written (trace (snd (Convert example_world ''model.skp'' ''model.xml''
                             (Some example_callback) example_exporter))) = records \<and>
      StartLayers \<in> set records \<and> StartMaterials \<in> set records \<and>
      filter is_material_record records = [WriteMaterialInfo (material_info example_red)] \<and>
      StartGeometry \<in> set records \<and>
      filter is_face_record records =
        face_records (Some example_square) @ face_records (Some example_face) \<and>
      \<not> list_ex is_edge_record records)"
proof -
  have run: "Convert example_world ''model.skp'' ''model.xml'' (Some example_callback)
               example_exporter =
             (Inr True, snd (Convert example_world ''model.skp'' ''model.xml''
                               (Some example_callback) example_exporter))"
    using example_Convert_run by (metis prod.collapse)
  have model: "snd (SUModelCreateFromFile example_world ''model.skp'') = example_model"
    by (simp add: example_world_def ok_def)
  have faces: "all_faces example_entities = [Some example_square, Some example_face]"
    by (simp add: example_entities_def example_group_def example_nested_def all_faces_eval
        ok_def)
  from toggles_gate_sections[OF run] example_Convert_run show ?thesis
    unfolding model
    by (simp add: faces example_exporter_def example_options_def example_model_def
        material_record_def ok_def)
qed

section \<open>The progress reports\<close>

text \<open>
  The percentages and labels delivered to the callback, and the reports that
  \<^verbatim>\<open>Convert\<close> makes when there is a callback.
\<close>

fun delivered :: "event list \<Rightarrow> (double \<times> string) list" where
  "delivered [] = []"
| "delivered (Progress percent_done message # tr) = (percent_done, message) # delivered tr"
| "delivered (e # tr) = delivered tr"

definition progress_reports :: "Callback option \<Rightarrow> (double \<times> string) list" where
  "progress_reports progress_callback =
     (case progress_callback of
        None \<Rightarrow> []
      | Some cb \<Rightarrow>
          [(0, ''Writing Texture Files...''), (10, ''Writing Layers...''),
           (20, ''Writing Materials...''), (60, ''Writing Geometry...''),
           (100, ''Export Complete'')])"

lemma delivered_append [simp]: "delivered (tr @ tr') = delivered tr @ delivered tr'"
  by (induction tr rule: delivered.induct) auto

lemma delivered_inner_events: "list_all inner_event new \<Longrightarrow> delivered new = []"
  by (induction new rule: delivered.induct) auto

text \<open>
  \<open>delivers m reports\<close>: whatever its outcome, the call \<open>m\<close> delivers the first so many
  of the reports, in order, and all of them when it returns.
\<close>

definition delivers :: "'a effect \<Rightarrow> (double \<times> string) list \<Rightarrow> bool" where
  "delivers m reports =
     (\<forall>st r st'. m st = (r, st') \<longrightarrow>
        (\<exists>k. delivered (trace st') = delivered (trace st) @ take k reports) \<and>
        (\<forall>v. r = Inr v \<longrightarrow> delivered (trace st') = delivered (trace st) @ reports))"

lemma delivers_some:
  "delivers m reports \<Longrightarrow> m st = (r, st') \<Longrightarrow>
   \<exists>k. delivered (trace st') = delivered (trace st) @ take k reports"
  by (simp add: delivers_def)

lemma delivers_all:
  "delivers m reports \<Longrightarrow> m st = (Inr v, st') \<Longrightarrow>
   delivered (trace st') = delivered (trace st) @ reports"
  by (simp add: delivers_def)

lemma delivers_inner:
  assumes "behaves inner_event m"
  shows "delivers m []"
  unfolding delivers_def
proof (intro allI impI)
  fix st r st'
  assume "m st = (r, st')"
  with assms obtain new where "trace st' = trace st @ new" "list_all inner_event new"
    unfolding behaves_def by blast
  then have "delivered (trace st') = delivered (trace st)"
    by (simp add: delivered_inner_events)
  then show "(\<exists>k. delivered (trace st') = delivered (trace st) @ take k []) \<and>
             (\<forall>v. r = Inr v \<longrightarrow> delivered (trace st') = delivered (trace st) @ [])"
    by simp
qed

lemma delivers_HandleProgress:
  "delivers (HandleProgress progress_callback p msg)
     (case progress_callback of None \<Rightarrow> [] | Some cb \<Rightarrow> [(p, msg)])"
proof (cases progress_callback)
  case None
  then show ?thesis by (simp add: delivers_def HandleProgress_def run_simps)
next
  case (Some cb)
  show ?thesis
    unfolding delivers_def
  proof (intro allI impI)
    fix st r st'
    assume run: "HandleProgress progress_callback p msg st = (r, st')"
    show "(\<exists>k. delivered (trace st') =
                delivered (trace st) @
                take k (case progress_callback of None \<Rightarrow> [] | Some cb \<Rightarrow> [(p, msg)])) \<and>
          (\<forall>v. r = Inr v \<longrightarrow>
             delivered (trace st') =
               delivered (trace st) @
               (case progress_callback of None \<Rightarrow> [] | Some cb \<Rightarrow> [(p, msg)]))"
    proof (cases "HasBeenCancelled cb (cancel_checks (trace st))")
      case True
      with run Some have "r = Inl Cancelled_exception" "delivered (trace st') = delivered (trace st)"
        by (auto simp: HandleProgress_def query_cancelled_def xbind_def run_simps)
      with Some show ?thesis by (auto intro: exI[of _ 0])
    next
      case False
      with run Some have "delivered (trace st') = delivered (trace st) @ [(p, msg)]"
        by (auto simp: HandleProgress_def query_cancelled_def xbind_def run_simps)
      with Some show ?thesis by (auto intro: exI[of _ 1])
    qed
  qed
qed

lemma delivers_close:
  "delivers (xbind (IsCancelled progress_callback) (\<lambda>cancelled. file_call (Close cancelled))) []"
  unfolding delivers_def
proof (intro allI impI)
  fix st r st'
  assume run: "xbind (IsCancelled progress_callback) (\<lambda>cancelled. file_call (Close cancelled)) st =
                 (r, st')"
  have "delivered (trace st') = delivered (trace st)"
  proof (cases progress_callback)
    case None
    with run show ?thesis
      by (simp add: IsCancelled_def xbind_def run_simps) auto
  next
    case (Some cb)
    with run show ?thesis
      by (simp add: IsCancelled_def query_cancelled_def xbind_def run_simps) auto
  qed
  then show "(\<exists>k. delivered (trace st') = delivered (trace st) @ take k []) \<and>
             (\<forall>v. r = Inr v \<longrightarrow> delivered (trace st') = delivered (trace st) @ [])"
    by simp
qed

lemma delivers_seq_Nil: "delivers (xseq []) []"
  by (simp add: delivers_def run_simps)

lemma delivers_seq_Cons:
  assumes m: "delivers m reports1" and ms: "delivers (xseq ms) reports2"
  shows "delivers (xseq (m # ms)) (reports1 @ reports2)"
  unfolding delivers_def
proof (intro allI impI)
  fix st r st'
  assume run: "xseq (m # ms) st = (r, st')"
  obtain r1 s1 where m1: "m st = (r1, s1)" by (cases "m st")
  from delivers_some[OF m m1] obtain k where
    k: "delivered (trace s1) = delivered (trace st) @ take k reports1"
    by blast
  show "(\<exists>k. delivered (trace st') = delivered (trace st) @ take k (reports1 @ reports2)) \<and>
        (\<forall>v. r = Inr v \<longrightarrow> delivered (trace st') = delivered (trace st) @ reports1 @ reports2)"
  proof (cases r1)
    case (Inl e)
    with run m1 have r: "r = Inl e" and st': "st' = s1" by (auto simp: xbind_def)
    have eq: "take (min k (length reports1)) (reports1 @ reports2) = take k reports1"
      by (cases "k \<le> length reports1") (simp_all add: min_def)
    have some: "delivered (trace st') =
        delivered (trace st) @ take (min k (length reports1)) (reports1 @ reports2)"
      unfolding eq st' by (rule k)
    have no: "r \<noteq> Inr v" for v
      unfolding r by simp
    from some have "\<exists>k. delivered (trace st') = delivered (trace st) @ take k (reports1 @ reports2)"
      by (rule exI)
    with no show ?thesis by simp
  next
    case (Inr v)
    with run m1 have rest: "xseq ms s1 = (r, st')" by (auto simp: xbind_def)
    from delivers_some[OF ms rest] obtain j where
      j: "delivered (trace st') = delivered (trace s1) @ take j reports2"
      by blast
    have s1: "delivered (trace s1) = delivered (trace st) @ reports1"
      using delivers_all[OF m] m1 Inr by simp
    have eq: "take (length reports1 + j) (reports1 @ reports2) = reports1 @ take j reports2"
      by simp
    have "delivered (trace st') =
        delivered (trace st) @ take (length reports1 + j) (reports1 @ reports2)"
      unfolding eq j s1 by simp
    then have "\<exists>k. delivered (trace st') = delivered (trace st) @ take k (reports1 @ reports2)"
      by (rule exI)
    moreover have "delivered (trace st') = delivered (trace st) @ reports1 @ reports2"
      if "r = Inr w" for w
      using delivers_all[OF ms] rest that s1 by simp
    ultimately show ?thesis by simp
  qed
qed

lemma delivers_Convert_phases:
  "delivers (Convert_phases progress_callback) (progress_reports progress_callback)"
proof -
  have "delivers (Convert_phases progress_callback)
          ((case progress_callback of None \<Rightarrow> []
            | Some cb \<Rightarrow> [(0, ''Writing Texture Files...'')]) @ [] @ [] @
           (case progress_callback of None \<Rightarrow> [] | Some cb \<Rightarrow> [(10, ''Writing Layers...'')]) @
           [] @
           (case progress_callback of None \<Rightarrow> []
            | Some cb \<Rightarrow> [(20, ''Writing Materials...'')]) @ [] @
           (case progress_callback of None \<Rightarrow> []
            | Some cb \<Rightarrow> [(60, ''Writing Geometry...'')]) @ [] @ [] @
           (case progress_callback of None \<Rightarrow> [] | Some cb \<Rightarrow> [(100, ''Export Complete'')]) @
           [])"
    unfolding Convert_phases_def
    by (intro delivers_seq_Cons delivers_seq_Nil delivers_HandleProgress delivers_close
        delivers_inner behaves_WriteTextureFiles behaves_WriteLayers behaves_WriteMaterials
        behaves_WriteGeometry behaves_intros)
       simp_all
  then show ?thesis
    by (simp add: progress_reports_def split: option.splits)
qed

section \<open>Every way a conversion can end\<close>

text \<open>
  \<^verbatim>\<open>Convert\<close> ends in one of five ways: the model cannot be created; the texture
  writer cannot be created; the destination file cannot be opened; the phases run to
  their end; or a phase throws. In each the trace of the call is known up to the
  events of the phases, of which the progress reports are known.
\<close>

lemma Convert_cases:
  assumes run: "Convert world src_file dst_file progress_callback st = (r, st')"
  obtains
    (no_model)
      "fst (SUModelCreateFromFile world src_file) \<noteq> SU_ERROR_NONE" and "r = Inr False" and
      "st' = st\<lparr>m_model := None, m_texture_writer := None,
                trace := trace st @
                  [Lifecycle SUInitialize,
                   Sdk ''SUModelCreateFromFile'' Wrapped (fst (SUModelCreateFromFile world src_file)),
                   File (Close True)] @
                  (if m_texture_writer st \<noteq> None then [Lifecycle SUTextureWriterRelease] else []) @
                  [Lifecycle SUTerminate]\<rparr>"
  | (no_writer)
      "fst (SUModelCreateFromFile world src_file) = SU_ERROR_NONE" and
      "fst (SUTextureWriterCreate world) \<noteq> SU_ERROR_NONE" and "r = Inr False" and
      "st' = st\<lparr>m_model := None, m_texture_writer := None,
                trace := trace st @
                  [Lifecycle SUInitialize,
                   Sdk ''SUModelCreateFromFile'' Wrapped SU_ERROR_NONE,
                   Sdk ''SUTextureWriterCreate'' Wrapped (fst (SUTextureWriterCreate world)),
                   File (Close True), Lifecycle SUModelRelease, Lifecycle SUTerminate]\<rparr>"
  | (not_opened)
      "fst (SUModelCreateFromFile world src_file) = SU_ERROR_NONE" and
      "fst (SUTextureWriterCreate world) = SU_ERROR_NONE" and
      "\<not> file_Open world dst_file" and "r = Inr False" and
      "st' = st\<lparr>m_model := None, m_texture_writer := None,
                trace := trace st @
                  [Lifecycle SUInitialize,
                   Sdk ''SUModelCreateFromFile'' Wrapped SU_ERROR_NONE,
                   Sdk ''SUTextureWriterCreate'' Wrapped SU_ERROR_NONE,
                   File (Open dst_file), Lifecycle SUTextureWriterRelease,
                   Lifecycle SUModelRelease, Lifecycle SUTerminate]\<rparr>"
  | (exported) new where
      "fst (SUModelCreateFromFile world src_file) = SU_ERROR_NONE" and
      "fst (SUTextureWriterCreate world) = SU_ERROR_NONE" and
      "file_Open world dst_file" and "r = Inr True" and
      "list_all phase_event new" and "clean new" and
      "trace st' = trace st @
                  [Lifecycle SUInitialize,
                   Sdk ''SUModelCreateFromFile'' Wrapped SU_ERROR_NONE,
                   Sdk ''SUTextureWriterCreate'' Wrapped SU_ERROR_NONE,
                   File (Open dst_file)] @ new @
                  [Lifecycle SUTextureWriterRelease, Lifecycle SUModelRelease,
                   Lifecycle SUTerminate]" and
      "m_model st' = None" and "m_texture_writer st' = None" and
      "delivered new = progress_reports progress_callback"
  | (abandoned) new e where
      "fst (SUModelCreateFromFile world src_file) = SU_ERROR_NONE" and
      "fst (SUTextureWriterCreate world) = SU_ERROR_NONE" and
      "file_Open world dst_file" and "r = Inr False" and
      "list_all phase_event new" and "outcome_ok (Inl e :: exn + unit) new" and
      "trace st' = trace st @
                  [Lifecycle SUInitialize,
                   Sdk ''SUModelCreateFromFile'' Wrapped SU_ERROR_NONE,
                   Sdk ''SUTextureWriterCreate'' Wrapped SU_ERROR_NONE,
                   File (Open dst_file)] @ new @
                  [File (Close True), Lifecycle SUTextureWriterRelease,
                   Lifecycle SUModelRelease, Lifecycle SUTerminate]" and
      "m_model st' = None" and "m_texture_writer st' = None" and
      "\<exists>k. delivered new = take k (progress_reports progress_callback)"
proof -
  define s0 where
    "s0 = st\<lparr>m_model := Some (snd (SUModelCreateFromFile world src_file)),
             m_texture_writer := Some (snd (SUTextureWriterCreate world)),
             trace := trace st @
               [Lifecycle SUInitialize, Sdk ''SUModelCreateFromFile'' Wrapped SU_ERROR_NONE,
                Sdk ''SUTextureWriterCreate'' Wrapped SU_ERROR_NONE, File (Open dst_file)]\<rparr>"
  consider
    (a) "fst (SUModelCreateFromFile world src_file) \<noteq> SU_ERROR_NONE"
    | (b) "fst (SUModelCreateFromFile world src_file) = SU_ERROR_NONE"
          "fst (SUTextureWriterCreate world) \<noteq> SU_ERROR_NONE"
    | (c) "fst (SUModelCreateFromFile world src_file) = SU_ERROR_NONE"
          "fst (SUTextureWriterCreate world) = SU_ERROR_NONE" "\<not> file_Open world dst_file"
    | (d) "fst (SUModelCreateFromFile world src_file) = SU_ERROR_NONE"
          "fst (SUTextureWriterCreate world) = SU_ERROR_NONE" "file_Open world dst_file"
    by blast
  then show thesis
  proof cases
    case a
    with run have "r = Inr False \<and>
      st' = st\<lparr>m_model := None, m_texture_writer := None,
                trace := trace st @
                  [Lifecycle SUInitialize,
                   Sdk ''SUModelCreateFromFile'' Wrapped (fst (SUModelCreateFromFile world src_file)),
                   File (Close True)] @
                  (if m_texture_writer st \<noteq> None then [Lifecycle SUTextureWriterRelease] else []) @
                  [Lifecycle SUTerminate]\<rparr>"
      by (auto simp: Convert_def Convert_try_def xbind_def xtry_def run_simps
          ReleaseModelObjects_apply)
    with a show thesis by (intro no_model) simp_all
  next
    case b
    with run have "r = Inr False \<and>
      st' = st\<lparr>m_model := None, m_texture_writer := None,
                trace := trace st @
                  [Lifecycle SUInitialize,
                   Sdk ''SUModelCreateFromFile'' Wrapped SU_ERROR_NONE,
                   Sdk ''SUTextureWriterCreate'' Wrapped (fst (SUTextureWriterCreate world)),
                   File (Close True), Lifecycle SUModelRelease, Lifecycle SUTerminate]\<rparr>"
      by (auto simp: Convert_def Convert_try_def xbind_def xtry_def run_simps
          ReleaseModelObjects_apply)
    with b show thesis by (intro no_writer) simp_all
  next
    case c
    with run have "r = Inr False \<and>
      st' = st\<lparr>m_model := None, m_texture_writer := None,
                trace := trace st @
                  [Lifecycle SUInitialize,
                   Sdk ''SUModelCreateFromFile'' Wrapped SU_ERROR_NONE,
                   Sdk ''SUTextureWriterCreate'' Wrapped SU_ERROR_NONE,
                   File (Open dst_file), Lifecycle SUTextureWriterRelease,
                   Lifecycle SUModelRelease, Lifecycle SUTerminate]\<rparr>"
      by (auto simp: Convert_def Convert_try_def xbind_def xtry_def run_simps
          ReleaseModelObjects_apply)
    with c show thesis by (intro not_opened) simp_all
  next
    case d
    obtain r' s1 where phases: "Convert_phases progress_callback s0 = (r', s1)"
      by (cases "Convert_phases progress_callback s0")
    from behaves_Convert_phases phases obtain new where
      kept: "m_model s1 = m_model s0" "m_texture_writer s1 = m_texture_writer s0"
      and new: "trace s1 = trace s0 @ new" "list_all phase_event new" "outcome_ok r' new"
      unfolding behaves_def by blast
    from delivers_some[OF delivers_Convert_phases phases] new(1)
    have some: "\<exists>k. delivered new = take k (progress_reports progress_callback)"
      by simp
    show thesis
    proof (cases r')
      case (Inr u)
      with phases have "Convert_phases progress_callback s0 = (Inr u, s1)"
        by simp
      from delivers_all[OF delivers_Convert_phases this] new(1)
      have "delivered new = progress_reports progress_callback"
        by simp
      moreover from Inr run d phases have "r = Inr True" and
        "st' = s1\<lparr>m_texture_writer := None, m_model := None,
                   trace := trace s1 @
                     (if m_texture_writer s1 \<noteq> None then [Lifecycle SUTextureWriterRelease] else []) @
                     (if m_model s1 \<noteq> None then [Lifecycle SUModelRelease] else []) @
                     [Lifecycle SUTerminate]\<rparr>"
        by (auto simp: Convert_def Convert_try_def xbind_def xtry_def run_simps
            ReleaseModelObjects_apply s0_def)
      ultimately show thesis
        using d kept new Inr
        by (intro exported[of new]) (simp_all add: s0_def)
    next
      case (Inl e)
      with run d phases have "r = Inr False" and
        "st' = s1\<lparr>m_texture_writer := None, m_model := None,
                   trace := trace s1 @ [File (Close True)] @
                     (if m_texture_writer s1 \<noteq> None then [Lifecycle SUTextureWriterRelease] else []) @
                     (if m_model s1 \<noteq> None then [Lifecycle SUModelRelease] else []) @
                     [Lifecycle SUTerminate]\<rparr>"
        by (auto simp: Convert_def Convert_try_def xbind_def xtry_def run_simps
            ReleaseModelObjects_apply s0_def)
      moreover from new Inl have "outcome_ok (Inl e :: exn + unit) new"
        by (auto intro: outcome_ok_Inl)
      ultimately show thesis
        using d kept new some
        by (intro abandoned[of new e]) (simp_all add: s0_def)
    qed
  qed
qed

section \<open>The SDK session\<close>

text \<open>
  The calls of a run that start and end the SDK session and release its objects.
  \<^verbatim>\<open>SUTerminate\<close> is called by \<^verbatim>\<open>ReleaseModelObjects\<close> and by nothing else, once
  in each execution.
\<close>

fun session :: "event list \<Rightarrow> lifecycle list" where
  "session [] = []"
| "session (Lifecycle l # tr) = l # session tr"
| "session (e # tr) = session tr"

lemma session_append [simp]: "session (tr @ tr') = session tr @ session tr'"
  by (induction tr rule: session.induct) auto

lemma session_phase_events: "list_all phase_event new \<Longrightarrow> session new = []"
  by (induction new rule: session.induct) auto

text \<open>
  Claim C2. For every invocation of \<^verbatim>\<open>Convert\<close>, on every exit path (a successful
  export, the early return when the destination file fails to open, an exception from
  any SDK call), \<^verbatim>\<open>ReleaseModelObjects\<close> is executed exactly once before
  \<^verbatim>\<open>Convert\<close> returns, releasing the texture writer and the model and terminating
  the SDK session. The session of the call is its start, the release of what is
  there to release, each object once, and the termination as the last event of the
  call; the model and the texture writer are released when they were created, and
  both references are invalid afterwards.
\<close>

theorem ReleaseModelObjects_once_on_every_path:
  assumes "Convert world src_file dst_file progress_callback st = (r, st')"
  shows "\<exists>released.
           session (trace st') =
             session (trace st) @ [SUInitialize] @ released @ [SUTerminate] \<and>
           set released \<subseteq> {SUTextureWriterRelease, SUModelRelease} \<and> distinct released \<and>
           (fst (SUModelCreateFromFile world src_file) = SU_ERROR_NONE \<longrightarrow>
              SUModelRelease \<in> set released) \<and>
           (fst (SUModelCreateFromFile world src_file) = SU_ERROR_NONE \<and>
            fst (SUTextureWriterCreate world) = SU_ERROR_NONE \<longrightarrow>
              SUTextureWriterRelease \<in> set released) \<and>
           last (trace st') = Lifecycle SUTerminate \<and>
           m_model st' = None \<and> m_texture_writer st' = None"
  using assms
proof (cases rule: Convert_cases)
  case no_model
  then show ?thesis
    by (intro exI[of _ "if m_texture_writer st \<noteq> None then [SUTextureWriterRelease] else []"])
       simp
next
  case no_writer
  then show ?thesis
    by (intro exI[of _ "[SUModelRelease]"]) simp
next
  case not_opened
  then show ?thesis
    by (intro exI[of _ "[SUTextureWriterRelease, SUModelRelease]"]) simp
next
  case (exported new)
  then show ?thesis
    by (intro exI[of _ "[SUTextureWriterRelease, SUModelRelease]"])
       (simp add: session_phase_events)
next
  case (abandoned new e)
  then show ?thesis
    by (intro exI[of _ "[SUTextureWriterRelease, SUModelRelease]"])
       (simp add: session_phase_events)
qed

text \<open>
  The three exit paths on the model of the examples: the export succeeds; the
  destination file cannot be opened; the model cannot be read.
\<close>

definition example_unwritable :: World where
  "example_unwritable = example_world\<lparr>file_Open := (\<lambda>path. False)\<rparr>"

definition example_unreadable :: World where
  "example_unreadable =
     example_world\<lparr>SUModelCreateFromFile := (\<lambda>path. (SU_ERROR 7, example_model))\<rparr>"

lemma example_unwritable_run:
  "fst (Convert example_unwritable ''model.skp'' ''model.xml'' None example_exporter) =
     Inr False"
  by (simp add: Convert_def Convert_try_def ReleaseModelObjects_def example_unwritable_def
      example_world_def example_exporter_def ok_def xtry_def eval_simps)

lemma example_unreadable_run:
  "fst (Convert example_unreadable ''model.skp'' ''model.xml'' None example_exporter) =
     Inr False"
  by (simp add: Convert_def Convert_try_def ReleaseModelObjects_def example_unreadable_def
      example_world_def example_exporter_def ok_def xtry_def eval_simps)

theorem ReleaseModelObjects_once_on_every_path_witness:
  "fst (Convert example_world ''model.skp'' ''model.xml'' (Some example_callback)
          example_exporter) = Inr True \<and>
   (\<exists>released.
      session (trace (snd (Convert example_world ''model.skp'' ''model.xml''
                             (Some example_callback) example_exporter))) =
        [SUInitialize] @ released @ [SUTerminate] \<and>
      set released = {SUTextureWriterRelease, SUModelRelease} \<and> distinct released) \<and>
   fst (Convert example_unwritable ''model.skp'' ''model.xml'' None example_exporter) =
     Inr False \<and>
   (\<exists>released.
      session (trace (snd (Convert example_unwritable ''model.skp'' ''model.xml'' None
                             example_exporter))) =
        [SUInitialize] @ released @ [SUTerminate] \<and>
      set released = {SUTextureWriterRelease, SUModelRelease} \<and> distinct released) \<and>
   fst (Convert example_unreadable ''model.skp'' ''model.xml'' None example_exporter) =
     Inr False \<and>
   (\<exists>released.
      session (trace (snd (Convert example_unreadable ''model.skp'' ''model.xml'' None
                             example_exporter))) =
        [SUInitialize] @ released @ [SUTerminate] \<and>
      set released \<subseteq> {SUTextureWriterRelease, SUModelRelease} \<and> distinct released) \<and>
   m_model (snd (Convert example_unreadable ''model.skp'' ''model.xml'' None
                   example_exporter)) = None \<and>
   m_texture_writer (snd (Convert example_unreadable ''model.skp'' ''model.xml'' None
                            example_exporter)) = None"
proof -
  have run1: "Convert example_world ''model.skp'' ''model.xml'' (Some example_callback)
               example_exporter =
             (Inr True, snd (Convert example_world ''model.skp'' ''model.xml''
                               (Some example_callback) example_exporter))"
    using example_Convert_run by (metis prod.collapse)
  have run2: "Convert example_unwritable ''model.skp'' ''model.xml'' None example_exporter =
      (Inr False,
       snd (Convert example_unwritable ''model.skp'' ''model.xml'' None example_exporter))"
    using example_unwritable_run by (metis prod.collapse)
  have run3: "Convert example_unreadable ''model.skp'' ''model.xml'' None example_exporter =
      (Inr False,
       snd (Convert example_unreadable ''model.skp'' ''model.xml'' None example_exporter))"
    using example_unreadable_run by (metis prod.collapse)
  have ok1: "fst (SUModelCreateFromFile example_world ''model.skp'') = SU_ERROR_NONE"
    "fst (SUTextureWriterCreate example_world) = SU_ERROR_NONE"
    "fst (SUModelCreateFromFile example_unwritable ''model.skp'') = SU_ERROR_NONE"
    "fst (SUTextureWriterCreate example_unwritable) = SU_ERROR_NONE"
    "trace example_exporter = []"
    by (simp_all add: example_world_def example_unwritable_def example_exporter_def ok_def)
  from ReleaseModelObjects_once_on_every_path[OF run1] obtain released1 where
    "session (trace (snd (Convert example_world ''model.skp'' ''model.xml''
                             (Some example_callback) example_exporter))) =
        [SUInitialize] @ released1 @ [SUTerminate]"
    "set released1 = {SUTextureWriterRelease, SUModelRelease}" "distinct released1"
    unfolding ok1 by auto
  moreover
  from ReleaseModelObjects_once_on_every_path[OF run2] obtain released2 where
    "session (trace (snd (Convert example_unwritable ''model.skp'' ''model.xml'' None
                             example_exporter))) =
        [SUInitialize] @ released2 @ [SUTerminate]"
    "set released2 = {SUTextureWriterRelease, SUModelRelease}" "distinct released2"
    unfolding ok1 by auto
  moreover
  from ReleaseModelObjects_once_on_every_path[OF run3] obtain released3 where
    "session (trace (snd (Convert example_unreadable ''model.skp'' ''model.xml'' None
                             example_exporter))) =
        [SUInitialize] @ released3 @ [SUTerminate]"
    "set released3 \<subseteq> {SUTextureWriterRelease, SUModelRelease}" "distinct released3"
    "m_model (snd (Convert example_unreadable ''model.skp'' ''model.xml'' None
                   example_exporter)) = None"
    "m_texture_writer (snd (Convert example_unreadable ''model.skp'' ''model.xml'' None
                            example_exporter)) = None"
    unfolding ok1 by auto
  ultimately show ?thesis
    using example_Convert_run example_unwritable_run example_unreadable_run by blast
qed

section \<open>Failures of the SDK\<close>

















section \<open>The progress reports of a conversion\<close>

lemma progress_reports_increase:
  "sorted_wrt (<) (map fst (take k (progress_reports progress_callback)))"
proof -
  have "sorted_wrt (<) (map fst (progress_reports progress_callback))"
    by (cases progress_callback) (simp_all add: progress_reports_def)
  then have "sorted_wrt (<) (take k (map fst (progress_reports progress_callback)))"
    by (rule sorted_wrt_take)
  then show ?thesis by (simp add: take_map)
qed

lemma progress_reports_range:
  assumes "(percent_done, message) \<in> set (take k (progress_reports progress_callback))"
  shows "0 \<le> percent_done \<and> percent_done \<le> 100 \<and> message \<noteq> []"
proof -
  from assms have "(percent_done, message) \<in> set (progress_reports progress_callback)"
    by (rule in_set_takeD)
  then show ?thesis
    by (cases progress_callback) (auto simp: progress_reports_def)
qed

text \<open>
  Claim C5. In every invocation of \<^verbatim>\<open>Convert\<close>, however it ends, the percentages
  delivered to the progress callback are strictly increasing, each lies between 0 and
  100, and each comes with a phase label that is not empty: the reports delivered are
  the first so many of the five that \<^verbatim>\<open>Convert\<close> makes. In an invocation that runs
  to completion, so that \<^verbatim>\<open>Convert\<close> returns true, all five are delivered when there
  is a callback: 0, 10, 20, 60 and 100, with the labels of the phases.
\<close>

theorem progress_increases_within_range:
  assumes "Convert world src_file dst_file progress_callback st = (r, st')"
  shows "\<exists>reports.
           delivered (trace st') = delivered (trace st) @ reports \<and>
           sorted_wrt (<) (map fst reports) \<and>
           (\<forall>(percent_done, message) \<in> set reports.
              0 \<le> percent_done \<and> percent_done \<le> 100 \<and> message \<noteq> []) \<and>
           (r = Inr True \<longrightarrow> reports = progress_reports progress_callback)"
proof -
  have "\<exists>k. delivered (trace st') = delivered (trace st) @ take k (progress_reports progress_callback) \<and>
            (r = Inr True \<longrightarrow>
               take k (progress_reports progress_callback) = progress_reports progress_callback)"
    using assms
  proof (cases rule: Convert_cases)
    case no_model
    then have "delivered (trace st') = delivered (trace st) @ take 0 (progress_reports progress_callback)"
      "r \<noteq> Inr True"
      by simp_all
    then show ?thesis by blast
  next
    case no_writer
    then have "delivered (trace st') = delivered (trace st) @ take 0 (progress_reports progress_callback)"
      "r \<noteq> Inr True"
      by simp_all
    then show ?thesis by blast
  next
    case not_opened
    then have "delivered (trace st') = delivered (trace st) @ take 0 (progress_reports progress_callback)"
      "r \<noteq> Inr True"
      by simp_all
    then show ?thesis by blast
  next
    case (exported new)
    then have "delivered (trace st') =
        delivered (trace st) @
        take (length (progress_reports progress_callback)) (progress_reports progress_callback)"
      by simp
    moreover have "take (length (progress_reports progress_callback))
                     (progress_reports progress_callback) =
                   progress_reports progress_callback"
      by simp
    ultimately show ?thesis by blast
  next
    case (abandoned new e)
    from abandoned(10) obtain k where "delivered new = take k (progress_reports progress_callback)"
      by blast
    with abandoned(7) have "delivered (trace st') =
        delivered (trace st) @ take k (progress_reports progress_callback)"
      by simp
    moreover from abandoned(4) have "r \<noteq> Inr True" by simp
    ultimately show ?thesis by blast
  qed
  then obtain k where
    k: "delivered (trace st') = delivered (trace st) @ take k (progress_reports progress_callback)"
    and all: "r = Inr True \<longrightarrow>
              take k (progress_reports progress_callback) = progress_reports progress_callback"
    by blast
  have "\<forall>(percent_done, message) \<in> set (take k (progress_reports progress_callback)).
          0 \<le> percent_done \<and> percent_done \<le> 100 \<and> message \<noteq> []"
    using progress_reports_range by blast
  with k all progress_reports_increase[of k progress_callback] show ?thesis
    by (intro exI[of _ "take k (progress_reports progress_callback)"] conjI)
qed

text \<open>
  The conversion of the example model with a callback that never cancels delivers the
  five reports.
\<close>

theorem progress_increases_within_range_witness:
  "fst (Convert example_world ''model.skp'' ''model.xml'' (Some example_callback)
          example_exporter) = Inr True \<and>
   delivered (trace (snd (Convert example_world ''model.skp'' ''model.xml''
                            (Some example_callback) example_exporter))) =
     [(0, ''Writing Texture Files...''), (10, ''Writing Layers...''),
      (20, ''Writing Materials...''), (60, ''Writing Geometry...''),
      (100, ''Export Complete'')]"
proof -
  have run: "Convert example_world ''model.skp'' ''model.xml'' (Some example_callback)
               example_exporter =
             (Inr True, snd (Convert example_world ''model.skp'' ''model.xml''
                               (Some example_callback) example_exporter))"
    using example_Convert_run by (metis prod.collapse)
  from progress_increases_within_range[OF run] example_Convert_run show ?thesis
    by (auto simp: example_exporter_def progress_reports_def)
qed

section \<open>The cancellation flag\<close>

text \<open>
  The milestones of a run: the checks of the cancellation flag, the start of each
  phase (the texture files once they are written, the file header, the start of the
  layers, of the materials and of the geometry) and the closing of the file.
\<close>

fun is_milestone :: "event \<Rightarrow> bool" where
  "is_milestone (CancelCheck b) = True"
| "is_milestone (File (Close b)) = True"
| "is_milestone (File (WriteHeader major_ver minor_ver build_no)) = True"
| "is_milestone (File StartLayers) = True"
| "is_milestone (File StartMaterials) = True"
| "is_milestone (File StartGeometry) = True"
| "is_milestone (Sdk name use r) =
     (name = ''SUTextureWriterWriteAllTextures'' \<and> r = SU_ERROR_NONE)"
| "is_milestone _ = False"

definition milestones :: "event list \<Rightarrow> event list" where
  "milestones tr = filter is_milestone tr"

lemma milestones_simps [simp]:
  "milestones [] = []" "milestones (tr @ tr') = milestones tr @ milestones tr'"
  "milestones (e # tr) = (if is_milestone e then e # milestones tr else milestones tr)"
  by (simp_all add: milestones_def)




































section \<open>The milestones of the phases\<close>








section \<open>Checks and phases in sequence\<close>












section \<open>The checks of a conversion\<close>











lemma milestones_Lifecycle [simp]: "milestones (map Lifecycle ls) = []"
  by (induction ls) auto

lemma clean_Lifecycle [simp]: "clean (map Lifecycle ls)"
  by (induction ls) auto

lemma cancel_checks_Lifecycle [simp]: "cancel_checks (map Lifecycle ls) = 0"
  by (induction ls) auto








end
